theory Spec2Isabelle
  imports Complex_Main
begin

section \<open>Scalars, points, matrices and failures\<close>

text \<open>
  The evaluators of \<^verbatim>\<open>fe_values.cc\<close> compute with \<^verbatim>\<open>double\<close>. The scalar type is
  kept as a type parameter \<open>'a\<close> with the operations the code uses (\<open>0\<close>, \<open>+\<close>, \<open>*\<close>,
  \<open>/\<close>); algebraic laws are assumed only by the theorems that name them in their sort.

  The template parameter \<^verbatim>\<open>dim\<close> is the argument \<open>dm\<close> of every operation.
  A \<^verbatim>\<open>Point<dim>\<close> is the list of its \<open>dm\<close> coordinates, \<^verbatim>\<open>p(s)\<close> is \<open>p ! s\<close>, the
  default point \<^verbatim>\<open>Point<dim>()\<close> has all coordinates zero (\<^verbatim>\<open>grid/point.h\<close> is not among
  the sources), \<^verbatim>\<open>Point<2>(x,y)\<close> is \<open>[x, y]\<close>. A \<^verbatim>\<open>vector<T>\<close> is a list.
\<close>

type_synonym 'a Point = "'a list"

definition Point_default :: "nat \<Rightarrow> 'a::zero Point" where
  "Point_default dm = replicate dm 0"

text \<open>
  \<^verbatim>\<open>dFMatrix\<close> (\<^verbatim>\<open>lac/dfmatrix.h\<close>) is used through its constructor \<^verbatim>\<open>dFMatrix(m,n)\<close>, its
  sizes \<^verbatim>\<open>m()\<close>, \<^verbatim>\<open>n()\<close> and its element access \<^verbatim>\<open>A(i,j)\<close>; its \<^verbatim>\<open>determinant()\<close> is a
  parameter of the operations that call it.
\<close>

record 'a dFMatrix =
  mat_m :: nat
  mat_n :: nat
  mat_el :: "nat \<Rightarrow> nat \<Rightarrow> 'a"

definition dFMatrix_init :: "nat \<Rightarrow> nat \<Rightarrow> 'a::zero dFMatrix" where
  "dFMatrix_init m n = \<lparr>mat_m = m, mat_n = n, mat_el = (\<lambda>i j. 0)\<rparr>"

definition mat_set :: "'a dFMatrix \<Rightarrow> nat \<Rightarrow> nat \<Rightarrow> 'a \<Rightarrow> 'a dFMatrix" where
  "mat_set A i j v = A\<lparr>mat_el := (mat_el A)(i := (mat_el A i)(j := v))\<rparr>"

text \<open>
  Element-wise writes into a \<^verbatim>\<open>vector<vector<Point<dim> > >\<close>:
  \<^verbatim>\<open>g[i][j](s) = v\<close> and \<^verbatim>\<open>g[i][j] = p\<close>.
\<close>

definition upd3 :: "'a Point list list \<Rightarrow> nat \<Rightarrow> nat \<Rightarrow> nat \<Rightarrow> 'a \<Rightarrow> 'a Point list list" where
  "upd3 g i j s v = g[i := (g ! i)[j := (g ! i ! j)[s := v]]]"

definition upd2 :: "'x list list \<Rightarrow> nat \<Rightarrow> nat \<Rightarrow> 'x \<Rightarrow> 'x list list" where
  "upd2 g i j p = g[i := (g ! i)[j := p]]"

text \<open>
  Modelled from the spec: the macro \<^verbatim>\<open>Assert\<close> and the exception classes of
  \<^verbatim>\<open>base/exceptions.h\<close> are not among the sources. A violated \<^verbatim>\<open>Assert (cond, exc)\<close>
  aborts the computation with \<open>exc\<close> (section 7 of the specification: the errors abort
  immediately and identifiably); every operation that contains one returns
  \<open>failure + result\<close>, the failure on the left. The documentation of the class
  \<^verbatim>\<open>FEValues\<close> says that the accessors check in debug mode; the model is of that mode.

  Two more outcomes are not exceptions of the library. \<open>ArrayOutOfBounds\<close> marks an
  index into one of the per-face C arrays (\<^verbatim>\<open>shape_values[2*dim]\<close> and its siblings)
  that is not below the array's size; \<open>DivisionByZero\<close> marks a floating-point division
  whose divisor is zero, which has no finite result. The vectors are indexed by loop
  counters that stay below the sizes given at construction, and are read with \<open>!\<close>.
\<close>

datatype failure =
    ExcInvalidIndex nat nat
  | ExcAccessToUninitializedField
  | ExcCannotInitializeField
  | ExcInternalError
  | ExcNotImplemented
  | ArrayOutOfBounds
  | DivisionByZero

definition array_at :: "'x list \<Rightarrow> nat \<Rightarrow> failure + 'x" where
  "array_at xs k = (if k < length xs then Inr (xs ! k) else Inl ArrayOutOfBounds)"

text \<open>
  Modelled from the spec: \<^verbatim>\<open>fe/fe_update_flags.h\<close> is not among the sources.
  \<^verbatim>\<open>UpdateFlags\<close> is the set of requested tags (section 3 of the specification), the
  tags being the ones \<^verbatim>\<open>fe_values.cc\<close> tests; \<^verbatim>\<open>update_flags & tag\<close> is membership.
\<close>

datatype UpdateFlag =
    update_q_points
  | update_gradients
  | update_jacobians
  | update_JxW_values
  | update_ansatz_points
  | update_normal_vectors

type_synonym UpdateFlags = "UpdateFlag set"

subsection \<open>Counting loops\<close>

text \<open>
  \<^verbatim>\<open>for (unsigned int k=0; k<n; ++k) body\<close>, on a state \<open>s\<close>; the second form is for a
  body that can fail, and stops at the first failure.
\<close>

primrec for_loop :: "nat \<Rightarrow> (nat \<Rightarrow> 's \<Rightarrow> 's) \<Rightarrow> 's \<Rightarrow> 's" where
  "for_loop 0 body s = s"
| "for_loop (Suc k) body s = body k (for_loop k body s)"

primrec for_loop_chk :: "nat \<Rightarrow> (nat \<Rightarrow> 's \<Rightarrow> failure + 's) \<Rightarrow> 's \<Rightarrow> failure + 's" where
  "for_loop_chk 0 body s = Inr s"
| "for_loop_chk (Suc k) body s =
     (case for_loop_chk k body s of Inl e \<Rightarrow> Inl e | Inr s' \<Rightarrow> body k s')"

section \<open>The collaborators: quadrature rule and finite element\<close>

text \<open>
  \<^verbatim>\<open>Quadrature\<close> and \<^verbatim>\<open>FiniteElement\<close> are declared outside the sources; they enter as
  records of the members the evaluators read. The two \<^verbatim>\<open>fill\<close> members are the Geometry
  Mapper: they receive the output vectors by reference, so in the model they take the
  vectors' present contents and return the new ones, in the order of the C++ arguments.
\<close>

record 'a Quadrature =
  q_n_quadrature_points :: nat
  quad_point :: "nat \<Rightarrow> 'a Point"
  weight :: "nat \<Rightarrow> 'a"

record ('a, 'c, 'b) FiniteElement =
  fe_total_dofs :: nat
  fe_shape_value :: "nat \<Rightarrow> 'a Point \<Rightarrow> 'a"
  fe_shape_grad :: "nat \<Rightarrow> 'a Point \<Rightarrow> 'a Point"
  fill_fe_values ::
    "'c \<Rightarrow> 'a Point list \<Rightarrow> 'a dFMatrix list \<Rightarrow> bool \<Rightarrow> 'a Point list \<Rightarrow> bool \<Rightarrow>
     'a Point list \<Rightarrow> bool \<Rightarrow> 'b \<Rightarrow>
     'a dFMatrix list \<times> 'a Point list \<times> 'a Point list"
  fill_fe_face_values ::
    "'c \<Rightarrow> nat \<Rightarrow> 'a Point list \<Rightarrow> 'a Point list \<Rightarrow> 'a dFMatrix list \<Rightarrow> bool \<Rightarrow>
     'a Point list \<Rightarrow> bool \<Rightarrow> 'a Point list \<Rightarrow> bool \<Rightarrow> 'a list \<Rightarrow> bool \<Rightarrow>
     'a Point list \<Rightarrow> bool \<Rightarrow> 'b \<Rightarrow>
     'a dFMatrix list \<times> 'a Point list \<times> 'a Point list \<times> 'a list \<times> 'a Point list"

section \<open>The cell evaluator \<^verbatim>\<open>FEValues\<close>\<close>

record 'a FEValues =
  n_quadrature_points :: nat
  total_dofs :: nat
  shape_values :: "'a dFMatrix"
  shape_gradients :: "'a Point list list"
  unit_shape_gradients :: "'a Point list list"
  weights :: "'a list"
  JxW_values :: "'a list"
  quadrature_points :: "'a Point list"
  unit_quadrature_points :: "'a Point list"
  ansatz_points :: "'a Point list"
  jacobi_matrices :: "'a dFMatrix list"
  update_flags :: UpdateFlags

text \<open>The constructor: the member initialisers, then the two loops of its body.\<close>

definition FEValues_init ::
  "nat \<Rightarrow> ('a::zero, 'c, 'b) FiniteElement \<Rightarrow> 'a Quadrature \<Rightarrow> UpdateFlags \<Rightarrow> 'a FEValues" where
  "FEValues_init dm fe quadrature flags =
     \<lparr>n_quadrature_points = q_n_quadrature_points quadrature,
      total_dofs = fe_total_dofs fe,
      shape_values = dFMatrix_init (fe_total_dofs fe) (q_n_quadrature_points quadrature),
      shape_gradients =
        replicate (fe_total_dofs fe)
          (replicate (q_n_quadrature_points quadrature) (Point_default dm)),
      unit_shape_gradients =
        replicate (fe_total_dofs fe)
          (replicate (q_n_quadrature_points quadrature) (Point_default dm)),
      weights = replicate (q_n_quadrature_points quadrature) 0,
      JxW_values = replicate (q_n_quadrature_points quadrature) 0,
      quadrature_points = replicate (q_n_quadrature_points quadrature) (Point_default dm),
      unit_quadrature_points = replicate (q_n_quadrature_points quadrature) (Point_default dm),
      ansatz_points = replicate (fe_total_dofs fe) (Point_default dm),
      jacobi_matrices = replicate (q_n_quadrature_points quadrature) (dFMatrix_init dm dm),
      update_flags = flags\<rparr>"

definition FEValues_tabulate ::
  "('a, 'c, 'b) FiniteElement \<Rightarrow> 'a Quadrature \<Rightarrow> 'a FEValues \<Rightarrow> 'a FEValues" where
  "FEValues_tabulate fe quadrature st0 =
     for_loop (fe_total_dofs fe) (\<lambda>i.
       for_loop (n_quadrature_points st0) (\<lambda>j st.
         st\<lparr>shape_values :=
              mat_set (shape_values st) i j (fe_shape_value fe i (quad_point quadrature j)),
            unit_shape_gradients :=
              upd2 (unit_shape_gradients st) i j (fe_shape_grad fe i (quad_point quadrature j))\<rparr>))
       st0"

definition FEValues_copy_rule :: "'a Quadrature \<Rightarrow> 'a FEValues \<Rightarrow> 'a FEValues" where
  "FEValues_copy_rule quadrature st0 =
     for_loop (n_quadrature_points st0) (\<lambda>i st.
       st\<lparr>weights := (weights st)[i := weight quadrature i],
          unit_quadrature_points := (unit_quadrature_points st)[i := quad_point quadrature i]\<rparr>)
       st0"

definition FEValues_ctor ::
  "nat \<Rightarrow> ('a::zero, 'c, 'b) FiniteElement \<Rightarrow> 'a Quadrature \<Rightarrow> UpdateFlags \<Rightarrow> 'a FEValues" where
  "FEValues_ctor dm fe quadrature flags =
     FEValues_copy_rule quadrature
       (FEValues_tabulate fe quadrature (FEValues_init dm fe quadrature flags))"

text \<open>The accessors; each \<^verbatim>\<open>Assert\<close> in the order of the source.\<close>

definition FEValues_shape_value :: "'a FEValues \<Rightarrow> nat \<Rightarrow> nat \<Rightarrow> failure + 'a" where
  "FEValues_shape_value st i j =
     (if \<not> i < mat_m (shape_values st) then Inl (ExcInvalidIndex i (mat_m (shape_values st)))
      else if \<not> j < mat_n (shape_values st) then Inl (ExcInvalidIndex j (mat_n (shape_values st)))
      else Inr (mat_el (shape_values st) i j))"

definition FEValues_shape_grad :: "'a FEValues \<Rightarrow> nat \<Rightarrow> nat \<Rightarrow> failure + 'a Point" where
  "FEValues_shape_grad st i j =
     (if \<not> i < mat_m (shape_values st) then Inl (ExcInvalidIndex i (mat_m (shape_values st)))
      else if \<not> j < mat_n (shape_values st) then Inl (ExcInvalidIndex j (mat_n (shape_values st)))
      else if update_gradients \<notin> update_flags st then Inl ExcAccessToUninitializedField
      else Inr (shape_gradients st ! i ! j))"

definition FEValues_quadrature_point :: "'a FEValues \<Rightarrow> nat \<Rightarrow> failure + 'a Point" where
  "FEValues_quadrature_point st i =
     (if \<not> i < n_quadrature_points st then Inl (ExcInvalidIndex i (n_quadrature_points st))
      else if update_q_points \<notin> update_flags st then Inl ExcAccessToUninitializedField
      else Inr (quadrature_points st ! i))"

definition FEValues_ansatz_point :: "'a FEValues \<Rightarrow> nat \<Rightarrow> failure + 'a Point" where
  "FEValues_ansatz_point st i =
     (if \<not> i < length (ansatz_points st) then Inl (ExcInvalidIndex i (length (ansatz_points st)))
      else if update_ansatz_points \<notin> update_flags st then Inl ExcAccessToUninitializedField
      else Inr (ansatz_points st ! i))"

definition FEValues_JxW :: "'a FEValues \<Rightarrow> nat \<Rightarrow> failure + 'a" where
  "FEValues_JxW st i =
     (if \<not> i < n_quadrature_points st then Inl (ExcInvalidIndex i (n_quadrature_points st))
      else if update_JxW_values \<notin> update_flags st then Inl ExcAccessToUninitializedField
      else Inr (JxW_values st ! i))"

text \<open>
  \<^verbatim>\<open>reinit\<close>, in its three blocks: the call of the Geometry Mapper, the gradients on the
  real cell, the \<^verbatim>\<open>JxW\<close> values.
\<close>

definition FEValues_fill ::
  "'c \<Rightarrow> ('a, 'c, 'b) FiniteElement \<Rightarrow> 'b \<Rightarrow> 'a FEValues \<Rightarrow> 'a FEValues" where
  "FEValues_fill cell fe boundary st =
     (if update_jacobians \<in> update_flags st \<or> update_q_points \<in> update_flags st
         \<or> update_ansatz_points \<in> update_flags st
      then
        (case fill_fe_values fe cell (unit_quadrature_points st)
                (jacobi_matrices st) (update_jacobians \<in> update_flags st)
                (ansatz_points st) (update_ansatz_points \<in> update_flags st)
                (quadrature_points st) (update_q_points \<in> update_flags st)
                boundary of
           (J, ap, qp) \<Rightarrow>
             st\<lparr>jacobi_matrices := J, ansatz_points := ap, quadrature_points := qp\<rparr>)
      else st)"

definition transform_gradients ::
  "nat \<Rightarrow> nat \<Rightarrow> nat \<Rightarrow> 'a Point list list \<Rightarrow> 'a dFMatrix list \<Rightarrow>
   'a::{zero,plus,times} Point list list \<Rightarrow> 'a Point list list" where
  "transform_gradients dm ndofs nq usg J sg0 =
     for_loop ndofs (\<lambda>i.
       for_loop nq (\<lambda>j.
         for_loop dm (\<lambda>s sg.
           for_loop dm (\<lambda>b sg'.
               upd3 sg' i j s (sg' ! i ! j ! s + usg ! i ! j ! b * mat_el (J ! j) b s))
             (upd3 sg i j s 0))))
       sg0"

definition FEValues_gradients ::
  "nat \<Rightarrow> ('a::{zero,plus,times}, 'c, 'b) FiniteElement \<Rightarrow> 'a FEValues \<Rightarrow> failure + 'a FEValues" where
  "FEValues_gradients dm fe st =
     (if update_gradients \<in> update_flags st
      then
        (if update_jacobians \<notin> update_flags st then Inl ExcCannotInitializeField
         else Inr (st\<lparr>shape_gradients :=
                 transform_gradients dm (fe_total_dofs fe) (n_quadrature_points st)
                   (unit_shape_gradients st) (jacobi_matrices st) (shape_gradients st)\<rparr>))
      else Inr st)"

definition FEValues_JxW_loop ::
  "('a dFMatrix \<Rightarrow> 'a) \<Rightarrow> 'a::{zero,inverse} FEValues \<Rightarrow> failure + 'a FEValues" where
  "FEValues_JxW_loop determinant st0 =
     for_loop_chk (n_quadrature_points st0) (\<lambda>i st.
       if determinant (jacobi_matrices st ! i) = 0 then Inl DivisionByZero
       else Inr (st\<lparr>JxW_values :=
               (JxW_values st)[i := weights st ! i / determinant (jacobi_matrices st ! i)]\<rparr>))
       st0"

definition FEValues_weights ::
  "('a dFMatrix \<Rightarrow> 'a) \<Rightarrow> 'a::{zero,inverse} FEValues \<Rightarrow> failure + 'a FEValues" where
  "FEValues_weights determinant st =
     (if update_JxW_values \<in> update_flags st
      then
        (if update_jacobians \<notin> update_flags st then Inl ExcCannotInitializeField
         else FEValues_JxW_loop determinant st)
      else Inr st)"

definition FEValues_reinit ::
  "nat \<Rightarrow> ('a dFMatrix \<Rightarrow> 'a) \<Rightarrow> 'c \<Rightarrow> ('a::{zero,plus,times,inverse}, 'c, 'b) FiniteElement \<Rightarrow> 'b \<Rightarrow>
   'a FEValues \<Rightarrow> failure + 'a FEValues" where
  "FEValues_reinit dm determinant cell fe boundary st =
     (case FEValues_gradients dm fe (FEValues_fill cell fe boundary st) of
        Inl e \<Rightarrow> Inl e
      | Inr st' \<Rightarrow> FEValues_weights determinant st')"

section \<open>The face evaluator \<^verbatim>\<open>FEFaceValues\<close>\<close>

text \<open>
  The members carry the prefix \<open>f_\<close> where the cell evaluator has a member of the same
  name. The three C arrays of size \<^verbatim>\<open>2*dim\<close> are lists of that length.
\<close>

record 'a FEFaceValues =
  f_n_quadrature_points :: nat
  f_total_dofs :: nat
  f_shape_values :: "'a dFMatrix list"
  f_shape_gradients :: "'a Point list list"
  f_unit_shape_gradients :: "'a Point list list list"
  f_weights :: "'a list"
  f_JxW_values :: "'a list"
  f_quadrature_points :: "'a Point list"
  f_unit_quadrature_points :: "'a Point list"
  global_unit_quadrature_points :: "'a Point list list"
  f_ansatz_points :: "'a Point list"
  f_jacobi_matrices :: "'a dFMatrix list"
  face_jacobi_determinants :: "'a list"
  normal_vectors :: "'a Point list"
  f_update_flags :: UpdateFlags
  selected_face :: nat

definition FEFaceValues_init ::
  "nat \<Rightarrow> ('a::zero, 'c, 'b) FiniteElement \<Rightarrow> 'a Quadrature \<Rightarrow> UpdateFlags \<Rightarrow> 'a FEFaceValues" where
  "FEFaceValues_init dm fe quadrature flags =
     \<lparr>f_n_quadrature_points = q_n_quadrature_points quadrature,
      f_total_dofs = fe_total_dofs fe,
      f_shape_values = replicate (2 * dm) (dFMatrix_init 0 0),
      f_shape_gradients =
        replicate (fe_total_dofs fe)
          (replicate (q_n_quadrature_points quadrature) (Point_default dm)),
      f_unit_shape_gradients = replicate (2 * dm) [],
      f_weights = replicate (q_n_quadrature_points quadrature) 0,
      f_JxW_values = replicate (q_n_quadrature_points quadrature) 0,
      f_quadrature_points = replicate (q_n_quadrature_points quadrature) (Point_default dm),
      f_unit_quadrature_points =
        replicate (q_n_quadrature_points quadrature) (Point_default (dm - 1)),
      global_unit_quadrature_points = replicate (2 * dm) [],
      f_ansatz_points = replicate (fe_total_dofs fe) (Point_default dm),
      f_jacobi_matrices = replicate (q_n_quadrature_points quadrature) (dFMatrix_init dm dm),
      face_jacobi_determinants = replicate (q_n_quadrature_points quadrature) 0,
      normal_vectors = replicate (q_n_quadrature_points quadrature) (Point_default dm),
      f_update_flags = flags,
      selected_face = 0\<rparr>"

text \<open>First loop of the constructor: the per-face tables get their sizes.\<close>

definition FEFaceValues_resize ::
  "nat \<Rightarrow> ('a::zero, 'c, 'b) FiniteElement \<Rightarrow> 'a Quadrature \<Rightarrow> 'a FEFaceValues \<Rightarrow> 'a FEFaceValues" where
  "FEFaceValues_resize dm fe quadrature st0 =
     for_loop (2 * dm) (\<lambda>face st.
       st\<lparr>f_shape_values :=
            (f_shape_values st)
              [face := dFMatrix_init (fe_total_dofs fe) (q_n_quadrature_points quadrature)],
          f_unit_shape_gradients :=
            (f_unit_shape_gradients st)
              [face := replicate (fe_total_dofs fe)
                         (replicate (q_n_quadrature_points quadrature) (Point_default dm))],
          global_unit_quadrature_points :=
            (global_unit_quadrature_points st)
              [face := replicate (q_n_quadrature_points quadrature) (Point_default dm)]\<rparr>)
       st0"

text \<open>
  Second loop: the unit points of each face in the coordinates of the cell; the two
  \<^verbatim>\<open>switch\<close> statements with their \<^verbatim>\<open>default\<close> branches.
\<close>

definition FEFaceValues_embed ::
  "nat \<Rightarrow> 'a::{zero,one} FEFaceValues \<Rightarrow> failure + 'a FEFaceValues" where
  "FEFaceValues_embed dm st0 =
     for_loop_chk (2 * dm) (\<lambda>face.
       for_loop_chk (f_n_quadrature_points st0) (\<lambda>p st.
         if dm = 2 then
           (if face = 0 then
              Inr (st\<lparr>global_unit_quadrature_points :=
                     upd2 (global_unit_quadrature_points st) face p
                       [f_unit_quadrature_points st ! p ! 0, 0]\<rparr>)
            else if face = 1 then
              Inr (st\<lparr>global_unit_quadrature_points :=
                     upd2 (global_unit_quadrature_points st) face p
                       [1, f_unit_quadrature_points st ! p ! 0]\<rparr>)
            else if face = 2 then
              Inr (st\<lparr>global_unit_quadrature_points :=
                     upd2 (global_unit_quadrature_points st) face p
                       [f_unit_quadrature_points st ! p ! 0, 1]\<rparr>)
            else if face = 3 then
              Inr (st\<lparr>global_unit_quadrature_points :=
                     upd2 (global_unit_quadrature_points st) face p
                       [0, f_unit_quadrature_points st ! p ! 0]\<rparr>)
            else Inl ExcInternalError)
         else Inl ExcNotImplemented))
       st0"

text \<open>Third loop: weights and unit points of the quadrature rule.\<close>

definition FEFaceValues_copy_rule :: "'a Quadrature \<Rightarrow> 'a FEFaceValues \<Rightarrow> 'a FEFaceValues" where
  "FEFaceValues_copy_rule quadrature st0 =
     for_loop (f_n_quadrature_points st0) (\<lambda>i st.
       st\<lparr>f_weights := (f_weights st)[i := weight quadrature i],
          f_unit_quadrature_points :=
            (f_unit_quadrature_points st)[i := quad_point quadrature i]\<rparr>)
       st0"

text \<open>Fourth loop: values and unit gradients at the points of each face.\<close>

definition FEFaceValues_tabulate ::
  "nat \<Rightarrow> ('a, 'c, 'b) FiniteElement \<Rightarrow> 'a FEFaceValues \<Rightarrow> 'a FEFaceValues" where
  "FEFaceValues_tabulate dm fe st0 =
     for_loop (2 * dm) (\<lambda>face.
       for_loop (fe_total_dofs fe) (\<lambda>i.
         for_loop (f_n_quadrature_points st0) (\<lambda>j st.
           st\<lparr>f_shape_values :=
                (f_shape_values st)
                  [face := mat_set (f_shape_values st ! face) i j
                     (fe_shape_value fe i (global_unit_quadrature_points st ! face ! j))],
              f_unit_shape_gradients :=
                (f_unit_shape_gradients st)
                  [face := upd2 (f_unit_shape_gradients st ! face) i j
                     (fe_shape_grad fe i (global_unit_quadrature_points st ! face ! j))]\<rparr>)))
       st0"

definition FEFaceValues_ctor ::
  "nat \<Rightarrow> ('a::{zero,one}, 'c, 'b) FiniteElement \<Rightarrow> 'a Quadrature \<Rightarrow> UpdateFlags \<Rightarrow>
   failure + 'a FEFaceValues" where
  "FEFaceValues_ctor dm fe quadrature flags =
     (case FEFaceValues_embed dm
             (FEFaceValues_resize dm fe quadrature (FEFaceValues_init dm fe quadrature flags)) of
        Inl e \<Rightarrow> Inl e
      | Inr st \<Rightarrow> Inr (FEFaceValues_tabulate dm fe (FEFaceValues_copy_rule quadrature st)))"

text \<open>The accessors of the face evaluator.\<close>

definition FEFaceValues_shape_value :: "'a FEFaceValues \<Rightarrow> nat \<Rightarrow> nat \<Rightarrow> failure + 'a" where
  "FEFaceValues_shape_value st i j =
     (case array_at (f_shape_values st) (selected_face st) of
        Inl e \<Rightarrow> Inl e
      | Inr A \<Rightarrow>
          if \<not> i < mat_m A then Inl (ExcInvalidIndex i (mat_m A))
          else if \<not> j < mat_n A then Inl (ExcInvalidIndex j (mat_n A))
          else Inr (mat_el A i j))"

definition FEFaceValues_shape_grad :: "'a FEFaceValues \<Rightarrow> nat \<Rightarrow> nat \<Rightarrow> failure + 'a Point" where
  "FEFaceValues_shape_grad st i j =
     (case array_at (f_shape_values st) (selected_face st) of
        Inl e \<Rightarrow> Inl e
      | Inr A \<Rightarrow>
          if \<not> i < mat_m A then Inl (ExcInvalidIndex i (mat_m A))
          else if \<not> j < mat_n A then Inl (ExcInvalidIndex j (mat_n A))
          else if update_gradients \<notin> f_update_flags st then Inl ExcAccessToUninitializedField
          else Inr (f_shape_gradients st ! i ! j))"

definition FEFaceValues_quadrature_point :: "'a FEFaceValues \<Rightarrow> nat \<Rightarrow> failure + 'a Point" where
  "FEFaceValues_quadrature_point st i =
     (if \<not> i < f_n_quadrature_points st then Inl (ExcInvalidIndex i (f_n_quadrature_points st))
      else if update_q_points \<notin> f_update_flags st then Inl ExcAccessToUninitializedField
      else Inr (f_quadrature_points st ! i))"

definition FEFaceValues_ansatz_point :: "'a FEFaceValues \<Rightarrow> nat \<Rightarrow> failure + 'a Point" where
  "FEFaceValues_ansatz_point st i =
     (if \<not> i < length (f_ansatz_points st)
      then Inl (ExcInvalidIndex i (length (f_ansatz_points st)))
      else if update_ansatz_points \<notin> f_update_flags st then Inl ExcAccessToUninitializedField
      else Inr (f_ansatz_points st ! i))"

definition FEFaceValues_normal_vector :: "'a FEFaceValues \<Rightarrow> nat \<Rightarrow> failure + 'a Point" where
  "FEFaceValues_normal_vector st i =
     (if \<not> i < length (normal_vectors st)
      then Inl (ExcInvalidIndex i (length (normal_vectors st)))
      else if update_normal_vectors \<notin> f_update_flags st then Inl ExcAccessToUninitializedField
      else Inr (normal_vectors st ! i))"

definition FEFaceValues_JxW :: "'a FEFaceValues \<Rightarrow> nat \<Rightarrow> failure + 'a" where
  "FEFaceValues_JxW st i =
     (if \<not> i < f_n_quadrature_points st then Inl (ExcInvalidIndex i (f_n_quadrature_points st))
      else if update_JxW_values \<notin> f_update_flags st then Inl ExcAccessToUninitializedField
      else Inr (f_JxW_values st ! i))"

text \<open>
  \<^verbatim>\<open>reinit\<close> of the face evaluator: the face is stored first, then the same three blocks
  as for the cell, with the tables of face \<open>face_no\<close>.
\<close>

definition FEFaceValues_fill ::
  "'c \<Rightarrow> nat \<Rightarrow> ('a, 'c, 'b) FiniteElement \<Rightarrow> 'b \<Rightarrow> 'a FEFaceValues \<Rightarrow> failure + 'a FEFaceValues" where
  "FEFaceValues_fill cell face_no fe boundary st =
     (if update_jacobians \<in> f_update_flags st \<or> update_q_points \<in> f_update_flags st
         \<or> update_ansatz_points \<in> f_update_flags st \<or> update_JxW_values \<in> f_update_flags st
      then
        (case array_at (global_unit_quadrature_points st) face_no of
           Inl e \<Rightarrow> Inl e
         | Inr gp \<Rightarrow>
             (case fill_fe_face_values fe cell face_no (f_unit_quadrature_points st) gp
                     (f_jacobi_matrices st) (update_jacobians \<in> f_update_flags st)
                     (f_ansatz_points st) (update_ansatz_points \<in> f_update_flags st)
                     (f_quadrature_points st) (update_q_points \<in> f_update_flags st)
                     (face_jacobi_determinants st) (update_JxW_values \<in> f_update_flags st)
                     (normal_vectors st) (update_normal_vectors \<in> f_update_flags st)
                     boundary of
                (J, ap, qp, fjd, nv) \<Rightarrow>
                  Inr (st\<lparr>f_jacobi_matrices := J, f_ansatz_points := ap,
                         f_quadrature_points := qp, face_jacobi_determinants := fjd,
                         normal_vectors := nv\<rparr>)))
      else Inr st)"

definition face_transform_gradients ::
  "nat \<Rightarrow> nat \<Rightarrow> nat \<Rightarrow> nat \<Rightarrow> 'a Point list list list \<Rightarrow> 'a dFMatrix list \<Rightarrow>
   'a::{zero,plus,times} Point list list \<Rightarrow> failure + 'a Point list list" where
  "face_transform_gradients dm face_no ndofs nq usg J sg0 =
     for_loop_chk ndofs (\<lambda>i.
       for_loop_chk nq (\<lambda>j.
         for_loop_chk dm (\<lambda>s sg.
           for_loop_chk dm (\<lambda>b sg'.
               case array_at usg face_no of
                 Inl e \<Rightarrow> Inl e
               | Inr u \<Rightarrow>
                   Inr (upd3 sg' i j s (sg' ! i ! j ! s + u ! i ! j ! b * mat_el (J ! j) b s)))
             (upd3 sg i j s 0))))
       sg0"

definition FEFaceValues_gradients ::
  "nat \<Rightarrow> nat \<Rightarrow> ('a::{zero,plus,times}, 'c, 'b) FiniteElement \<Rightarrow> 'a FEFaceValues \<Rightarrow>
   failure + 'a FEFaceValues" where
  "FEFaceValues_gradients dm face_no fe st =
     (if update_gradients \<in> f_update_flags st
      then
        (if update_jacobians \<notin> f_update_flags st then Inl ExcCannotInitializeField
         else
           (case face_transform_gradients dm face_no (fe_total_dofs fe) (f_n_quadrature_points st)
                   (f_unit_shape_gradients st) (f_jacobi_matrices st) (f_shape_gradients st) of
              Inl e \<Rightarrow> Inl e
            | Inr sg \<Rightarrow> Inr (st\<lparr>f_shape_gradients := sg\<rparr>)))
      else Inr st)"

definition FEFaceValues_weights ::
  "'a::times FEFaceValues \<Rightarrow> failure + 'a FEFaceValues" where
  "FEFaceValues_weights st0 =
     (if update_JxW_values \<in> f_update_flags st0
      then
        (if update_jacobians \<notin> f_update_flags st0 then Inl ExcCannotInitializeField
         else
           Inr (for_loop (f_n_quadrature_points st0) (\<lambda>i st.
                  st\<lparr>f_JxW_values :=
                       (f_JxW_values st)[i := f_weights st ! i * face_jacobi_determinants st ! i]\<rparr>)
                  st0))
      else Inr st0)"

definition FEFaceValues_reinit ::
  "nat \<Rightarrow> 'c \<Rightarrow> nat \<Rightarrow> ('a::{zero,plus,times}, 'c, 'b) FiniteElement \<Rightarrow> 'b \<Rightarrow>
   'a FEFaceValues \<Rightarrow> failure + 'a FEFaceValues" where
  "FEFaceValues_reinit dm cell face_no fe boundary st =
     (case FEFaceValues_fill cell face_no fe boundary (st\<lparr>selected_face := face_no\<rparr>) of
        Inl e \<Rightarrow> Inl e
      | Inr st1 \<Rightarrow>
          (case FEFaceValues_gradients dm face_no fe st1 of
             Inl e \<Rightarrow> Inl e
           | Inr st2 \<Rightarrow> FEFaceValues_weights st2))"

section \<open>Notions used in the statements and proofs\<close>

subsection \<open>Sizes fixed by the constructors\<close>

text \<open>
  The constructors give every table its size from \<^verbatim>\<open>total_dofs\<close>, \<^verbatim>\<open>n_quadrature_points\<close>
  and \<^verbatim>\<open>dim\<close>, and \<^verbatim>\<open>reinit\<close> keeps them. The three vectors that the Geometry Mapper
  receives by reference are left out: their sizes are the mapper's business.
\<close>

definition FEValues_sized :: "nat \<Rightarrow> 'a FEValues \<Rightarrow> bool" where
  "FEValues_sized dm st \<longleftrightarrow>
     mat_m (shape_values st) = total_dofs st \<and>
     mat_n (shape_values st) = n_quadrature_points st \<and>
     length (shape_gradients st) = total_dofs st \<and>
     list_all (\<lambda>row. length row = n_quadrature_points st \<and> list_all (\<lambda>p. length p = dm) row)
       (shape_gradients st) \<and>
     length (unit_shape_gradients st) = total_dofs st \<and>
     list_all (\<lambda>row. length row = n_quadrature_points st) (unit_shape_gradients st) \<and>
     length (weights st) = n_quadrature_points st \<and>
     length (JxW_values st) = n_quadrature_points st"

definition FEFaceValues_sized :: "nat \<Rightarrow> 'a FEFaceValues \<Rightarrow> bool" where
  "FEFaceValues_sized dm st \<longleftrightarrow>
     length (f_shape_values st) = 2 * dm \<and>
     length (f_unit_shape_gradients st) = 2 * dm \<and>
     length (global_unit_quadrature_points st) = 2 * dm \<and>
     list_all (\<lambda>A. mat_m A = f_total_dofs st \<and> mat_n A = f_n_quadrature_points st)
       (f_shape_values st) \<and>
     length (f_shape_gradients st) = f_total_dofs st \<and>
     list_all (\<lambda>row. length row = f_n_quadrature_points st \<and> list_all (\<lambda>p. length p = dm) row)
       (f_shape_gradients st) \<and>
     length (f_weights st) = f_n_quadrature_points st \<and>
     length (f_JxW_values st) = f_n_quadrature_points st"

subsection \<open>Several calls of \<^verbatim>\<open>reinit\<close>\<close>

text \<open>
  A sequence of \<^verbatim>\<open>reinit\<close> calls on one cell evaluator, each with its own cell, finite
  element and boundary; the sequence ends at the first call that fails.
\<close>

fun FEValues_reinits ::
  "nat \<Rightarrow> ('a dFMatrix \<Rightarrow> 'a) \<Rightarrow> ('c \<times> ('a::{zero,plus,times,inverse}, 'c, 'b) FiniteElement \<times> 'b) list \<Rightarrow>
   'a FEValues \<Rightarrow> failure + 'a FEValues" where
  "FEValues_reinits dm determinant [] st = Inr st"
| "FEValues_reinits dm determinant ((cell, fe, boundary) # calls) st =
     (case FEValues_reinit dm determinant cell fe boundary st of
        Inl e \<Rightarrow> Inl e
      | Inr st' \<Rightarrow> FEValues_reinits dm determinant calls st')"

subsection \<open>The chain-rule sum and tables filled entry by entry\<close>

text \<open>
  \<open>chain_rule_sum\<close> is the value that the innermost loop of the gradient block
  accumulates, starting from zero, in the order of the loop. \<open>fills3 u g D h\<close> says that
  the table \<open>u\<close> has the shape of \<open>g\<close>, holds \<open>h\<close> at the entries selected by \<open>D\<close> and the
  entries of \<open>g\<close> elsewhere; \<open>same_outside3\<close> and \<open>same_outside1\<close> say that two tables
  agree wherever \<open>D\<close> does not select.
\<close>

definition in_range3 :: "'x list list list \<Rightarrow> nat \<Rightarrow> nat \<Rightarrow> nat \<Rightarrow> bool" where
  "in_range3 g i j s \<longleftrightarrow> i < length g \<and> j < length (g ! i) \<and> s < length (g ! i ! j)"

definition chain_rule_sum ::
  "nat \<Rightarrow> 'a Point list list \<Rightarrow> 'a dFMatrix list \<Rightarrow> nat \<Rightarrow> nat \<Rightarrow> nat \<Rightarrow> 'a::{zero,plus,times}" where
  "chain_rule_sum dm usg J i j s =
     for_loop dm (\<lambda>b a. a + usg ! i ! j ! b * mat_el (J ! j) b s) 0"

definition fills3 ::
  "'x list list list \<Rightarrow> 'x list list list \<Rightarrow> (nat \<Rightarrow> nat \<Rightarrow> nat \<Rightarrow> bool) \<Rightarrow>
   (nat \<Rightarrow> nat \<Rightarrow> nat \<Rightarrow> 'x) \<Rightarrow> bool" where
  "fills3 u g D h \<longleftrightarrow>
     length u = length g \<and> (\<forall>a. length (u ! a) = length (g ! a)) \<and>
     (\<forall>a c. length (u ! a ! c) = length (g ! a ! c)) \<and>
     (\<forall>a c e. in_range3 g a c e \<longrightarrow>
        u ! a ! c ! e = (if D a c e then h a c e else g ! a ! c ! e))"

definition same_outside3 ::
  "(nat \<Rightarrow> nat \<Rightarrow> nat \<Rightarrow> bool) \<Rightarrow> 'x list list list \<Rightarrow> 'x list list list \<Rightarrow> bool" where
  "same_outside3 D g u \<longleftrightarrow>
     length u = length g \<and> (\<forall>a. length (u ! a) = length (g ! a)) \<and>
     (\<forall>a c. length (u ! a ! c) = length (g ! a ! c)) \<and>
     (\<forall>a c e. in_range3 g a c e \<and> \<not> D a c e \<longrightarrow> u ! a ! c ! e = g ! a ! c ! e)"

definition same_outside1 :: "(nat \<Rightarrow> bool) \<Rightarrow> 'x list \<Rightarrow> 'x list \<Rightarrow> bool" where
  "same_outside1 D w u \<longleftrightarrow>
     length u = length w \<and> (\<forall>i<length w. \<not> D i \<longrightarrow> u ! i = w ! i)"

subsection \<open>The face embedding as the constructor evaluates it\<close>

text \<open>
  \<open>face_point face t\<close> is the point that the constructor of the face evaluator stores
  for coordinate \<open>t\<close> on face \<open>face\<close> in two dimensions; \<open>embedded_unit_points n\<close> is
  the table of these points for \<open>t = 0\<close>.
\<close>

definition face_point :: "nat \<Rightarrow> 'a::{zero,one} \<Rightarrow> 'a Point" where
  "face_point face t =
     (if face = 0 then [t, 0] else if face = 1 then [1, t] else if face = 2 then [t, 1] else [0, t])"

definition embedded_unit_points :: "nat \<Rightarrow> 'a::{zero,one} Point list list" where
  "embedded_unit_points n =
     for_loop 4 (\<lambda>face. for_loop n (\<lambda>p g. upd2 g face p (face_point face 0)))
       (replicate 4 (replicate n (Point_default 2)))"

subsection \<open>The contract of the Geometry Mapper for faces\<close>

text \<open>
  The Geometry Mapper fills the vectors it is asked to fill and leaves the others as
  they are: a requested vector gets contents that do not depend on what the output
  vectors held before the call, an unrequested vector is returned unchanged.
  \<open>reinit_frame\<close> relates two states of a face evaluator that differ at most in what
  a \<^verbatim>\<open>reinit\<close> overwrites.
\<close>

definition face_mapper_fills :: "('a, 'c, 'b) FiniteElement \<Rightarrow> bool" where
  "face_mapper_fills fe \<longleftrightarrow>
     (\<forall>cell face up gp J fJ ap fA qp fQ fjd fW nv fN boundary J' ap' qp' fjd' nv'.
        case fill_fe_face_values fe cell face up gp J fJ ap fA qp fQ fjd fW nv fN boundary of
          (Jo, apo, qpo, fjdo, nvo) \<Rightarrow>
        case fill_fe_face_values fe cell face up gp J' fJ ap' fA qp' fQ fjd' fW nv' fN boundary of
          (Jo', apo', qpo', fjdo', nvo') \<Rightarrow>
            (if fJ then Jo = Jo' else Jo = J) \<and>
            (if fA then apo = apo' else apo = ap) \<and>
            (if fQ then qpo = qpo' else qpo = qp) \<and>
            (if fW then fjdo = fjdo' else fjdo = fjd) \<and>
            (if fN then nvo = nvo' else nvo = nv))"

definition reinit_frame :: "nat \<Rightarrow> nat \<Rightarrow> 'a FEFaceValues \<Rightarrow> 'a FEFaceValues \<Rightarrow> bool" where
  "reinit_frame dm nd st st' \<longleftrightarrow>
     f_n_quadrature_points st' = f_n_quadrature_points st \<and>
     f_total_dofs st' = f_total_dofs st \<and>
     f_shape_values st' = f_shape_values st \<and>
     f_unit_shape_gradients st' = f_unit_shape_gradients st \<and>
     f_weights st' = f_weights st \<and>
     f_unit_quadrature_points st' = f_unit_quadrature_points st \<and>
     global_unit_quadrature_points st' = global_unit_quadrature_points st \<and>
     f_update_flags st' = f_update_flags st \<and>
     (update_jacobians \<in> f_update_flags st \<or> f_jacobi_matrices st' = f_jacobi_matrices st) \<and>
     (update_ansatz_points \<in> f_update_flags st \<or> f_ansatz_points st' = f_ansatz_points st) \<and>
     (update_q_points \<in> f_update_flags st \<or> f_quadrature_points st' = f_quadrature_points st) \<and>
     (update_JxW_values \<in> f_update_flags st \<or>
        face_jacobi_determinants st' = face_jacobi_determinants st) \<and>
     (update_normal_vectors \<in> f_update_flags st \<and>
        (update_jacobians \<in> f_update_flags st \<or> update_q_points \<in> f_update_flags st
          \<or> update_ansatz_points \<in> f_update_flags st \<or> update_JxW_values \<in> f_update_flags st)
      \<or> normal_vectors st' = normal_vectors st) \<and>
     same_outside3 (\<lambda>a c e. update_gradients \<in> f_update_flags st \<and> a < nd \<and>
                       c < f_n_quadrature_points st \<and> e < dm)
       (f_shape_gradients st) (f_shape_gradients st') \<and>
     same_outside1 (\<lambda>i. update_JxW_values \<in> f_update_flags st \<and> i < f_n_quadrature_points st)
       (f_JxW_values st) (f_JxW_values st')"

subsection \<open>A bilinear element on a square, for concrete inputs\<close>

text \<open>
  The four bilinear shape functions on the unit square; a cell is the square of side
  \<open>1 / c\<close> at the origin, given by \<open>c\<close>, so that the Jacobian \<open>d\<xi>/dx\<close> is \<open>c\<close> times
  the identity and a face has length \<open>1 / c\<close>. \<open>det2\<close> is the determinant of a
  two-by-two matrix, \<open>midpoint_rule d\<close> the one-point rule on the unit cube of dimension
  \<open>d\<close>.
\<close>

definition det2 :: "'a::{times,minus} dFMatrix \<Rightarrow> 'a" where
  "det2 A = mat_el A 0 0 * mat_el A 1 1 - mat_el A 1 0 * mat_el A 0 1"

definition square_fe :: "(real, real, unit) FiniteElement" where
  "square_fe =
     \<lparr>fe_total_dofs = 4,
      fe_shape_value = (\<lambda>i p.
         if i = 0 then (1 - p ! 0) * (1 - p ! 1)
         else if i = 1 then p ! 0 * (1 - p ! 1)
         else if i = 2 then p ! 0 * p ! 1
         else (1 - p ! 0) * p ! 1),
      fe_shape_grad = (\<lambda>i p.
         if i = 0 then [p ! 1 - 1, p ! 0 - 1]
         else if i = 1 then [1 - p ! 1, - (p ! 0)]
         else if i = 2 then [p ! 1, p ! 0]
         else [- (p ! 1), 1 - p ! 0]),
      fill_fe_values = (\<lambda>c up J fJ ap fA qp fQ b.
         (if fJ then map (\<lambda>p. \<lparr>mat_m = 2, mat_n = 2,
                                mat_el = (\<lambda>i j. if i = j then c else 0)\<rparr>) up else J,
          if fA then [[0, 0], [1 / c, 0], [1 / c, 1 / c], [0, 1 / c]] else ap,
          if fQ then map (map (\<lambda>x. x / c)) up else qp)),
      fill_fe_face_values = (\<lambda>c face up gp J fJ ap fA qp fQ fjd fW nv fN b.
         (if fJ then map (\<lambda>p. \<lparr>mat_m = 2, mat_n = 2,
                                mat_el = (\<lambda>i j. if i = j then c else 0)\<rparr>) gp else J,
          if fA then [[0, 0], [1 / c, 0], [1 / c, 1 / c], [0, 1 / c]] else ap,
          if fQ then map (map (\<lambda>x. x / c)) gp else qp,
          if fW then map (\<lambda>p. 1 / c) up else fjd,
          if fN then map (\<lambda>p. if face = 0 then [0, - 1] else if face = 1 then [1, 0]
                               else if face = 2 then [0, 1] else [- 1, 0]) up
          else nv))\<rparr>"

definition midpoint_rule :: "nat \<Rightarrow> real Quadrature" where
  "midpoint_rule d =
     \<lparr>q_n_quadrature_points = 1, quad_point = (\<lambda>j. replicate d (1 / 2)), weight = (\<lambda>j. 1)\<rparr>"

definition demo_flags :: UpdateFlags where
  "demo_flags = {update_jacobians, update_gradients, update_JxW_values, update_q_points}"

definition demo_cell :: "real FEValues" where
  "demo_cell = FEValues_ctor 2 square_fe (midpoint_rule 2) demo_flags"

definition demo_face :: "real FEFaceValues" where
  "demo_face = projr (FEFaceValues_ctor 2 square_fe (midpoint_rule 1) demo_flags)"

definition bare_face :: "real FEFaceValues" where
  "bare_face = projr (FEFaceValues_ctor 2 square_fe (midpoint_rule 1) {})"

section \<open>Loops and element-wise updates\<close>

lemma for_loop_invariant:
  assumes "P 0 s" and "\<And>k t. k < n \<Longrightarrow> P k t \<Longrightarrow> P (Suc k) (body k t)"
  shows "P n (for_loop n body s)"
proof -
  have "k \<le> n \<Longrightarrow> P k (for_loop k body s)" for k
    by (induction k) (simp_all add: assms)
  then show ?thesis by simp
qed

lemma for_loop_chk_invariant:
  assumes "for_loop_chk n body s = Inr s'"
    and "P 0 s"
    and "\<And>k t t'. k < n \<Longrightarrow> P k t \<Longrightarrow> body k t = Inr t' \<Longrightarrow> P (Suc k) t'"
  shows "P n s'"
proof -
  have "k \<le> n \<Longrightarrow> for_loop_chk k body s = Inr t \<Longrightarrow> P k t" for k t
  proof (induction k arbitrary: t)
    case 0
    then show ?case using assms(2) by simp
  next
    case (Suc k)
    from Suc.prems(2) obtain u where u: "for_loop_chk k body s = Inr u" and b: "body k u = Inr t"
      by (auto split: sum.splits)
    from Suc.IH [OF _ u] Suc.prems(1) have "P k u" by simp
    with assms(3) [of k u t] b Suc.prems(1) show ?case by simp
  qed
  with assms(1) show ?thesis by blast
qed

lemma for_loop_chk_total:
  assumes "\<And>k t. k < n \<Longrightarrow> body k t = Inr (g k t)"
  shows "for_loop_chk n body s = Inr (for_loop n g s)"
proof -
  have "k \<le> n \<Longrightarrow> for_loop_chk k body s = Inr (for_loop k g s)" for k
    by (induction k) (simp_all add: assms)
  then show ?thesis by simp
qed

lemma for_loop_cong_bound:
  assumes "\<And>k t. k < n \<Longrightarrow> body k t = body' k t"
  shows "for_loop n body s = for_loop n body' s"
proof -
  have "k \<le> n \<Longrightarrow> for_loop k body s = for_loop k body' s" for k
    by (induction k) (simp_all add: assms)
  then show ?thesis by simp
qed

(* cell ctor: tabulate *)

lemma tabulate_inner:
  fixes st0 :: "'a FEValues"
  shows "for_loop m (\<lambda>j st.
         st\<lparr>shape_values := mat_set (shape_values st) i j (f j),
            unit_shape_gradients := upd2 (unit_shape_gradients st) i j (g j)\<rparr>) st0
       = st0\<lparr>shape_values := for_loop m (\<lambda>j A. mat_set A i j (f j)) (shape_values st0),
            unit_shape_gradients := for_loop m (\<lambda>j u. upd2 u i j (g j)) (unit_shape_gradients st0)\<rparr>"
  by (induction m) simp_all

lemma upd2_length: "length (upd2 g i j p) = length g"
  by (simp add: upd2_def)

lemma upd2_row:
  "upd2 g i j p ! a = (if a = i \<and> i < length g then (g ! i)[j := p] else g ! a)"
  by (cases "i < length g") (simp_all add: upd2_def list_update_beyond nth_list_update)

lemma upd2_row_length: "length (upd2 g i j p ! a) = length (g ! a)"
  by (simp add: upd2_row)

lemma upd2_nth:
  "c < length (g ! a) \<Longrightarrow> a < length g \<Longrightarrow>
   upd2 g i j p ! a ! c = (if a = i \<and> c = j then p else g ! a ! c)"
  by (auto simp: upd2_row nth_list_update)

lemma upd3_length: "length (upd3 g i j s v) = length g"
  by (simp add: upd3_def)

lemma upd3_row:
  "upd3 g i j s v ! a =
     (if a = i \<and> i < length g then (g ! i)[j := (g ! i ! j)[s := v]] else g ! a)"
  by (cases "i < length g") (simp_all add: upd3_def list_update_beyond nth_list_update)

lemma upd3_row_length: "length (upd3 g i j s v ! a) = length (g ! a)"
  by (simp add: upd3_row)

lemma upd3_point:
  "upd3 g i j s v ! a ! c =
     (if a = i \<and> i < length g \<and> c = j \<and> j < length (g ! i) then (g ! i ! j)[s := v]
      else g ! a ! c)"
  by (cases "j < length (g ! i)") (simp_all add: upd3_row list_update_beyond nth_list_update)

lemma upd3_point_length: "length (upd3 g i j s v ! a ! c) = length (g ! a ! c)"
  by (simp add: upd3_point)

lemma upd3_nth:
  "e < length (g ! a ! c) \<Longrightarrow> c < length (g ! a) \<Longrightarrow> a < length g \<Longrightarrow>
   upd3 g i j s v ! a ! c ! e = (if a = i \<and> c = j \<and> e = s then v else g ! a ! c ! e)"
  by (auto simp: upd3_point nth_list_update)

lemma upd3_outside: "\<not> in_range3 g i j s \<Longrightarrow> upd3 g i j s v = g"
  by (auto simp: in_range3_def upd3_def not_less list_update_beyond)

lemma upd3_upd3: "upd3 (upd3 g i j s v) i j s w = upd3 g i j s w"
proof (cases "i < length g \<and> j < length (g ! i)")
  case True
  then show ?thesis by (simp add: upd3_def)
next
  case False
  then have "upd3 g i j s v = g" for v
    by (auto simp: upd3_def not_less list_update_beyond)
  then show ?thesis by simp
qed

lemma upd3_same: "upd3 g i j s (g ! i ! j ! s) = g"
  by (simp add: upd3_def)

lemma in_range3_upd3: "in_range3 (upd3 g i j s v) a c e = in_range3 g a c e"
  by (simp add: in_range3_def upd3_length upd3_row_length upd3_point_length)

lemma upd3_read: "in_range3 g i j s \<Longrightarrow> upd3 g i j s v ! i ! j ! s = v"
  by (simp add: in_range3_def upd3_nth)

lemma accumulate_entry:
  "for_loop B (\<lambda>b sg'. upd3 sg' i j s (sg' ! i ! j ! s + t b)) sg
     = upd3 sg i j s (for_loop B (\<lambda>b a. a + t b) (sg ! i ! j ! s))"
proof (induction B)
  case 0
  show ?case by (simp add: upd3_same)
next
  case (Suc B)
  show ?case
  proof (cases "in_range3 sg i j s")
    case True
    then show ?thesis by (simp add: Suc upd3_read upd3_upd3)
  next
    case False
    then show ?thesis by (simp add: Suc upd3_outside)
  qed
qed

lemma gradient_entry:
  "for_loop B (\<lambda>b sg'. upd3 sg' i j s (sg' ! i ! j ! s + t b)) (upd3 sg i j s 0)
     = upd3 sg i j s (for_loop B (\<lambda>b a. a + t b) 0)"
proof (cases "in_range3 sg i j s")
  case True
  then show ?thesis by (simp add: accumulate_entry upd3_read upd3_upd3)
next
  case False
  then show ?thesis by (simp add: accumulate_entry upd3_outside)
qed

lemma transform_gradients_entries:
  "transform_gradients dm ndofs nq usg J sg0 =
     for_loop ndofs (\<lambda>i. for_loop nq (\<lambda>j.
       for_loop dm (\<lambda>s sg. upd3 sg i j s (chain_rule_sum dm usg J i j s)))) sg0"
  by (simp add: transform_gradients_def gradient_entry chain_rule_sum_def)

lemma fills3_start: "fills3 g g (\<lambda>a c e. False) h"
  by (simp add: fills3_def)

lemma fills3_cong:
  "fills3 u g D h \<Longrightarrow> (\<And>a c e. D a c e = D' a c e) \<Longrightarrow> fills3 u g D' h"
  by (simp add: fills3_def)

lemma fills3_step:
  assumes "fills3 u g D h"
  shows "fills3 (upd3 u i j s (h i j s)) g (\<lambda>a c e. D a c e \<or> (a = i \<and> c = j \<and> e = s)) h"
proof -
  have r: "in_range3 g a c e \<Longrightarrow> e < length (u ! a ! c) \<and> c < length (u ! a) \<and> a < length u" for a c e
    using assms by (simp add: fills3_def in_range3_def)
  show ?thesis
    unfolding fills3_def
  proof (intro conjI allI impI)
    show "length (upd3 u i j s (h i j s)) = length g"
      using assms by (simp add: fills3_def upd3_length)
    show "length (upd3 u i j s (h i j s) ! a) = length (g ! a)" for a
      using assms by (simp add: fills3_def upd3_row_length)
    show "length (upd3 u i j s (h i j s) ! a ! c) = length (g ! a ! c)" for a c
      using assms by (simp add: fills3_def upd3_point_length)
    show "upd3 u i j s (h i j s) ! a ! c ! e =
        (if D a c e \<or> a = i \<and> c = j \<and> e = s then h a c e else g ! a ! c ! e)"
      if "in_range3 g a c e" for a c e
      using r [OF that] assms that by (auto simp: upd3_nth fills3_def)
  qed
qed

lemma fills3_loop_s:
  assumes "fills3 u g D h"
  shows "fills3 (for_loop K (\<lambda>s sg. upd3 sg i j s (h i j s)) u) g
           (\<lambda>a c e. D a c e \<or> (a = i \<and> c = j \<and> e < K)) h"
proof (rule for_loop_invariant
    [where P = "\<lambda>k t. fills3 t g (\<lambda>a c e. D a c e \<or> (a = i \<and> c = j \<and> e < k)) h"])
  show "fills3 u g (\<lambda>a c e. D a c e \<or> a = i \<and> c = j \<and> e < 0) h"
    using assms by simp
next
  fix k t
  assume "fills3 t g (\<lambda>a c e. D a c e \<or> a = i \<and> c = j \<and> e < k) h"
  from fills3_step [OF this, of i j k]
  show "fills3 (upd3 t i j k (h i j k)) g (\<lambda>a c e. D a c e \<or> a = i \<and> c = j \<and> e < Suc k) h"
    by (rule fills3_cong) auto
qed

lemma fills3_loop_j:
  assumes "fills3 u g D h"
  shows "fills3 (for_loop M (\<lambda>j. for_loop K (\<lambda>s sg. upd3 sg i j s (h i j s))) u) g
           (\<lambda>a c e. D a c e \<or> (a = i \<and> c < M \<and> e < K)) h"
proof (rule for_loop_invariant
    [where P = "\<lambda>k t. fills3 t g (\<lambda>a c e. D a c e \<or> (a = i \<and> c < k \<and> e < K)) h"])
  show "fills3 u g (\<lambda>a c e. D a c e \<or> a = i \<and> c < 0 \<and> e < K) h"
    using assms by simp
next
  fix k t
  assume "fills3 t g (\<lambda>a c e. D a c e \<or> a = i \<and> c < k \<and> e < K) h"
  from fills3_loop_s [OF this, of K i k]
  show "fills3 (for_loop K (\<lambda>s sg. upd3 sg i k s (h i k s)) t) g
          (\<lambda>a c e. D a c e \<or> a = i \<and> c < Suc k \<and> e < K) h"
    by (rule fills3_cong) auto
qed

lemma fills3_loop_i:
  assumes "fills3 u g D h"
  shows "fills3 (for_loop N (\<lambda>i. for_loop M (\<lambda>j. for_loop K (\<lambda>s sg. upd3 sg i j s (h i j s)))) u) g
           (\<lambda>a c e. D a c e \<or> (a < N \<and> c < M \<and> e < K)) h"
proof (rule for_loop_invariant
    [where P = "\<lambda>k t. fills3 t g (\<lambda>a c e. D a c e \<or> (a < k \<and> c < M \<and> e < K)) h"])
  show "fills3 u g (\<lambda>a c e. D a c e \<or> a < 0 \<and> c < M \<and> e < K) h"
    using assms by simp
next
  fix k t
  assume "fills3 t g (\<lambda>a c e. D a c e \<or> a < k \<and> c < M \<and> e < K) h"
  from fills3_loop_j [OF this, of M K k]
  show "fills3 (for_loop M (\<lambda>j. for_loop K (\<lambda>s sg. upd3 sg k j s (h k j s))) t) g
          (\<lambda>a c e. D a c e \<or> a < Suc k \<and> c < M \<and> e < K) h"
    by (rule fills3_cong) auto
qed

lemma transform_gradients_fills:
  "fills3 (transform_gradients dm ndofs nq usg J sg0) sg0
     (\<lambda>a c e. a < ndofs \<and> c < nq \<and> e < dm) (chain_rule_sum dm usg J)"
  unfolding transform_gradients_entries
  by (rule fills3_cong [OF fills3_loop_i [OF fills3_start]]) simp

lemma fills3_trans:
  assumes "fills3 u1 g D h'" and "fills3 u2 u1 D h"
  shows "fills3 u2 g D h"
  using assms by (auto simp: fills3_def in_range3_def)

lemma fills3_unique:
  assumes "fills3 u g D h" and "fills3 u' g D h"
  shows "u = u'"
proof (rule nth_equalityI)
  show "length u = length u'" using assms by (simp add: fills3_def)
next
  fix a assume a: "a < length u"
  show "u ! a = u' ! a"
  proof (rule nth_equalityI)
    show "length (u ! a) = length (u' ! a)" using assms by (simp add: fills3_def)
  next
    fix c assume c: "c < length (u ! a)"
    show "u ! a ! c = u' ! a ! c"
    proof (rule nth_equalityI)
      show "length (u ! a ! c) = length (u' ! a ! c)" using assms by (simp add: fills3_def)
    next
      fix e assume e: "e < length (u ! a ! c)"
      from a c e assms(1) have "in_range3 g a c e"
        by (simp add: fills3_def in_range3_def)
      with assms show "u ! a ! c ! e = u' ! a ! c ! e"
        by (simp add: fills3_def)
    qed
  qed
qed

lemma chain_rule_sum_eq_sum:
  fixes usg :: "'a::{comm_monoid_add,times} Point list list"
  shows "chain_rule_sum dm usg J i j s = (\<Sum>b<dm. usg ! i ! j ! b * mat_el (J ! j) b s)"
proof -
  have "for_loop k (\<lambda>b a. a + t b) (0::'a) = (\<Sum>b<k. t b)" for k t
    by (induction k) (simp_all add: add.commute)
  then show ?thesis by (simp add: chain_rule_sum_def)
qed

section \<open>The cell evaluator: construction and \<^verbatim>\<open>reinit\<close>\<close>

lemma list_fill_length: "length (for_loop M (\<lambda>i w. w[i := f i]) w0) = length w0"
  by (induction M) simp_all

lemma list_fill_nth:
  "a < length w0 \<Longrightarrow> for_loop M (\<lambda>i w. w[i := f i]) w0 ! a = (if a < M then f a else w0 ! a)"
  by (induction M) (auto simp: list_fill_length nth_list_update less_Suc_eq)

lemma mat_fill_inner:
  "mat_m (for_loop M (\<lambda>j A. mat_set A i j (f j)) A0) = mat_m A0 \<and>
   mat_n (for_loop M (\<lambda>j A. mat_set A i j (f j)) A0) = mat_n A0 \<and>
   mat_el (for_loop M (\<lambda>j A. mat_set A i j (f j)) A0) a c =
     (if a = i \<and> c < M then f c else mat_el A0 a c)"
  by (induction M) (auto simp: mat_set_def less_Suc_eq)

lemma mat_fill:
  "mat_m (for_loop N (\<lambda>i. for_loop M (\<lambda>j A. mat_set A i j (f i j))) A0) = mat_m A0 \<and>
   mat_n (for_loop N (\<lambda>i. for_loop M (\<lambda>j A. mat_set A i j (f i j))) A0) = mat_n A0 \<and>
   mat_el (for_loop N (\<lambda>i. for_loop M (\<lambda>j A. mat_set A i j (f i j))) A0) a c =
     (if a < N \<and> c < M then f a c else mat_el A0 a c)"
  by (induction N) (auto simp: mat_fill_inner less_Suc_eq)

lemma table_fill_inner:
  "length (for_loop M (\<lambda>j u. upd2 u i j (f j)) g) = length g \<and>
   length (for_loop M (\<lambda>j u. upd2 u i j (f j)) g ! a) = length (g ! a) \<and>
   (a < length g \<longrightarrow> c < length (g ! a) \<longrightarrow>
      for_loop M (\<lambda>j u. upd2 u i j (f j)) g ! a ! c = (if a = i \<and> c < M then f c else g ! a ! c))"
  by (induction M) (auto simp: upd2_length upd2_row_length upd2_nth less_Suc_eq)

lemma table_fill:
  "length (for_loop N (\<lambda>i. for_loop M (\<lambda>j u. upd2 u i j (f i j))) g) = length g \<and>
   length (for_loop N (\<lambda>i. for_loop M (\<lambda>j u. upd2 u i j (f i j))) g ! a) = length (g ! a) \<and>
   (a < length g \<longrightarrow> c < length (g ! a) \<longrightarrow>
      for_loop N (\<lambda>i. for_loop M (\<lambda>j u. upd2 u i j (f i j))) g ! a ! c =
        (if a < N \<and> c < M then f a c else g ! a ! c))"
  by (induction N) (auto simp: table_fill_inner less_Suc_eq)

lemma tabulate_outer:
  fixes st0 :: "'a FEValues"
  shows "for_loop N (\<lambda>i. for_loop M (\<lambda>j st.
         st\<lparr>shape_values := mat_set (shape_values st) i j (f i j),
            unit_shape_gradients := upd2 (unit_shape_gradients st) i j (g i j)\<rparr>)) st0
       = st0\<lparr>shape_values :=
               for_loop N (\<lambda>i. for_loop M (\<lambda>j A. mat_set A i j (f i j))) (shape_values st0),
            unit_shape_gradients :=
               for_loop N (\<lambda>i. for_loop M (\<lambda>j u. upd2 u i j (g i j))) (unit_shape_gradients st0)\<rparr>"
  by (induction N) (simp_all add: tabulate_inner)

lemma FEValues_tabulate_fields:
  "FEValues_tabulate fe quadrature st0 =
     st0\<lparr>shape_values :=
           for_loop (fe_total_dofs fe) (\<lambda>i. for_loop (n_quadrature_points st0) (\<lambda>j A.
             mat_set A i j (fe_shape_value fe i (quad_point quadrature j)))) (shape_values st0),
         unit_shape_gradients :=
           for_loop (fe_total_dofs fe) (\<lambda>i. for_loop (n_quadrature_points st0) (\<lambda>j u.
             upd2 u i j (fe_shape_grad fe i (quad_point quadrature j)))) (unit_shape_gradients st0)\<rparr>"
  unfolding FEValues_tabulate_def by (rule tabulate_outer)

lemma copy_rule_fields:
  fixes st0 :: "'a FEValues"
  shows "for_loop M (\<lambda>i st.
       st\<lparr>weights := (weights st)[i := w i],
          unit_quadrature_points := (unit_quadrature_points st)[i := p i]\<rparr>) st0
     = st0\<lparr>weights := for_loop M (\<lambda>i x. x[i := w i]) (weights st0),
          unit_quadrature_points := for_loop M (\<lambda>i x. x[i := p i]) (unit_quadrature_points st0)\<rparr>"
  by (induction M) simp_all

lemma FEValues_ctor_fields:
  "FEValues_ctor dm fe quadrature flags =
     (FEValues_init dm fe quadrature flags)
       \<lparr>shape_values :=
           for_loop (fe_total_dofs fe) (\<lambda>i. for_loop (q_n_quadrature_points quadrature) (\<lambda>j A.
             mat_set A i j (fe_shape_value fe i (quad_point quadrature j))))
             (dFMatrix_init (fe_total_dofs fe) (q_n_quadrature_points quadrature)),
        unit_shape_gradients :=
           for_loop (fe_total_dofs fe) (\<lambda>i. for_loop (q_n_quadrature_points quadrature) (\<lambda>j u.
             upd2 u i j (fe_shape_grad fe i (quad_point quadrature j))))
             (replicate (fe_total_dofs fe)
                (replicate (q_n_quadrature_points quadrature) (Point_default dm))),
        weights :=
           for_loop (q_n_quadrature_points quadrature) (\<lambda>i x. x[i := weight quadrature i])
             (replicate (q_n_quadrature_points quadrature) 0),
        unit_quadrature_points :=
           for_loop (q_n_quadrature_points quadrature) (\<lambda>i x. x[i := quad_point quadrature i])
             (replicate (q_n_quadrature_points quadrature) (Point_default dm))\<rparr>"
  by (simp add: FEValues_ctor_def FEValues_copy_rule_def FEValues_tabulate_fields
      copy_rule_fields FEValues_init_def)

lemma FEValues_ctor_shape_values:
  "mat_m (shape_values (FEValues_ctor dm fe quadrature flags)) = fe_total_dofs fe"
  "mat_n (shape_values (FEValues_ctor dm fe quadrature flags)) = q_n_quadrature_points quadrature"
  "i < fe_total_dofs fe \<Longrightarrow> j < q_n_quadrature_points quadrature \<Longrightarrow>
   mat_el (shape_values (FEValues_ctor dm fe quadrature flags)) i j =
     fe_shape_value fe i (quad_point quadrature j)"
  by (simp_all add: FEValues_ctor_fields FEValues_init_def mat_fill dFMatrix_init_def)

lemma FEValues_ctor_scalars:
  "n_quadrature_points (FEValues_ctor dm fe quadrature flags) = q_n_quadrature_points quadrature"
  "total_dofs (FEValues_ctor dm fe quadrature flags) = fe_total_dofs fe"
  "update_flags (FEValues_ctor dm fe quadrature flags) = flags"
  by (simp_all add: FEValues_ctor_fields FEValues_init_def)

lemma FEValues_ctor_sized: "FEValues_sized dm (FEValues_ctor dm fe quadrature flags)"
  by (simp add: FEValues_sized_def FEValues_ctor_fields FEValues_init_def mat_fill
      dFMatrix_init_def table_fill list_fill_length list_all_length Point_default_def)

lemma FEValues_fill_keeps:
  "n_quadrature_points (FEValues_fill cell fe boundary st) = n_quadrature_points st"
  "total_dofs (FEValues_fill cell fe boundary st) = total_dofs st"
  "shape_values (FEValues_fill cell fe boundary st) = shape_values st"
  "shape_gradients (FEValues_fill cell fe boundary st) = shape_gradients st"
  "unit_shape_gradients (FEValues_fill cell fe boundary st) = unit_shape_gradients st"
  "weights (FEValues_fill cell fe boundary st) = weights st"
  "JxW_values (FEValues_fill cell fe boundary st) = JxW_values st"
  "unit_quadrature_points (FEValues_fill cell fe boundary st) = unit_quadrature_points st"
  "update_flags (FEValues_fill cell fe boundary st) = update_flags st"
  by (simp_all add: FEValues_fill_def split: prod.splits)

lemma FEValues_JxW_loop_closed:
  "for_loop_chk n (\<lambda>i st.
       if determinant (jacobi_matrices st ! i) = 0 then Inl DivisionByZero
       else Inr (st\<lparr>JxW_values :=
               (JxW_values st)[i := weights st ! i / determinant (jacobi_matrices st ! i)]\<rparr>))
     st0 =
   (if \<exists>i<n. determinant (jacobi_matrices st0 ! i) = 0 then Inl DivisionByZero
    else Inr (st0\<lparr>JxW_values :=
            for_loop n (\<lambda>i w. w[i := weights st0 ! i / determinant (jacobi_matrices st0 ! i)])
              (JxW_values st0)\<rparr>))"
proof (induction n)
  case 0
  show ?case by simp
next
  case (Suc n)
  show ?case
  proof (cases "\<exists>i<n. determinant (jacobi_matrices st0 ! i) = 0")
    case True
    then have "\<exists>i<Suc n. determinant (jacobi_matrices st0 ! i) = 0"
      using less_Suc_eq by blast
    with True show ?thesis by (simp add: Suc)
  next
    case False
    show ?thesis
    proof (cases "determinant (jacobi_matrices st0 ! n) = 0")
      case True
      then have "\<exists>i<Suc n. determinant (jacobi_matrices st0 ! i) = 0" by blast
      with True False show ?thesis by (simp add: Suc)
    next
      case nz: False
      with False have "\<not> (\<exists>i<Suc n. determinant (jacobi_matrices st0 ! i) = 0)"
        using less_Suc_eq by auto
      with nz False show ?thesis by (simp add: Suc)
    qed
  qed
qed

lemma FEValues_weights_closed:
  "FEValues_weights determinant st =
     (if update_JxW_values \<in> update_flags st then
        if update_jacobians \<notin> update_flags st then Inl ExcCannotInitializeField
        else if \<exists>i<n_quadrature_points st. determinant (jacobi_matrices st ! i) = 0
        then Inl DivisionByZero
        else Inr (st\<lparr>JxW_values :=
               for_loop (n_quadrature_points st)
                 (\<lambda>i w. w[i := weights st ! i / determinant (jacobi_matrices st ! i)])
                 (JxW_values st)\<rparr>)
      else Inr st)"
  by (simp add: FEValues_weights_def FEValues_JxW_loop_def FEValues_JxW_loop_closed)

lemma FEValues_gradients_keeps:
  assumes "FEValues_gradients dm fe st = Inr st'"
  shows "n_quadrature_points st' = n_quadrature_points st"
    and "total_dofs st' = total_dofs st"
    and "shape_values st' = shape_values st"
    and "unit_shape_gradients st' = unit_shape_gradients st"
    and "weights st' = weights st"
    and "JxW_values st' = JxW_values st"
    and "jacobi_matrices st' = jacobi_matrices st"
    and "ansatz_points st' = ansatz_points st"
    and "quadrature_points st' = quadrature_points st"
    and "unit_quadrature_points st' = unit_quadrature_points st"
    and "update_flags st' = update_flags st"
  using assms by (auto simp: FEValues_gradients_def split: if_splits)

lemma FEValues_weights_keeps:
  assumes "FEValues_weights determinant st = Inr st'"
  shows "n_quadrature_points st' = n_quadrature_points st"
    and "total_dofs st' = total_dofs st"
    and "shape_values st' = shape_values st"
    and "shape_gradients st' = shape_gradients st"
    and "unit_shape_gradients st' = unit_shape_gradients st"
    and "weights st' = weights st"
    and "jacobi_matrices st' = jacobi_matrices st"
    and "ansatz_points st' = ansatz_points st"
    and "quadrature_points st' = quadrature_points st"
    and "unit_quadrature_points st' = unit_quadrature_points st"
    and "update_flags st' = update_flags st"
  using assms by (auto simp: FEValues_weights_closed split: if_splits)

lemma FEValues_reinit_steps:
  assumes "FEValues_reinit dm determinant cell fe boundary st = Inr st'"
  obtains st2 where
    "FEValues_gradients dm fe (FEValues_fill cell fe boundary st) = Inr st2"
    "FEValues_weights determinant st2 = Inr st'"
  using assms by (auto simp: FEValues_reinit_def split: sum.splits)

lemma FEValues_reinit_keeps:
  assumes "FEValues_reinit dm determinant cell fe boundary st = Inr st'"
  shows "n_quadrature_points st' = n_quadrature_points st"
    and "total_dofs st' = total_dofs st"
    and "shape_values st' = shape_values st"
    and "unit_shape_gradients st' = unit_shape_gradients st"
    and "weights st' = weights st"
    and "unit_quadrature_points st' = unit_quadrature_points st"
    and "update_flags st' = update_flags st"
    and "jacobi_matrices st' = jacobi_matrices (FEValues_fill cell fe boundary st)"
proof -
  from assms obtain st2 where
    g: "FEValues_gradients dm fe (FEValues_fill cell fe boundary st) = Inr st2" and
    w: "FEValues_weights determinant st2 = Inr st'"
    by (rule FEValues_reinit_steps)
  show "n_quadrature_points st' = n_quadrature_points st"
    and "total_dofs st' = total_dofs st"
    and "shape_values st' = shape_values st"
    and "unit_shape_gradients st' = unit_shape_gradients st"
    and "weights st' = weights st"
    and "unit_quadrature_points st' = unit_quadrature_points st"
    and "update_flags st' = update_flags st"
    and "jacobi_matrices st' = jacobi_matrices (FEValues_fill cell fe boundary st)"
    by (simp_all add: FEValues_weights_keeps [OF w] FEValues_gradients_keeps [OF g]
        FEValues_fill_keeps)
qed

lemma FEValues_reinit_JxW:
  assumes r: "FEValues_reinit dm determinant cell fe boundary st = Inr st'"
    and f: "update_JxW_values \<in> update_flags st"
    and len: "length (JxW_values st) = n_quadrature_points st"
    and j: "j < n_quadrature_points st"
  shows "JxW_values st' ! j = weights st ! j / determinant (jacobi_matrices st' ! j)"
    and "determinant (jacobi_matrices st' ! j) \<noteq> 0"
proof -
  from r obtain st2 where
    g: "FEValues_gradients dm fe (FEValues_fill cell fe boundary st) = Inr st2" and
    w: "FEValues_weights determinant st2 = Inr st'"
    by (rule FEValues_reinit_steps)
  note k2 = FEValues_gradients_keeps [OF g]
  have f2: "update_JxW_values \<in> update_flags st2"
    using f by (simp add: k2 FEValues_fill_keeps)
  have n2: "n_quadrature_points st2 = n_quadrature_points st"
    and w2: "weights st2 = weights st"
    and l2: "length (JxW_values st2) = n_quadrature_points st"
    by (simp_all add: k2 FEValues_fill_keeps len)
  from w f2 have nz: "\<not> (\<exists>i<n_quadrature_points st2. determinant (jacobi_matrices st2 ! i) = 0)"
    and st': "st' = st2\<lparr>JxW_values :=
               for_loop (n_quadrature_points st2)
                 (\<lambda>i w. w[i := weights st2 ! i / determinant (jacobi_matrices st2 ! i)])
                 (JxW_values st2)\<rparr>"
    by (auto simp: FEValues_weights_closed split: if_splits)
  have J: "jacobi_matrices st' = jacobi_matrices st2" by (simp add: st')
  show "JxW_values st' ! j = weights st ! j / determinant (jacobi_matrices st' ! j)"
    using j by (simp add: J) (simp add: st' list_fill_nth l2 n2 w2)
  show "determinant (jacobi_matrices st' ! j) \<noteq> 0"
    using nz j by (simp add: J n2)
qed

lemma FEValues_reinit_sized:
  assumes "FEValues_reinit dm determinant cell fe boundary st = Inr st'"
    and "FEValues_sized dm st"
  shows "FEValues_sized dm st'"
proof -
  from assms(1) obtain st2 where
    g: "FEValues_gradients dm fe (FEValues_fill cell fe boundary st) = Inr st2" and
    w: "FEValues_weights determinant st2 = Inr st'"
    by (rule FEValues_reinit_steps)
  let ?st1 = "FEValues_fill cell fe boundary st"
  have sg2: "fills3 (shape_gradients st2) (shape_gradients st) (\<lambda>a c e. update_gradients \<in> update_flags st \<and> a < fe_total_dofs fe \<and> c < n_quadrature_points st \<and> e < dm)
      (chain_rule_sum dm (unit_shape_gradients st) (jacobi_matrices ?st1))"
    using g transform_gradients_fills [of dm "fe_total_dofs fe" "n_quadrature_points st" "unit_shape_gradients st" "jacobi_matrices ?st1" "shape_gradients st"]
    by (auto simp: FEValues_gradients_def FEValues_fill_keeps fills3_start split: if_splits)
  have l: "length (JxW_values st') = length (JxW_values st2)"
    using w by (auto simp: FEValues_weights_closed list_fill_length split: if_splits)
  have shape: "length (shape_gradients st2) = length (shape_gradients st)"
    "\<And>a. length (shape_gradients st2 ! a) = length (shape_gradients st ! a)"
    "\<And>a c. length (shape_gradients st2 ! a ! c) = length (shape_gradients st ! a ! c)"
    using sg2 by (simp_all add: fills3_def)
  show ?thesis
    using assms(2)
    by (simp add: FEValues_sized_def FEValues_weights_keeps [OF w] FEValues_gradients_keeps [OF g]
        FEValues_fill_keeps l shape list_all_length)
qed

lemma list_fill_all:
  "length w0 = M \<Longrightarrow> for_loop M (\<lambda>i w. w[i := f i]) w0 = map f [0..<M]"
  by (rule nth_equalityI) (simp_all add: list_fill_length list_fill_nth)

lemma FEValues_ctor_rule:
  "weights (FEValues_ctor dm fe quadrature flags) =
     map (weight quadrature) [0..<q_n_quadrature_points quadrature]"
  "unit_quadrature_points (FEValues_ctor dm fe quadrature flags) =
     map (quad_point quadrature) [0..<q_n_quadrature_points quadrature]"
  by (simp_all add: FEValues_ctor_fields FEValues_init_def list_fill_all)

lemma FEValues_ctor_unit_gradients:
  "i < fe_total_dofs fe \<Longrightarrow> j < q_n_quadrature_points quadrature \<Longrightarrow>
   unit_shape_gradients (FEValues_ctor dm fe quadrature flags) ! i ! j =
     fe_shape_grad fe i (quad_point quadrature j)"
  by (simp add: FEValues_ctor_fields FEValues_init_def table_fill)

lemma FEValues_reinit_returns:
  assumes "update_gradients \<in> update_flags st \<or> update_JxW_values \<in> update_flags st
             \<longrightarrow> update_jacobians \<in> update_flags st"
    and "update_JxW_values \<in> update_flags st \<longrightarrow>
           (\<forall>j<n_quadrature_points st.
              determinant (jacobi_matrices (FEValues_fill cell fe boundary st) ! j) \<noteq> 0)"
  shows "\<exists>st'. FEValues_reinit dm determinant cell fe boundary st = Inr st'"
  using assms
  by (auto simp: FEValues_reinit_def FEValues_gradients_def FEValues_weights_closed
      FEValues_fill_keeps)

lemma FEValues_reinit_division:
  "FEValues_reinit dm determinant cell fe boundary st = Inl DivisionByZero \<longleftrightarrow>
     update_JxW_values \<in> update_flags st \<and> update_jacobians \<in> update_flags st \<and>
     (\<exists>j<n_quadrature_points st.
        determinant (jacobi_matrices (FEValues_fill cell fe boundary st) ! j) = 0)"
  by (auto simp: FEValues_reinit_def FEValues_gradients_def FEValues_weights_closed
      FEValues_fill_keeps)


lemma FEValues_ctor_ansatz:
  "ansatz_points (FEValues_ctor dm fe quadrature flags) =
     replicate (fe_total_dofs fe) (Point_default dm)"
  by (simp add: FEValues_ctor_fields FEValues_init_def)

section \<open>The face evaluator: construction and \<^verbatim>\<open>reinit\<close>\<close>

lemma for_loop_chk_stops:
  assumes "\<And>k t. k < n \<Longrightarrow> body k t = Inl e"
  shows "for_loop_chk n body s = (if n = 0 then Inr s else Inl e)"
proof -
  have "k \<le> n \<Longrightarrow> for_loop_chk k body s = (if k = 0 then Inr s else Inl e)" for k
    by (induction k) (simp_all add: assms)
  then show ?thesis by simp
qed

lemma for_loop_id: "(\<And>k t. k < n \<Longrightarrow> body k t = t) \<Longrightarrow> for_loop n body s = s"
  by (rule for_loop_invariant [where P = "\<lambda>k t. t = s"]) simp_all

lemma list_fill_const:
  "length w0 = M \<Longrightarrow> for_loop M (\<lambda>i w. w[i := x]) w0 = replicate M x"
  by (simp add: list_fill_all map_replicate_const)

lemma slot_loop:
  "for_loop n (\<lambda>j xs. xs[face := h j (xs ! face)]) xs0
     = xs0[face := for_loop n h (xs0 ! face)]"
proof (cases "face < length xs0")
  case True
  show ?thesis by (induction n) (simp_all add: True)
next
  case False
  then have "xs[face := y] = xs" if "length xs = length xs0" for xs :: "'a list" and y
    using that by (simp add: list_update_beyond)
  then show ?thesis
    by (induction n) simp_all
qed

lemma resize_fields:
  fixes st0 :: "'a FEFaceValues"
  shows "for_loop n (\<lambda>face st.
       st\<lparr>f_shape_values := (f_shape_values st)[face := A],
          f_unit_shape_gradients := (f_unit_shape_gradients st)[face := u],
          global_unit_quadrature_points := (global_unit_quadrature_points st)[face := g]\<rparr>) st0
     = st0\<lparr>f_shape_values := for_loop n (\<lambda>face x. x[face := A]) (f_shape_values st0),
          f_unit_shape_gradients := for_loop n (\<lambda>face x. x[face := u]) (f_unit_shape_gradients st0),
          global_unit_quadrature_points :=
            for_loop n (\<lambda>face x. x[face := g]) (global_unit_quadrature_points st0)\<rparr>"
  by (induction n) simp_all

lemma FEFaceValues_resize_init:
  "FEFaceValues_resize dm fe quadrature (FEFaceValues_init dm fe quadrature flags) =
     (FEFaceValues_init dm fe quadrature flags)
       \<lparr>f_shape_values :=
          replicate (2 * dm) (dFMatrix_init (fe_total_dofs fe) (q_n_quadrature_points quadrature)),
        f_unit_shape_gradients :=
          replicate (2 * dm) (replicate (fe_total_dofs fe)
             (replicate (q_n_quadrature_points quadrature) (Point_default dm))),
        global_unit_quadrature_points :=
          replicate (2 * dm) (replicate (q_n_quadrature_points quadrature) (Point_default dm))\<rparr>"
  by (simp add: FEFaceValues_resize_def resize_fields list_fill_const FEFaceValues_init_def)

lemma embed_inner:
  fixes st0 :: "'a FEFaceValues"
  shows "for_loop n (\<lambda>p st. st\<lparr>global_unit_quadrature_points :=
            upd2 (global_unit_quadrature_points st) face p (F (f_unit_quadrature_points st ! p ! 0))\<rparr>) st0
     = st0\<lparr>global_unit_quadrature_points :=
            for_loop n (\<lambda>p g. upd2 g face p (F (f_unit_quadrature_points st0 ! p ! 0)))
              (global_unit_quadrature_points st0)\<rparr>"
  by (induction n) simp_all

lemma embed_outer:
  fixes st0 :: "'a FEFaceValues"
  shows "for_loop m (\<lambda>face. for_loop n (\<lambda>p st. st\<lparr>global_unit_quadrature_points :=
            upd2 (global_unit_quadrature_points st) face p
              (F face (f_unit_quadrature_points st ! p ! 0))\<rparr>)) st0
     = st0\<lparr>global_unit_quadrature_points :=
            for_loop m (\<lambda>face. for_loop n (\<lambda>p g.
                upd2 g face p (F face (f_unit_quadrature_points st0 ! p ! 0))))
              (global_unit_quadrature_points st0)\<rparr>"
  by (induction m) (simp_all add: embed_inner)

lemma FEFaceValues_embed_2:
  "FEFaceValues_embed 2 st0 =
     Inr (st0\<lparr>global_unit_quadrature_points :=
            for_loop 4 (\<lambda>face. for_loop (f_n_quadrature_points st0) (\<lambda>p g.
                upd2 g face p (face_point face (f_unit_quadrature_points st0 ! p ! 0))))
              (global_unit_quadrature_points st0)\<rparr>)"
proof -
  have inner: "for_loop_chk n (\<lambda>p st.
           (if face = 0 then
              Inr (st\<lparr>global_unit_quadrature_points :=
                     upd2 (global_unit_quadrature_points st) face p
                       [f_unit_quadrature_points st ! p ! 0, 0]\<rparr>)
            else if face = 1 then
              Inr (st\<lparr>global_unit_quadrature_points :=
                     upd2 (global_unit_quadrature_points st) face p
                       [1, f_unit_quadrature_points st ! p ! 0]\<rparr>)
            else if face = 2 then
              Inr (st\<lparr>global_unit_quadrature_points :=
                     upd2 (global_unit_quadrature_points st) face p
                       [f_unit_quadrature_points st ! p ! 0, 1]\<rparr>)
            else if face = 3 then
              Inr (st\<lparr>global_unit_quadrature_points :=
                     upd2 (global_unit_quadrature_points st) face p
                       [0, f_unit_quadrature_points st ! p ! 0]\<rparr>)
            else Inl ExcInternalError)) st
      = Inr (for_loop n (\<lambda>p st. st\<lparr>global_unit_quadrature_points :=
            upd2 (global_unit_quadrature_points st) face p
              (face_point face (f_unit_quadrature_points st ! p ! 0))\<rparr>) st)"
    if "face < 4" for face n and st :: "'a FEFaceValues"
    by (rule for_loop_chk_total) (use that in \<open>auto simp: face_point_def\<close>)
  have four: "(2::nat) * 2 = 4" by simp
  have "FEFaceValues_embed 2 st0 =
      Inr (for_loop 4 (\<lambda>face. for_loop (f_n_quadrature_points st0) (\<lambda>p st.
             st\<lparr>global_unit_quadrature_points :=
               upd2 (global_unit_quadrature_points st) face p
                (face_point face (f_unit_quadrature_points st ! p ! 0))\<rparr>)) st0)"
    unfolding FEFaceValues_embed_def four
    by (rule for_loop_chk_total) (simp add: inner)
  then show ?thesis by (simp add: embed_outer)
qed

lemma FEFaceValues_embed_other:
  assumes "dm \<noteq> 2"
  shows "FEFaceValues_embed dm st0 =
     (if dm = 0 \<or> f_n_quadrature_points st0 = 0 then Inr st0 else Inl ExcNotImplemented)"
proof (cases "f_n_quadrature_points st0 = 0")
  case True
  have "for_loop_chk (2 * dm) (\<lambda>face st. Inr st) st0 = Inr (for_loop (2 * dm) (\<lambda>face st. st) st0)"
    by (rule for_loop_chk_total) simp
  moreover have "for_loop_chk 0 body = Inr" for body :: "nat \<Rightarrow> 'a FEFaceValues \<Rightarrow> failure + 'a FEFaceValues"
    by (rule ext) simp
  ultimately show ?thesis
    by (simp add: FEFaceValues_embed_def True for_loop_id)
next
  case False
  have "for_loop_chk (f_n_quadrature_points st0) (\<lambda>p st. Inl ExcNotImplemented) st
      = Inl ExcNotImplemented" for st :: "'a FEFaceValues"
    using False by (simp add: for_loop_chk_stops [where e = ExcNotImplemented])
  then have "FEFaceValues_embed dm st0 = (if 2 * dm = 0 then Inr st0 else Inl ExcNotImplemented)"
    unfolding FEFaceValues_embed_def
    using assms by (simp add: for_loop_chk_stops [where e = ExcNotImplemented])
  with False show ?thesis by simp
qed

lemma face_copy_rule_fields:
  fixes st0 :: "'a FEFaceValues"
  shows "for_loop M (\<lambda>i st.
       st\<lparr>f_weights := (f_weights st)[i := w i],
          f_unit_quadrature_points := (f_unit_quadrature_points st)[i := p i]\<rparr>) st0
     = st0\<lparr>f_weights := for_loop M (\<lambda>i x. x[i := w i]) (f_weights st0),
          f_unit_quadrature_points :=
            for_loop M (\<lambda>i x. x[i := p i]) (f_unit_quadrature_points st0)\<rparr>"
  by (induction M) simp_all

lemma face_tabulate_j:
  fixes st0 :: "'a FEFaceValues"
  shows "for_loop n (\<lambda>j st.
           st\<lparr>f_shape_values :=
                (f_shape_values st)
                  [face := mat_set (f_shape_values st ! face) i j
                     (v (global_unit_quadrature_points st ! face ! j))],
              f_unit_shape_gradients :=
                (f_unit_shape_gradients st)
                  [face := upd2 (f_unit_shape_gradients st ! face) i j
                     (g (global_unit_quadrature_points st ! face ! j))]\<rparr>) st0
     = st0\<lparr>f_shape_values :=
            (f_shape_values st0)[face := for_loop n (\<lambda>j A.
               mat_set A i j (v (global_unit_quadrature_points st0 ! face ! j)))
               (f_shape_values st0 ! face)],
          f_unit_shape_gradients :=
            (f_unit_shape_gradients st0)[face := for_loop n (\<lambda>j u.
               upd2 u i j (g (global_unit_quadrature_points st0 ! face ! j)))
               (f_unit_shape_gradients st0 ! face)]\<rparr>"
proof -
  have "for_loop n (\<lambda>j st.
           st\<lparr>f_shape_values :=
                (f_shape_values st)
                  [face := mat_set (f_shape_values st ! face) i j
                     (v (global_unit_quadrature_points st ! face ! j))],
              f_unit_shape_gradients :=
                (f_unit_shape_gradients st)
                  [face := upd2 (f_unit_shape_gradients st ! face) i j
                     (g (global_unit_quadrature_points st ! face ! j))]\<rparr>) st0
     = st0\<lparr>f_shape_values :=
            for_loop n (\<lambda>j xs. xs[face :=
               mat_set (xs ! face) i j (v (global_unit_quadrature_points st0 ! face ! j))])
               (f_shape_values st0),
          f_unit_shape_gradients :=
            for_loop n (\<lambda>j xs. xs[face :=
               upd2 (xs ! face) i j (g (global_unit_quadrature_points st0 ! face ! j))])
               (f_unit_shape_gradients st0)\<rparr>"
    by (induction n) simp_all
  then show ?thesis
    by (simp add: slot_loop
        [where h = "\<lambda>j A. mat_set A i j (v (global_unit_quadrature_points st0 ! face ! j))"]
        slot_loop
        [where h = "\<lambda>j u. upd2 u i j (g (global_unit_quadrature_points st0 ! face ! j))"])
qed

lemma face_tabulate_i:
  fixes st0 :: "'a FEFaceValues"
  shows "for_loop m (\<lambda>i. for_loop n (\<lambda>j st.
           st\<lparr>f_shape_values :=
                (f_shape_values st)
                  [face := mat_set (f_shape_values st ! face) i j
                     (v i (global_unit_quadrature_points st ! face ! j))],
              f_unit_shape_gradients :=
                (f_unit_shape_gradients st)
                  [face := upd2 (f_unit_shape_gradients st ! face) i j
                     (g i (global_unit_quadrature_points st ! face ! j))]\<rparr>)) st0
     = st0\<lparr>f_shape_values :=
            (f_shape_values st0)[face := for_loop m (\<lambda>i. for_loop n (\<lambda>j A.
               mat_set A i j (v i (global_unit_quadrature_points st0 ! face ! j))))
               (f_shape_values st0 ! face)],
          f_unit_shape_gradients :=
            (f_unit_shape_gradients st0)[face := for_loop m (\<lambda>i. for_loop n (\<lambda>j u.
               upd2 u i j (g i (global_unit_quadrature_points st0 ! face ! j))))
               (f_unit_shape_gradients st0 ! face)]\<rparr>"
proof -
  have "for_loop m (\<lambda>i. for_loop n (\<lambda>j st.
           st\<lparr>f_shape_values :=
                (f_shape_values st)
                  [face := mat_set (f_shape_values st ! face) i j
                     (v i (global_unit_quadrature_points st ! face ! j))],
              f_unit_shape_gradients :=
                (f_unit_shape_gradients st)
                  [face := upd2 (f_unit_shape_gradients st ! face) i j
                     (g i (global_unit_quadrature_points st ! face ! j))]\<rparr>)) st0
     = st0\<lparr>f_shape_values :=
            for_loop m (\<lambda>i xs. xs[face := for_loop n (\<lambda>j A.
               mat_set A i j (v i (global_unit_quadrature_points st0 ! face ! j))) (xs ! face)])
               (f_shape_values st0),
          f_unit_shape_gradients :=
            for_loop m (\<lambda>i xs. xs[face := for_loop n (\<lambda>j u.
               upd2 u i j (g i (global_unit_quadrature_points st0 ! face ! j))) (xs ! face)])
               (f_unit_shape_gradients st0)\<rparr>"
    by (induction m) (simp_all add: face_tabulate_j)
  then show ?thesis
    by (simp add: slot_loop
        [where h = "\<lambda>i. for_loop n (\<lambda>j A.
           mat_set A i j (v i (global_unit_quadrature_points st0 ! face ! j)))"]
        slot_loop
        [where h = "\<lambda>i. for_loop n (\<lambda>j u.
           upd2 u i j (g i (global_unit_quadrature_points st0 ! face ! j)))"])
qed

lemma slots_fill:
  "length (for_loop n (\<lambda>k xs. xs[k := T k (xs ! k)]) xs0) = length xs0 \<and>
   (a < length xs0 \<longrightarrow>
      for_loop n (\<lambda>k xs. xs[k := T k (xs ! k)]) xs0 ! a = (if a < n then T a (xs0 ! a) else xs0 ! a))"
  by (induction n) (auto simp: nth_list_update less_Suc_eq)

lemma face_tabulate_faces:
  fixes st0 :: "'a FEFaceValues"
  shows "for_loop r (\<lambda>face. for_loop m (\<lambda>i. for_loop n (\<lambda>j st.
           st\<lparr>f_shape_values :=
                (f_shape_values st)
                  [face := mat_set (f_shape_values st ! face) i j
                     (v i (global_unit_quadrature_points st ! face ! j))],
              f_unit_shape_gradients :=
                (f_unit_shape_gradients st)
                  [face := upd2 (f_unit_shape_gradients st ! face) i j
                     (g i (global_unit_quadrature_points st ! face ! j))]\<rparr>))) st0
     = st0\<lparr>f_shape_values :=
            for_loop r (\<lambda>face xs. xs[face := for_loop m (\<lambda>i. for_loop n (\<lambda>j A.
               mat_set A i j (v i (global_unit_quadrature_points st0 ! face ! j)))) (xs ! face)])
               (f_shape_values st0),
          f_unit_shape_gradients :=
            for_loop r (\<lambda>face xs. xs[face := for_loop m (\<lambda>i. for_loop n (\<lambda>j u.
               upd2 u i j (g i (global_unit_quadrature_points st0 ! face ! j)))) (xs ! face)])
               (f_unit_shape_gradients st0)\<rparr>"
  by (induction r) (simp_all add: face_tabulate_i)

lemma FEFaceValues_tabulate_fields:
  "FEFaceValues_tabulate dm fe st0 =
     st0\<lparr>f_shape_values :=
            for_loop (2 * dm) (\<lambda>face xs. xs[face :=
               for_loop (fe_total_dofs fe) (\<lambda>i. for_loop (f_n_quadrature_points st0) (\<lambda>j A.
                 mat_set A i j (fe_shape_value fe i (global_unit_quadrature_points st0 ! face ! j))))
                 (xs ! face)])
               (f_shape_values st0),
          f_unit_shape_gradients :=
            for_loop (2 * dm) (\<lambda>face xs. xs[face :=
               for_loop (fe_total_dofs fe) (\<lambda>i. for_loop (f_n_quadrature_points st0) (\<lambda>j u.
                 upd2 u i j (fe_shape_grad fe i (global_unit_quadrature_points st0 ! face ! j))))
                 (xs ! face)])
               (f_unit_shape_gradients st0)\<rparr>"
  unfolding FEFaceValues_tabulate_def by (rule face_tabulate_faces)

lemma embedded_unit_points_nth:
  "length (embedded_unit_points n) = 4"
  "face < 4 \<Longrightarrow> length (embedded_unit_points n ! face) = n"
  "face < 4 \<Longrightarrow> p < n \<Longrightarrow> embedded_unit_points n ! face ! p = face_point face 0"
  by (simp_all add: embedded_unit_points_def table_fill)

lemma embed_stale_points:
  assumes "0 < k"
  shows "for_loop 4 (\<lambda>face. for_loop n (\<lambda>p g.
       upd2 g face p (face_point face (replicate n (Point_default k) ! p ! 0)))) g0
   = for_loop 4 (\<lambda>face. for_loop n (\<lambda>p g. upd2 g face p (face_point face (0::'a::{zero,one})))) g0"
proof -
  have "for_loop n (\<lambda>p g. upd2 g face p (face_point face (replicate n (Point_default k) ! p ! 0)))
      = for_loop n (\<lambda>p g. upd2 g face p (face_point face (0::'a)))" for face
  proof (rule ext)
    fix g :: "'a Point list list"
    show "for_loop n (\<lambda>p g. upd2 g face p (face_point face (replicate n (Point_default k) ! p ! 0))) g
      = for_loop n (\<lambda>p g. upd2 g face p (face_point face (0::'a))) g"
      by (rule for_loop_cong_bound) (simp add: Point_default_def assms)
  qed
  then show ?thesis by simp
qed

lemma FEFaceValues_ctor_2:
  "FEFaceValues_ctor 2 fe quadrature flags =
     Inr ((FEFaceValues_init 2 fe quadrature flags)
       \<lparr>f_shape_values :=
          for_loop 4 (\<lambda>face xs. xs[face :=
             for_loop (fe_total_dofs fe) (\<lambda>i. for_loop (q_n_quadrature_points quadrature) (\<lambda>j A.
               mat_set A i j (fe_shape_value fe i
                 (embedded_unit_points (q_n_quadrature_points quadrature) ! face ! j))))
               (xs ! face)])
            (replicate 4 (dFMatrix_init (fe_total_dofs fe) (q_n_quadrature_points quadrature))),
        f_unit_shape_gradients :=
          for_loop 4 (\<lambda>face xs. xs[face :=
             for_loop (fe_total_dofs fe) (\<lambda>i. for_loop (q_n_quadrature_points quadrature) (\<lambda>j u.
               upd2 u i j (fe_shape_grad fe i
                 (embedded_unit_points (q_n_quadrature_points quadrature) ! face ! j))))
               (xs ! face)])
            (replicate 4 (replicate (fe_total_dofs fe)
               (replicate (q_n_quadrature_points quadrature) (Point_default 2)))),
        global_unit_quadrature_points := embedded_unit_points (q_n_quadrature_points quadrature),
        f_weights := map (weight quadrature) [0..<q_n_quadrature_points quadrature],
        f_unit_quadrature_points :=
          map (quad_point quadrature) [0..<q_n_quadrature_points quadrature]\<rparr>)"
  apply (simp only: FEFaceValues_ctor_def FEFaceValues_resize_init FEFaceValues_embed_2
      FEFaceValues_copy_rule_def face_copy_rule_fields FEFaceValues_tabulate_fields)
  apply (simp add: FEFaceValues_init_def list_fill_all embed_stale_points embedded_unit_points_def)
  done

lemma slots_length: "length (for_loop n (\<lambda>k xs. xs[k := F k xs]) xs0) = length xs0"
  by (induction n) simp_all

lemma FEFaceValues_ctor_2_returns:
  "\<exists>st. FEFaceValues_ctor 2 fe quadrature flags = Inr st"
  by (simp add: FEFaceValues_ctor_2)

lemma FEFaceValues_ctor_2_scalars:
  assumes "FEFaceValues_ctor 2 fe quadrature flags = Inr st"
  shows "f_n_quadrature_points st = q_n_quadrature_points quadrature"
    and "f_total_dofs st = fe_total_dofs fe"
    and "f_update_flags st = flags"
    and "selected_face st = 0"
    and "f_weights st = map (weight quadrature) [0..<q_n_quadrature_points quadrature]"
    and "f_unit_quadrature_points st =
           map (quad_point quadrature) [0..<q_n_quadrature_points quadrature]"
    and "global_unit_quadrature_points st = embedded_unit_points (q_n_quadrature_points quadrature)"
    and "f_shape_gradients st = replicate (fe_total_dofs fe)
           (replicate (q_n_quadrature_points quadrature) (Point_default 2))"
    and "f_JxW_values st = replicate (q_n_quadrature_points quadrature) 0"
    and "f_ansatz_points st = replicate (fe_total_dofs fe) (Point_default 2)"
    and "length (f_shape_values st) = 4"
    and "length (f_unit_shape_gradients st) = 4"
  using assms by (auto simp: FEFaceValues_ctor_2 FEFaceValues_init_def slots_length)

lemma slots_nth:
  "a < length xs0 \<Longrightarrow> a < n \<Longrightarrow>
   for_loop n (\<lambda>k xs. xs[k := T k (xs ! k)]) xs0 ! a = T a (xs0 ! a)"
  by (simp add: slots_fill)

lemma FEFaceValues_ctor_2_tables:
  assumes "FEFaceValues_ctor 2 fe quadrature flags = Inr st" and "face < 4"
  shows "mat_m (f_shape_values st ! face) = fe_total_dofs fe"
    and "mat_n (f_shape_values st ! face) = q_n_quadrature_points quadrature"
    and "i < fe_total_dofs fe \<Longrightarrow> j < q_n_quadrature_points quadrature \<Longrightarrow>
         mat_el (f_shape_values st ! face) i j = fe_shape_value fe i (face_point face 0)"
    and "length (f_unit_shape_gradients st ! face) = fe_total_dofs fe"
    and "i < fe_total_dofs fe \<Longrightarrow>
         length (f_unit_shape_gradients st ! face ! i) = q_n_quadrature_points quadrature"
    and "i < fe_total_dofs fe \<Longrightarrow> j < q_n_quadrature_points quadrature \<Longrightarrow>
         f_unit_shape_gradients st ! face ! i ! j = fe_shape_grad fe i (face_point face 0)"
proof -
  let ?n = "q_n_quadrature_points quadrature"
  let ?G = "embedded_unit_points ?n"
  have sv: "f_shape_values st ! face =
      for_loop (fe_total_dofs fe) (\<lambda>i. for_loop ?n (\<lambda>j A.
         mat_set A i j (fe_shape_value fe i (?G ! face ! j))))
        (dFMatrix_init (fe_total_dofs fe) ?n)"
    using assms
    by (auto simp: FEFaceValues_ctor_2 FEFaceValues_init_def
        slots_nth [where T = "\<lambda>face. for_loop (fe_total_dofs fe) (\<lambda>i. for_loop ?n (\<lambda>j A.
         mat_set A i j (fe_shape_value fe i (?G ! face ! j))))"])
  have ug: "f_unit_shape_gradients st ! face =
      for_loop (fe_total_dofs fe) (\<lambda>i. for_loop ?n (\<lambda>j u.
         upd2 u i j (fe_shape_grad fe i (?G ! face ! j))))
        (replicate (fe_total_dofs fe) (replicate ?n (Point_default 2)))"
    using assms
    by (auto simp: FEFaceValues_ctor_2 FEFaceValues_init_def
        slots_nth [where T = "\<lambda>face. for_loop (fe_total_dofs fe) (\<lambda>i. for_loop ?n (\<lambda>j u.
         upd2 u i j (fe_shape_grad fe i (?G ! face ! j))))"])
  show "mat_m (f_shape_values st ! face) = fe_total_dofs fe"
    and "mat_n (f_shape_values st ! face) = q_n_quadrature_points quadrature"
    by (simp_all add: sv mat_fill dFMatrix_init_def)
  show "mat_el (f_shape_values st ! face) i j = fe_shape_value fe i (face_point face 0)"
    if "i < fe_total_dofs fe" "j < q_n_quadrature_points quadrature"
    using that assms(2) by (simp add: sv mat_fill embedded_unit_points_nth)
  show "length (f_unit_shape_gradients st ! face) = fe_total_dofs fe"
    by (simp add: ug table_fill)
  show "length (f_unit_shape_gradients st ! face ! i) = q_n_quadrature_points quadrature"
    if "i < fe_total_dofs fe"
    using that by (simp add: ug table_fill)
  show "f_unit_shape_gradients st ! face ! i ! j = fe_shape_grad fe i (face_point face 0)"
    if "i < fe_total_dofs fe" "j < q_n_quadrature_points quadrature"
    using that assms(2) by (simp add: ug table_fill embedded_unit_points_nth)
qed

lemma FEFaceValues_ctor_2_sized:
  assumes "FEFaceValues_ctor 2 fe quadrature flags = Inr st"
  shows "FEFaceValues_sized 2 st"
proof -
  have "mat_m (f_shape_values st ! face) = f_total_dofs st \<and>
        mat_n (f_shape_values st ! face) = f_n_quadrature_points st" if "face < 4" for face
    using FEFaceValues_ctor_2_tables(1,2) [OF assms that] FEFaceValues_ctor_2_scalars(1,2) [OF assms]
    by simp
  then show ?thesis
    using FEFaceValues_ctor_2_scalars [OF assms]
    by (simp add: FEFaceValues_sized_def list_all_length embedded_unit_points_nth Point_default_def)
qed

lemma face_transform_gradients_in_range:
  assumes "face_no < length usg"
  shows "face_transform_gradients dm face_no ndofs nq usg J sg0 =
           Inr (transform_gradients dm ndofs nq (usg ! face_no) J sg0)"
proof -
  have b: "for_loop_chk dm (\<lambda>b sg'.
               case array_at usg face_no of
                 Inl e \<Rightarrow> Inl e
               | Inr u \<Rightarrow>
                   Inr (upd3 sg' i j s (sg' ! i ! j ! s + u ! i ! j ! b * mat_el (J ! j) b s))) sg
      = Inr (for_loop dm (\<lambda>b sg'.
               upd3 sg' i j s (sg' ! i ! j ! s + usg ! face_no ! i ! j ! b * mat_el (J ! j) b s)) sg)"
    for i j s sg
    by (rule for_loop_chk_total) (simp add: array_at_def assms)
  have s: "for_loop_chk dm (\<lambda>s sg.
           for_loop_chk dm (\<lambda>b sg'.
               case array_at usg face_no of
                 Inl e \<Rightarrow> Inl e
               | Inr u \<Rightarrow>
                   Inr (upd3 sg' i j s (sg' ! i ! j ! s + u ! i ! j ! b * mat_el (J ! j) b s)))
             (upd3 sg i j s 0)) sg1
      = Inr (for_loop dm (\<lambda>s sg. for_loop dm (\<lambda>b sg'.
               upd3 sg' i j s (sg' ! i ! j ! s + usg ! face_no ! i ! j ! b * mat_el (J ! j) b s))
             (upd3 sg i j s 0)) sg1)"
    for i j sg1
    by (rule for_loop_chk_total) (simp add: b)
  have j: "for_loop_chk nq (\<lambda>j. for_loop_chk dm (\<lambda>s sg.
           for_loop_chk dm (\<lambda>b sg'.
               case array_at usg face_no of
                 Inl e \<Rightarrow> Inl e
               | Inr u \<Rightarrow>
                   Inr (upd3 sg' i j s (sg' ! i ! j ! s + u ! i ! j ! b * mat_el (J ! j) b s)))
             (upd3 sg i j s 0))) sg1
      = Inr (for_loop nq (\<lambda>j. for_loop dm (\<lambda>s sg. for_loop dm (\<lambda>b sg'.
               upd3 sg' i j s (sg' ! i ! j ! s + usg ! face_no ! i ! j ! b * mat_el (J ! j) b s))
             (upd3 sg i j s 0))) sg1)"
    for i sg1
    by (rule for_loop_chk_total) (simp add: s)
  show ?thesis
    unfolding face_transform_gradients_def transform_gradients_def
    by (rule for_loop_chk_total) (simp add: j)
qed

lemma FEFaceValues_fill_keeps:
  assumes "FEFaceValues_fill cell face_no fe boundary st = Inr st'"
  shows "f_n_quadrature_points st' = f_n_quadrature_points st"
    and "f_total_dofs st' = f_total_dofs st"
    and "f_shape_values st' = f_shape_values st"
    and "f_shape_gradients st' = f_shape_gradients st"
    and "f_unit_shape_gradients st' = f_unit_shape_gradients st"
    and "f_weights st' = f_weights st"
    and "f_JxW_values st' = f_JxW_values st"
    and "f_unit_quadrature_points st' = f_unit_quadrature_points st"
    and "global_unit_quadrature_points st' = global_unit_quadrature_points st"
    and "f_update_flags st' = f_update_flags st"
    and "selected_face st' = selected_face st"
  using assms
  by (auto simp: FEFaceValues_fill_def array_at_def split: if_splits prod.splits)

lemma FEFaceValues_gradients_keeps:
  assumes "FEFaceValues_gradients dm face_no fe st = Inr st'"
  shows "f_n_quadrature_points st' = f_n_quadrature_points st"
    and "f_total_dofs st' = f_total_dofs st"
    and "f_shape_values st' = f_shape_values st"
    and "f_unit_shape_gradients st' = f_unit_shape_gradients st"
    and "f_weights st' = f_weights st"
    and "f_JxW_values st' = f_JxW_values st"
    and "f_unit_quadrature_points st' = f_unit_quadrature_points st"
    and "global_unit_quadrature_points st' = global_unit_quadrature_points st"
    and "f_update_flags st' = f_update_flags st"
    and "selected_face st' = selected_face st"
    and "f_jacobi_matrices st' = f_jacobi_matrices st"
    and "f_ansatz_points st' = f_ansatz_points st"
    and "f_quadrature_points st' = f_quadrature_points st"
    and "face_jacobi_determinants st' = face_jacobi_determinants st"
    and "normal_vectors st' = normal_vectors st"
  using assms
  by (auto simp: FEFaceValues_gradients_def split: if_splits sum.splits)

lemma face_JxW_fields:
  fixes st0 :: "'a::times FEFaceValues"
  shows "for_loop n (\<lambda>i st.
           st\<lparr>f_JxW_values :=
                (f_JxW_values st)[i := f_weights st ! i * face_jacobi_determinants st ! i]\<rparr>) st0
     = st0\<lparr>f_JxW_values :=
            for_loop n (\<lambda>i w. w[i := f_weights st0 ! i * face_jacobi_determinants st0 ! i])
              (f_JxW_values st0)\<rparr>"
  by (induction n) simp_all

lemma FEFaceValues_weights_closed:
  "FEFaceValues_weights st =
     (if update_JxW_values \<in> f_update_flags st then
        if update_jacobians \<notin> f_update_flags st then Inl ExcCannotInitializeField
        else Inr (st\<lparr>f_JxW_values :=
               for_loop (f_n_quadrature_points st)
                 (\<lambda>i w. w[i := f_weights st ! i * face_jacobi_determinants st ! i])
                 (f_JxW_values st)\<rparr>)
      else Inr st)"
  by (simp add: FEFaceValues_weights_def face_JxW_fields)

lemma FEFaceValues_weights_keeps:
  assumes "FEFaceValues_weights st = Inr st'"
  shows "f_n_quadrature_points st' = f_n_quadrature_points st"
    and "f_total_dofs st' = f_total_dofs st"
    and "f_shape_values st' = f_shape_values st"
    and "f_shape_gradients st' = f_shape_gradients st"
    and "f_unit_shape_gradients st' = f_unit_shape_gradients st"
    and "f_weights st' = f_weights st"
    and "f_unit_quadrature_points st' = f_unit_quadrature_points st"
    and "global_unit_quadrature_points st' = global_unit_quadrature_points st"
    and "f_update_flags st' = f_update_flags st"
    and "selected_face st' = selected_face st"
    and "f_jacobi_matrices st' = f_jacobi_matrices st"
    and "f_ansatz_points st' = f_ansatz_points st"
    and "f_quadrature_points st' = f_quadrature_points st"
    and "face_jacobi_determinants st' = face_jacobi_determinants st"
    and "normal_vectors st' = normal_vectors st"
  using assms by (auto simp: FEFaceValues_weights_closed split: if_splits)

lemma FEFaceValues_reinit_steps:
  assumes "FEFaceValues_reinit dm cell face_no fe boundary st = Inr st'"
  obtains st1 st2 where
    "FEFaceValues_fill cell face_no fe boundary (st\<lparr>selected_face := face_no\<rparr>) = Inr st1"
    "FEFaceValues_gradients dm face_no fe st1 = Inr st2"
    "FEFaceValues_weights st2 = Inr st'"
  using assms by (auto simp: FEFaceValues_reinit_def split: sum.splits)

lemma FEFaceValues_reinit_keeps:
  assumes "FEFaceValues_reinit dm cell face_no fe boundary st = Inr st'"
  shows "f_n_quadrature_points st' = f_n_quadrature_points st"
    and "f_total_dofs st' = f_total_dofs st"
    and "f_shape_values st' = f_shape_values st"
    and "f_unit_shape_gradients st' = f_unit_shape_gradients st"
    and "f_weights st' = f_weights st"
    and "f_unit_quadrature_points st' = f_unit_quadrature_points st"
    and "global_unit_quadrature_points st' = global_unit_quadrature_points st"
    and "f_update_flags st' = f_update_flags st"
    and "selected_face st' = face_no"
proof -
  from assms obtain st1 st2 where
    f: "FEFaceValues_fill cell face_no fe boundary (st\<lparr>selected_face := face_no\<rparr>) = Inr st1" and
    g: "FEFaceValues_gradients dm face_no fe st1 = Inr st2" and
    w: "FEFaceValues_weights st2 = Inr st'"
    by (rule FEFaceValues_reinit_steps)
  show "f_n_quadrature_points st' = f_n_quadrature_points st"
    and "f_total_dofs st' = f_total_dofs st"
    and "f_shape_values st' = f_shape_values st"
    and "f_unit_shape_gradients st' = f_unit_shape_gradients st"
    and "f_weights st' = f_weights st"
    and "f_unit_quadrature_points st' = f_unit_quadrature_points st"
    and "global_unit_quadrature_points st' = global_unit_quadrature_points st"
    and "f_update_flags st' = f_update_flags st"
    and "selected_face st' = face_no"
    by (simp_all add: FEFaceValues_weights_keeps [OF w] FEFaceValues_gradients_keeps [OF g]
        FEFaceValues_fill_keeps [OF f])
qed

lemma face_transform_gradients_fills:
  assumes "face_transform_gradients dm face_no ndofs nq usg J sg0 = Inr sg"
  shows "fills3 sg sg0 (\<lambda>a c e. a < ndofs \<and> c < nq \<and> e < dm)
           (chain_rule_sum dm (usg ! face_no) J)"
proof (cases "face_no < length usg")
  case True
  with assms have "sg = transform_gradients dm ndofs nq (usg ! face_no) J sg0"
    by (simp add: face_transform_gradients_in_range)
  then show ?thesis by (simp add: transform_gradients_fills)
next
  case False
  have b: "for_loop_chk dm (\<lambda>b sg'.
               case array_at usg face_no of
                 Inl e \<Rightarrow> Inl e
               | Inr u \<Rightarrow>
                   Inr (upd3 sg' i j s (sg' ! i ! j ! s + u ! i ! j ! b * mat_el (J ! j) b s))) x
      = (if dm = 0 then Inr x else Inl ArrayOutOfBounds)" for i j s x
    by (rule for_loop_chk_stops) (simp add: array_at_def False)
  have s: "for_loop_chk dm (\<lambda>s sg.
           for_loop_chk dm (\<lambda>b sg'.
               case array_at usg face_no of
                 Inl e \<Rightarrow> Inl e
               | Inr u \<Rightarrow>
                   Inr (upd3 sg' i j s (sg' ! i ! j ! s + u ! i ! j ! b * mat_el (J ! j) b s)))
             (upd3 sg i j s 0))
      = (\<lambda>x. if dm = 0 then Inr x else Inl ArrayOutOfBounds)" for i j
    by (rule ext, cases "dm = 0")
      (simp_all add: b for_loop_chk_stops [where e = ArrayOutOfBounds])
  have j: "for_loop_chk nq (\<lambda>j. for_loop_chk dm (\<lambda>s sg.
           for_loop_chk dm (\<lambda>b sg'.
               case array_at usg face_no of
                 Inl e \<Rightarrow> Inl e
               | Inr u \<Rightarrow>
                   Inr (upd3 sg' i j s (sg' ! i ! j ! s + u ! i ! j ! b * mat_el (J ! j) b s)))
             (upd3 sg i j s 0)))
      = (\<lambda>x. if dm = 0 \<or> nq = 0 then Inr x else Inl ArrayOutOfBounds)" for i
  proof (rule ext, cases "dm = 0")
    fix x :: "'a Point list list"
    case True
    have "for_loop_chk nq (\<lambda>j x. Inr x) x = Inr (for_loop nq (\<lambda>j x. x) x)"
      by (rule for_loop_chk_total) simp
    then show "for_loop_chk nq (\<lambda>j. for_loop_chk dm (\<lambda>s sg.
           for_loop_chk dm (\<lambda>b sg'.
               case array_at usg face_no of
                 Inl e \<Rightarrow> Inl e
               | Inr u \<Rightarrow>
                   Inr (upd3 sg' i j s (sg' ! i ! j ! s + u ! i ! j ! b * mat_el (J ! j) b s)))
             (upd3 sg i j s 0))) x
      = (if dm = 0 \<or> nq = 0 then Inr x else Inl ArrayOutOfBounds)"
      unfolding s by (simp add: True for_loop_id)
  next
    fix x :: "'a Point list list"
    case False
    then show "for_loop_chk nq (\<lambda>j. for_loop_chk dm (\<lambda>s sg.
           for_loop_chk dm (\<lambda>b sg'.
               case array_at usg face_no of
                 Inl e \<Rightarrow> Inl e
               | Inr u \<Rightarrow>
                   Inr (upd3 sg' i j s (sg' ! i ! j ! s + u ! i ! j ! b * mat_el (J ! j) b s)))
             (upd3 sg i j s 0))) x
      = (if dm = 0 \<or> nq = 0 then Inr x else Inl ArrayOutOfBounds)"
      by (simp add: s for_loop_chk_stops [where e = ArrayOutOfBounds])
  qed
  have "face_transform_gradients dm face_no ndofs nq usg J sg0
      = (if dm = 0 \<or> nq = 0 \<or> ndofs = 0 then Inr sg0 else Inl ArrayOutOfBounds)"
  proof (cases "dm = 0 \<or> nq = 0")
    case True
    have "for_loop_chk ndofs (\<lambda>j x. Inr x) sg0 = Inr (for_loop ndofs (\<lambda>j x. x) sg0)"
      by (rule for_loop_chk_total) simp
    with True show ?thesis
      unfolding face_transform_gradients_def j by (auto simp: for_loop_id)
  next
    case False
    then show ?thesis
      by (simp add: face_transform_gradients_def j for_loop_chk_stops [where e = ArrayOutOfBounds])
  qed
  with assms have "sg = sg0" and "dm = 0 \<or> nq = 0 \<or> ndofs = 0"
    by (auto split: if_splits)
  then show ?thesis
    by (auto intro: fills3_cong [OF fills3_start])
qed

lemma FEFaceValues_reinit_gradients:
  assumes "FEFaceValues_reinit dm cell face_no fe boundary st = Inr st'"
  shows "fills3 (f_shape_gradients st') (f_shape_gradients st)
           (\<lambda>a c e. update_gradients \<in> f_update_flags st \<and> a < fe_total_dofs fe \<and>
                      c < f_n_quadrature_points st \<and> e < dm)
           (chain_rule_sum dm (f_unit_shape_gradients st ! face_no) (f_jacobi_matrices st'))"
proof -
  from assms obtain st1 st2 where
    f: "FEFaceValues_fill cell face_no fe boundary (st\<lparr>selected_face := face_no\<rparr>) = Inr st1" and
    g: "FEFaceValues_gradients dm face_no fe st1 = Inr st2" and
    w: "FEFaceValues_weights st2 = Inr st'"
    by (rule FEFaceValues_reinit_steps)
  note kf = FEFaceValues_fill_keeps [OF f] and kg = FEFaceValues_gradients_keeps [OF g]
    and kw = FEFaceValues_weights_keeps [OF w]
  show ?thesis
  proof (cases "update_gradients \<in> f_update_flags st")
    case True
    with g obtain sg where
      t: "face_transform_gradients dm face_no (fe_total_dofs fe) (f_n_quadrature_points st1)
             (f_unit_shape_gradients st1) (f_jacobi_matrices st1) (f_shape_gradients st1) = Inr sg"
      and st2: "st2 = st1\<lparr>f_shape_gradients := sg\<rparr>"
      by (auto simp: FEFaceValues_gradients_def kf split: if_splits sum.splits)
    from face_transform_gradients_fills [OF t] True show ?thesis
      by (simp add: kw kg(11) st2 kf)
  next
    case False
    with g have "st2 = st1" by (simp add: FEFaceValues_gradients_def kf)
    with False show ?thesis
      by (simp add: kw kf fills3_start)
  qed
qed

lemma FEFaceValues_reinit_JxW:
  assumes "FEFaceValues_reinit dm cell face_no fe boundary st = Inr st'"
  shows "f_JxW_values st' =
          (if update_JxW_values \<in> f_update_flags st
           then for_loop (f_n_quadrature_points st)
                  (\<lambda>i w. w[i := f_weights st ! i * face_jacobi_determinants st' ! i])
                  (f_JxW_values st)
           else f_JxW_values st)"
proof -
  from assms obtain st1 st2 where
    f: "FEFaceValues_fill cell face_no fe boundary (st\<lparr>selected_face := face_no\<rparr>) = Inr st1" and
    g: "FEFaceValues_gradients dm face_no fe st1 = Inr st2" and
    w: "FEFaceValues_weights st2 = Inr st'"
    by (rule FEFaceValues_reinit_steps)
  note kf = FEFaceValues_fill_keeps [OF f] and kg = FEFaceValues_gradients_keeps [OF g]
    and kw = FEFaceValues_weights_keeps [OF w]
  show ?thesis
  proof (cases "update_JxW_values \<in> f_update_flags st")
    case True
    with w have "st' = st2\<lparr>f_JxW_values :=
               for_loop (f_n_quadrature_points st2)
                 (\<lambda>i w. w[i := f_weights st2 ! i * face_jacobi_determinants st2 ! i])
                 (f_JxW_values st2)\<rparr>"
      by (auto simp: FEFaceValues_weights_closed kg kf split: if_splits)
    then have "f_JxW_values st' = for_loop (f_n_quadrature_points st2)
                 (\<lambda>i w. w[i := f_weights st2 ! i * face_jacobi_determinants st2 ! i])
                 (f_JxW_values st2)"
      by simp
    with True show ?thesis by (simp add: kg kf kw(14))
  next
    case False
    with w have "st' = st2"
      by (simp add: FEFaceValues_weights_closed kg kf)
    with False show ?thesis by (simp add: kg kf)
  qed
qed

lemma FEFaceValues_reinit_mapper:
  assumes "FEFaceValues_reinit dm cell face_no fe boundary st = Inr st'"
  shows "(f_jacobi_matrices st', f_ansatz_points st', f_quadrature_points st',
          face_jacobi_determinants st', normal_vectors st') =
          (if update_jacobians \<in> f_update_flags st \<or> update_q_points \<in> f_update_flags st
              \<or> update_ansatz_points \<in> f_update_flags st \<or> update_JxW_values \<in> f_update_flags st
           then fill_fe_face_values fe cell face_no (f_unit_quadrature_points st)
                     (global_unit_quadrature_points st ! face_no)
                     (f_jacobi_matrices st) (update_jacobians \<in> f_update_flags st)
                     (f_ansatz_points st) (update_ansatz_points \<in> f_update_flags st)
                     (f_quadrature_points st) (update_q_points \<in> f_update_flags st)
                     (face_jacobi_determinants st) (update_JxW_values \<in> f_update_flags st)
                     (normal_vectors st) (update_normal_vectors \<in> f_update_flags st)
                     boundary
           else (f_jacobi_matrices st, f_ansatz_points st, f_quadrature_points st,
                 face_jacobi_determinants st, normal_vectors st))"
proof -
  from assms obtain st1 st2 where
    f: "FEFaceValues_fill cell face_no fe boundary (st\<lparr>selected_face := face_no\<rparr>) = Inr st1" and
    g: "FEFaceValues_gradients dm face_no fe st1 = Inr st2" and
    w: "FEFaceValues_weights st2 = Inr st'"
    by (rule FEFaceValues_reinit_steps)
  note kg = FEFaceValues_gradients_keeps [OF g] and kw = FEFaceValues_weights_keeps [OF w]
  from f show ?thesis
    by (auto simp: FEFaceValues_fill_def array_at_def kg kw split: if_splits prod.splits)
qed

lemma fills3_same_outside: "fills3 u g D h \<Longrightarrow> same_outside3 D g u"
  by (simp add: fills3_def same_outside3_def)

lemma same_outside3_trans:
  "same_outside3 D g u \<Longrightarrow> same_outside3 D u v \<Longrightarrow> same_outside3 D g v"
  by (auto simp: same_outside3_def in_range3_def)

lemma same_outside1_trans:
  "same_outside1 D g u \<Longrightarrow> same_outside1 D u v \<Longrightarrow> same_outside1 D g v"
  by (auto simp: same_outside1_def)

lemma fills3_from_same_outside:
  assumes "same_outside3 D g g'" and "fills3 u' g' D h"
  shows "fills3 u' g D h"
  using assms by (auto simp: same_outside3_def fills3_def in_range3_def)

lemma list_fill_same_outside:
  "same_outside1 (\<lambda>i. i < M) w0 (for_loop M (\<lambda>i w. w[i := f i]) w0)"
  by (simp add: same_outside1_def list_fill_length list_fill_nth)

lemma list_fill_unique:
  assumes "same_outside1 (\<lambda>i. i < M) w0 w1"
  shows "for_loop M (\<lambda>i w. w[i := f i]) w1 = for_loop M (\<lambda>i w. w[i := f i]) w0"
  using assms
  by (intro nth_equalityI) (auto simp: same_outside1_def list_fill_length list_fill_nth)

lemma reinit_frameD:
  assumes "reinit_frame dm nd st st'"
  shows "f_n_quadrature_points st' = f_n_quadrature_points st"
    and "f_total_dofs st' = f_total_dofs st"
    and "f_shape_values st' = f_shape_values st"
    and "f_unit_shape_gradients st' = f_unit_shape_gradients st"
    and "f_weights st' = f_weights st"
    and "f_unit_quadrature_points st' = f_unit_quadrature_points st"
    and "global_unit_quadrature_points st' = global_unit_quadrature_points st"
    and "f_update_flags st' = f_update_flags st"
    and "update_jacobians \<in> f_update_flags st \<or> f_jacobi_matrices st' = f_jacobi_matrices st"
    and "update_ansatz_points \<in> f_update_flags st \<or> f_ansatz_points st' = f_ansatz_points st"
    and "update_q_points \<in> f_update_flags st \<or> f_quadrature_points st' = f_quadrature_points st"
    and "update_JxW_values \<in> f_update_flags st \<or>
        face_jacobi_determinants st' = face_jacobi_determinants st"
    and "update_normal_vectors \<in> f_update_flags st \<and>
        (update_jacobians \<in> f_update_flags st \<or> update_q_points \<in> f_update_flags st
          \<or> update_ansatz_points \<in> f_update_flags st \<or> update_JxW_values \<in> f_update_flags st)
      \<or> normal_vectors st' = normal_vectors st"
    and "same_outside3 (\<lambda>a c e. update_gradients \<in> f_update_flags st \<and> a < nd \<and>
                       c < f_n_quadrature_points st \<and> e < dm)
       (f_shape_gradients st) (f_shape_gradients st')"
    and "same_outside1 (\<lambda>i. update_JxW_values \<in> f_update_flags st \<and> i < f_n_quadrature_points st)
       (f_JxW_values st) (f_JxW_values st')"
  using assms unfolding reinit_frame_def by blast+

lemma reinit_frameI:
  assumes "f_n_quadrature_points st' = f_n_quadrature_points st"
    and "f_total_dofs st' = f_total_dofs st"
    and "f_shape_values st' = f_shape_values st"
    and "f_unit_shape_gradients st' = f_unit_shape_gradients st"
    and "f_weights st' = f_weights st"
    and "f_unit_quadrature_points st' = f_unit_quadrature_points st"
    and "global_unit_quadrature_points st' = global_unit_quadrature_points st"
    and "f_update_flags st' = f_update_flags st"
    and "update_jacobians \<in> f_update_flags st \<or> f_jacobi_matrices st' = f_jacobi_matrices st"
    and "update_ansatz_points \<in> f_update_flags st \<or> f_ansatz_points st' = f_ansatz_points st"
    and "update_q_points \<in> f_update_flags st \<or> f_quadrature_points st' = f_quadrature_points st"
    and "update_JxW_values \<in> f_update_flags st \<or>
        face_jacobi_determinants st' = face_jacobi_determinants st"
    and "update_normal_vectors \<in> f_update_flags st \<and>
        (update_jacobians \<in> f_update_flags st \<or> update_q_points \<in> f_update_flags st
          \<or> update_ansatz_points \<in> f_update_flags st \<or> update_JxW_values \<in> f_update_flags st)
      \<or> normal_vectors st' = normal_vectors st"
    and "same_outside3 (\<lambda>a c e. update_gradients \<in> f_update_flags st \<and> a < nd \<and>
                       c < f_n_quadrature_points st \<and> e < dm)
       (f_shape_gradients st) (f_shape_gradients st')"
    and "same_outside1 (\<lambda>i. update_JxW_values \<in> f_update_flags st \<and> i < f_n_quadrature_points st)
       (f_JxW_values st) (f_JxW_values st')"
  shows "reinit_frame dm nd st st'"
  unfolding reinit_frame_def using assms by (intro conjI)

lemma reinit_frame_trans:
  assumes a: "reinit_frame dm nd st st1" and b: "reinit_frame dm nd st1 st2"
  shows "reinit_frame dm nd st st2"
proof (rule reinit_frameI)
  note A = reinit_frameD [OF a] and B = reinit_frameD [OF b]
  show "f_n_quadrature_points st2 = f_n_quadrature_points st"
    "f_total_dofs st2 = f_total_dofs st"
    "f_shape_values st2 = f_shape_values st"
    "f_unit_shape_gradients st2 = f_unit_shape_gradients st"
    "f_weights st2 = f_weights st"
    "f_unit_quadrature_points st2 = f_unit_quadrature_points st"
    "global_unit_quadrature_points st2 = global_unit_quadrature_points st"
    "f_update_flags st2 = f_update_flags st"
    by (simp_all add: A(1-8) B(1-8))
  show "update_jacobians \<in> f_update_flags st \<or> f_jacobi_matrices st2 = f_jacobi_matrices st"
    using A(9) B(9) by (auto simp: A(8))
  show "update_ansatz_points \<in> f_update_flags st \<or> f_ansatz_points st2 = f_ansatz_points st"
    using A(10) B(10) by (auto simp: A(8))
  show "update_q_points \<in> f_update_flags st \<or> f_quadrature_points st2 = f_quadrature_points st"
    using A(11) B(11) by (auto simp: A(8))
  show "update_JxW_values \<in> f_update_flags st \<or>
        face_jacobi_determinants st2 = face_jacobi_determinants st"
    using A(12) B(12) by (auto simp: A(8))
  show "update_normal_vectors \<in> f_update_flags st \<and>
        (update_jacobians \<in> f_update_flags st \<or> update_q_points \<in> f_update_flags st
          \<or> update_ansatz_points \<in> f_update_flags st \<or> update_JxW_values \<in> f_update_flags st)
      \<or> normal_vectors st2 = normal_vectors st"
    using A(13) B(13) by (auto simp: A(8))
  show "same_outside3 (\<lambda>a c e. update_gradients \<in> f_update_flags st \<and> a < nd \<and>
                       c < f_n_quadrature_points st \<and> e < dm)
       (f_shape_gradients st) (f_shape_gradients st2)"
    using same_outside3_trans [OF A(14)] B(14) by (simp add: A(1,8))
  show "same_outside1 (\<lambda>i. update_JxW_values \<in> f_update_flags st \<and> i < f_n_quadrature_points st)
       (f_JxW_values st) (f_JxW_values st2)"
    using same_outside1_trans [OF A(15)] B(15) by (simp add: A(1,8))
qed

lemma face_mapper_fillsD:
  assumes "face_mapper_fills fe"
    and "fill_fe_face_values fe cell face up gp J fJ ap fA qp fQ fjd fW nv fN boundary
           = (Jo, apo, qpo, fjdo, nvo)"
    and "fill_fe_face_values fe cell face up gp J' fJ ap' fA qp' fQ fjd' fW nv' fN boundary
           = (Jo', apo', qpo', fjdo', nvo')"
  shows "if fJ then Jo = Jo' else Jo = J"
    and "if fA then apo = apo' else apo = ap"
    and "if fQ then qpo = qpo' else qpo = qp"
    and "if fW then fjdo = fjdo' else fjdo = fjd"
    and "if fN then nvo = nvo' else nvo = nv"
proof -
  from assms(1) [unfolded face_mapper_fills_def, rule_format,
      where cell = cell and face = face and up = up and gp = gp and J = J and fJ = fJ
        and ap = ap and fA = fA and qp = qp and fQ = fQ and fjd = fjd and fW = fW
        and nv = nv and fN = fN and boundary = boundary and J' = J' and ap' = ap'
        and qp' = qp' and fjd' = fjd' and nv' = nv'] have
    "case fill_fe_face_values fe cell face up gp J fJ ap fA qp fQ fjd fW nv fN boundary of
          (Jo, apo, qpo, fjdo, nvo) \<Rightarrow>
        case fill_fe_face_values fe cell face up gp J' fJ ap' fA qp' fQ fjd' fW nv' fN boundary of
          (Jo', apo', qpo', fjdo', nvo') \<Rightarrow>
            (if fJ then Jo = Jo' else Jo = J) \<and>
            (if fA then apo = apo' else apo = ap) \<and>
            (if fQ then qpo = qpo' else qpo = qp) \<and>
            (if fW then fjdo = fjdo' else fjdo = fjd) \<and>
            (if fN then nvo = nvo' else nvo = nv)" .
  then have "(if fJ then Jo = Jo' else Jo = J) \<and>
            (if fA then apo = apo' else apo = ap) \<and>
            (if fQ then qpo = qpo' else qpo = qp) \<and>
            (if fW then fjdo = fjdo' else fjdo = fjd) \<and>
            (if fN then nvo = nvo' else nvo = nv)"
    by (simp add: assms(2,3))
  then show "if fJ then Jo = Jo' else Jo = J"
    and "if fA then apo = apo' else apo = ap"
    and "if fQ then qpo = qpo' else qpo = qp"
    and "if fW then fjdo = fjdo' else fjdo = fjd"
    and "if fN then nvo = nvo' else nvo = nv"
    by blast+
qed

lemma FEFaceValues_reinit_frame:
  assumes m: "face_mapper_fills fe"
    and r: "FEFaceValues_reinit dm cell face_no fe boundary st = Inr st'"
  shows "reinit_frame dm (fe_total_dofs fe) st st'"
proof (rule reinit_frameI)
  note k = FEFaceValues_reinit_keeps [OF r]
  show "f_n_quadrature_points st' = f_n_quadrature_points st"
    "f_total_dofs st' = f_total_dofs st"
    "f_shape_values st' = f_shape_values st"
    "f_unit_shape_gradients st' = f_unit_shape_gradients st"
    "f_weights st' = f_weights st"
    "f_unit_quadrature_points st' = f_unit_quadrature_points st"
    "global_unit_quadrature_points st' = global_unit_quadrature_points st"
    "f_update_flags st' = f_update_flags st"
    by (simp_all add: k)
  let ?called = "update_jacobians \<in> f_update_flags st \<or> update_q_points \<in> f_update_flags st
          \<or> update_ansatz_points \<in> f_update_flags st \<or> update_JxW_values \<in> f_update_flags st"
  let ?out = "(f_jacobi_matrices st', f_ansatz_points st', f_quadrature_points st',
          face_jacobi_determinants st', normal_vectors st')"
  have frame: "(update_jacobians \<in> f_update_flags st \<or> f_jacobi_matrices st' = f_jacobi_matrices st) \<and>
      (update_ansatz_points \<in> f_update_flags st \<or> f_ansatz_points st' = f_ansatz_points st) \<and>
      (update_q_points \<in> f_update_flags st \<or> f_quadrature_points st' = f_quadrature_points st) \<and>
      (update_JxW_values \<in> f_update_flags st \<or>
         face_jacobi_determinants st' = face_jacobi_determinants st) \<and>
      (update_normal_vectors \<in> f_update_flags st \<and> ?called
         \<or> normal_vectors st' = normal_vectors st)"
  proof (cases ?called)
    case True
    with FEFaceValues_reinit_mapper [OF r]
    have o: "fill_fe_face_values fe cell face_no (f_unit_quadrature_points st)
                     (global_unit_quadrature_points st ! face_no)
                     (f_jacobi_matrices st) (update_jacobians \<in> f_update_flags st)
                     (f_ansatz_points st) (update_ansatz_points \<in> f_update_flags st)
                     (f_quadrature_points st) (update_q_points \<in> f_update_flags st)
                     (face_jacobi_determinants st) (update_JxW_values \<in> f_update_flags st)
                     (normal_vectors st) (update_normal_vectors \<in> f_update_flags st)
                     boundary = ?out"
      by simp
    from face_mapper_fillsD [OF m o o] True show ?thesis
      by (simp split: if_splits)
  next
    case False
    with FEFaceValues_reinit_mapper [OF r] show ?thesis by simp
  qed
  from frame show "update_jacobians \<in> f_update_flags st \<or> f_jacobi_matrices st' = f_jacobi_matrices st"
    by blast
  from frame show "update_ansatz_points \<in> f_update_flags st \<or> f_ansatz_points st' = f_ansatz_points st"
    by blast
  from frame show "update_q_points \<in> f_update_flags st \<or> f_quadrature_points st' = f_quadrature_points st"
    by blast
  from frame show "update_JxW_values \<in> f_update_flags st \<or>
         face_jacobi_determinants st' = face_jacobi_determinants st"
    by blast
  from frame show "update_normal_vectors \<in> f_update_flags st \<and> ?called
         \<or> normal_vectors st' = normal_vectors st"
    by blast
  show "same_outside3 (\<lambda>a c e. update_gradients \<in> f_update_flags st \<and> a < fe_total_dofs fe \<and>
                       c < f_n_quadrature_points st \<and> e < dm)
       (f_shape_gradients st) (f_shape_gradients st')"
    by (rule fills3_same_outside [OF FEFaceValues_reinit_gradients [OF r]])
  show "same_outside1 (\<lambda>i. update_JxW_values \<in> f_update_flags st \<and> i < f_n_quadrature_points st)
       (f_JxW_values st) (f_JxW_values st')"
  proof (cases "update_JxW_values \<in> f_update_flags st")
    case True
    then show ?thesis
      using list_fill_same_outside [of "f_n_quadrature_points st"
          "f_JxW_values st" "\<lambda>i. f_weights st ! i * face_jacobi_determinants st' ! i"]
      by (simp add: FEFaceValues_reinit_JxW [OF r])
  next
    case False
    then show ?thesis
      by (simp add: FEFaceValues_reinit_JxW [OF r] same_outside1_def)
  qed
qed

lemma FEFaceValues_reinit_determined:
  assumes m: "face_mapper_fills fe"
    and fr: "reinit_frame dm (fe_total_dofs fe) st t"
    and rs: "FEFaceValues_reinit dm cell face_no fe boundary st = Inr s"
    and ru: "FEFaceValues_reinit dm cell face_no fe boundary t = Inr u"
  shows "u = s"
proof (rule FEFaceValues.equality)
  note F = reinit_frameD [OF fr]
  note ks = FEFaceValues_reinit_keeps [OF rs] and ku = FEFaceValues_reinit_keeps [OF ru]
  show "f_n_quadrature_points u = f_n_quadrature_points s"
    "f_total_dofs u = f_total_dofs s"
    "f_shape_values u = f_shape_values s"
    "f_unit_shape_gradients u = f_unit_shape_gradients s"
    "f_weights u = f_weights s"
    "f_unit_quadrature_points u = f_unit_quadrature_points s"
    "global_unit_quadrature_points u = global_unit_quadrature_points s"
    "f_update_flags u = f_update_flags s"
    "selected_face u = selected_face s"
    by (simp_all add: ks ku F(1-8))
  show "FEFaceValues.more u = FEFaceValues.more s" by simp
  let ?called = "update_jacobians \<in> f_update_flags st \<or> update_q_points \<in> f_update_flags st
          \<or> update_ansatz_points \<in> f_update_flags st \<or> update_JxW_values \<in> f_update_flags st"
  have out: "f_jacobi_matrices u = f_jacobi_matrices s \<and> f_ansatz_points u = f_ansatz_points s \<and>
      f_quadrature_points u = f_quadrature_points s \<and>
      face_jacobi_determinants u = face_jacobi_determinants s \<and>
      normal_vectors u = normal_vectors s"
  proof (cases ?called)
    case True
    with FEFaceValues_reinit_mapper [OF rs]
    have os: "fill_fe_face_values fe cell face_no (f_unit_quadrature_points st)
                     (global_unit_quadrature_points st ! face_no)
                     (f_jacobi_matrices st) (update_jacobians \<in> f_update_flags st)
                     (f_ansatz_points st) (update_ansatz_points \<in> f_update_flags st)
                     (f_quadrature_points st) (update_q_points \<in> f_update_flags st)
                     (face_jacobi_determinants st) (update_JxW_values \<in> f_update_flags st)
                     (normal_vectors st) (update_normal_vectors \<in> f_update_flags st)
                     boundary =
        (f_jacobi_matrices s, f_ansatz_points s, f_quadrature_points s,
          face_jacobi_determinants s, normal_vectors s)"
      by simp
    from True FEFaceValues_reinit_mapper [OF ru]
    have ou: "fill_fe_face_values fe cell face_no (f_unit_quadrature_points st)
                     (global_unit_quadrature_points st ! face_no)
                     (f_jacobi_matrices t) (update_jacobians \<in> f_update_flags st)
                     (f_ansatz_points t) (update_ansatz_points \<in> f_update_flags st)
                     (f_quadrature_points t) (update_q_points \<in> f_update_flags st)
                     (face_jacobi_determinants t) (update_JxW_values \<in> f_update_flags st)
                     (normal_vectors t) (update_normal_vectors \<in> f_update_flags st)
                     boundary =
        (f_jacobi_matrices u, f_ansatz_points u, f_quadrature_points u,
          face_jacobi_determinants u, normal_vectors u)"
      by (simp add: F(1-8))
    note A = face_mapper_fillsD [OF m os ou] and B = face_mapper_fillsD [OF m ou os]
    have "f_jacobi_matrices u = f_jacobi_matrices s"
      using A(1) B(1) F(9) by (auto split: if_splits)
    moreover have "f_ansatz_points u = f_ansatz_points s"
      using A(2) B(2) F(10) by (auto split: if_splits)
    moreover have "f_quadrature_points u = f_quadrature_points s"
      using A(3) B(3) F(11) by (auto split: if_splits)
    moreover have "face_jacobi_determinants u = face_jacobi_determinants s"
      using A(4) B(4) F(12) by (auto split: if_splits)
    moreover have "normal_vectors u = normal_vectors s"
      using A(5) B(5) F(13) by (auto split: if_splits)
    ultimately show ?thesis by blast
  next
    case False
    with FEFaceValues_reinit_mapper [OF rs] FEFaceValues_reinit_mapper [OF ru] F(9-13)
    show ?thesis by (simp add: F(8))
  qed
  from out show "f_jacobi_matrices u = f_jacobi_matrices s" by blast
  from out show "f_ansatz_points u = f_ansatz_points s" by blast
  from out show "f_quadrature_points u = f_quadrature_points s" by blast
  from out show "face_jacobi_determinants u = face_jacobi_determinants s" by blast
  from out show "normal_vectors u = normal_vectors s" by blast
  show "f_shape_gradients u = f_shape_gradients s"
  proof -
    have gs: "fills3 (f_shape_gradients s) (f_shape_gradients st)
           (\<lambda>a c e. update_gradients \<in> f_update_flags st \<and> a < fe_total_dofs fe \<and>
                      c < f_n_quadrature_points st \<and> e < dm)
           (chain_rule_sum dm (f_unit_shape_gradients st ! face_no) (f_jacobi_matrices s))"
      by (rule FEFaceValues_reinit_gradients [OF rs])
    have "fills3 (f_shape_gradients u) (f_shape_gradients t)
           (\<lambda>a c e. update_gradients \<in> f_update_flags st \<and> a < fe_total_dofs fe \<and>
                      c < f_n_quadrature_points st \<and> e < dm)
           (chain_rule_sum dm (f_unit_shape_gradients st ! face_no) (f_jacobi_matrices s))"
      using FEFaceValues_reinit_gradients [OF ru] out by (simp add: F(1-8))
    from fills3_from_same_outside [OF F(14) this] gs show ?thesis
      by (rule fills3_unique)
  qed
  show "f_JxW_values u = f_JxW_values s"
  proof (cases "update_JxW_values \<in> f_update_flags st")
    case True
    with F(15) have "same_outside1 (\<lambda>i. i < f_n_quadrature_points st)
       (f_JxW_values st) (f_JxW_values t)"
      by simp
    from list_fill_unique [OF this] True out show ?thesis
      by (simp add: FEFaceValues_reinit_JxW [OF rs] FEFaceValues_reinit_JxW [OF ru] F(1-8))
  next
    case False
    with F(15) have "f_JxW_values t = f_JxW_values st"
      by (auto simp: same_outside1_def intro: nth_equalityI)
    with False show ?thesis
      by (simp add: FEFaceValues_reinit_JxW [OF rs] FEFaceValues_reinit_JxW [OF ru] F(1-8))
  qed
qed

lemma FEFaceValues_reinit_sized:
  assumes r: "FEFaceValues_reinit dm cell face_no fe boundary st = Inr st'"
    and s: "FEFaceValues_sized dm st"
  shows "FEFaceValues_sized dm st'"
proof -
  note k = FEFaceValues_reinit_keeps [OF r]
  from FEFaceValues_reinit_gradients [OF r]
  have shape: "length (f_shape_gradients st') = length (f_shape_gradients st)"
    "\<And>a. length (f_shape_gradients st' ! a) = length (f_shape_gradients st ! a)"
    "\<And>a c. length (f_shape_gradients st' ! a ! c) = length (f_shape_gradients st ! a ! c)"
    by (simp_all add: fills3_def)
  have l: "length (f_JxW_values st') = length (f_JxW_values st)"
    by (simp add: FEFaceValues_reinit_JxW [OF r] list_fill_length)
  from s show ?thesis
    by (simp add: FEFaceValues_sized_def k shape l list_all_length)
qed

lemma FEFaceValues_reinit_in_bounds:
  assumes "face_no < length (global_unit_quadrature_points st)"
    and "face_no < length (f_unit_shape_gradients st)"
  shows "FEFaceValues_reinit dm cell face_no fe boundary st \<noteq> Inl ArrayOutOfBounds"
    and "(update_gradients \<in> f_update_flags st \<or> update_JxW_values \<in> f_update_flags st
            \<longrightarrow> update_jacobians \<in> f_update_flags st) \<Longrightarrow>
         \<exists>st'. FEFaceValues_reinit dm cell face_no fe boundary st = Inr st'"
  using assms
  by (auto simp: FEFaceValues_reinit_def FEFaceValues_fill_def array_at_def
      FEFaceValues_gradients_def face_transform_gradients_in_range FEFaceValues_weights_closed
      split: prod.splits sum.splits if_splits)

lemma FEFaceValues_reinit_no_request:
  assumes "f_update_flags st = {}"
  shows "FEFaceValues_reinit dm cell face_no fe boundary st = Inr (st\<lparr>selected_face := face_no\<rparr>)"
  using assms
  by (simp add: FEFaceValues_reinit_def FEFaceValues_fill_def FEFaceValues_gradients_def
      FEFaceValues_weights_closed)

lemma FEFaceValues_reinit_unsatisfiable:
  assumes "face_no < length (global_unit_quadrature_points st)"
    and "update_gradients \<in> f_update_flags st \<or> update_JxW_values \<in> f_update_flags st"
    and "update_jacobians \<notin> f_update_flags st"
  shows "FEFaceValues_reinit dm cell face_no fe boundary st = Inl ExcCannotInitializeField"
  using assms
  by (auto simp: FEFaceValues_reinit_def FEFaceValues_fill_def array_at_def
      FEFaceValues_gradients_def FEFaceValues_weights_closed
      split: prod.splits sum.splits if_splits)

lemma FEValues_reinit_unsatisfiable:
  assumes "update_gradients \<in> update_flags st \<or> update_JxW_values \<in> update_flags st"
    and "update_jacobians \<notin> update_flags st"
  shows "FEValues_reinit dm determinant cell fe boundary st = Inl ExcCannotInitializeField"
  using assms
  by (auto simp: FEValues_reinit_def FEValues_gradients_def FEValues_weights_closed
      FEValues_fill_keeps)

lemma FEValues_reinit_gradients:
  assumes "FEValues_reinit dm determinant cell fe boundary st = Inr st'"
  shows "fills3 (shape_gradients st') (shape_gradients st)
           (\<lambda>a c e. update_gradients \<in> update_flags st \<and> a < fe_total_dofs fe \<and>
                      c < n_quadrature_points st \<and> e < dm)
           (chain_rule_sum dm (unit_shape_gradients st) (jacobi_matrices st'))"
proof -
  from assms obtain st2 where
    g: "FEValues_gradients dm fe (FEValues_fill cell fe boundary st) = Inr st2" and
    w: "FEValues_weights determinant st2 = Inr st'"
    by (rule FEValues_reinit_steps)
  have "fills3 (shape_gradients st2) (shape_gradients st)
      (\<lambda>a c e. update_gradients \<in> update_flags st \<and> a < fe_total_dofs fe \<and>
                 c < n_quadrature_points st \<and> e < dm)
      (chain_rule_sum dm (unit_shape_gradients st)
         (jacobi_matrices (FEValues_fill cell fe boundary st)))"
    using g transform_gradients_fills [of dm "fe_total_dofs fe" "n_quadrature_points st"
        "unit_shape_gradients st" "jacobi_matrices (FEValues_fill cell fe boundary st)"
        "shape_gradients st"]
    by (auto simp: FEValues_gradients_def FEValues_fill_keeps fills3_start split: if_splits)
  then show ?thesis
    by (simp add: FEValues_weights_keeps [OF w] FEValues_gradients_keeps [OF g])
qed

lemma sized_in_range3:
  assumes "length g = nd"
    and "list_all (\<lambda>row. length row = nq \<and> list_all (\<lambda>p. length p = dm) row) g"
    and "i < nd" and "j < nq" and "s < dm"
  shows "in_range3 g i j s"
  using assms by (simp add: in_range3_def list_all_length)

lemma face_steps_selected:
  "selected_face (FEFaceValues_resize dm fe quadrature st0) = selected_face st0"
  "selected_face (FEFaceValues_copy_rule quadrature st0) = selected_face st0"
  "selected_face (FEFaceValues_tabulate dm fe st0) = selected_face st0"
  by (simp_all add: FEFaceValues_resize_def resize_fields FEFaceValues_copy_rule_def
      face_copy_rule_fields FEFaceValues_tabulate_fields)

lemma FEFaceValues_ctor_selected_face:
  assumes "FEFaceValues_ctor dm fe quadrature flags = Inr st"
  shows "selected_face st = 0"
proof (cases "dm = 2")
  case True
  with assms show ?thesis by (simp add: FEFaceValues_ctor_2_scalars)
next
  case False
  let ?r = "FEFaceValues_resize dm fe quadrature (FEFaceValues_init dm fe quadrature flags)"
  from assms False have "st = FEFaceValues_tabulate dm fe (FEFaceValues_copy_rule quadrature ?r)"
    by (auto simp: FEFaceValues_ctor_def FEFaceValues_embed_other split: if_splits)
  then have "selected_face st = selected_face (FEFaceValues_init dm fe quadrature flags)"
    by (simp only: face_steps_selected)
  then show ?thesis
    by (simp add: FEFaceValues_init_def)
qed

lemma FEFaceValues_ctor_not_implemented:
  assumes "dm \<noteq> 2" and "0 < dm" and "0 < q_n_quadrature_points quadrature"
  shows "FEFaceValues_ctor dm fe quadrature flags = Inl ExcNotImplemented"
  unfolding FEFaceValues_ctor_def FEFaceValues_resize_init
  using assms by (simp add: FEFaceValues_embed_other FEFaceValues_init_def)

section \<open>The concrete inputs\<close>

lemma demo_flags_simps:
  "update_jacobians \<in> demo_flags" "update_gradients \<in> demo_flags"
  "update_JxW_values \<in> demo_flags" "update_q_points \<in> demo_flags"
  "update_ansatz_points \<notin> demo_flags" "update_normal_vectors \<notin> demo_flags"
  by (simp_all add: demo_flags_def)

lemma midpoint_rule_simps:
  "q_n_quadrature_points (midpoint_rule d) = 1"
  "quad_point (midpoint_rule d) j = replicate d (1 / 2)"
  "weight (midpoint_rule d) j = 1"
  by (simp_all add: midpoint_rule_def)

lemma square_fe_simps:
  "fe_total_dofs square_fe = 4"
  "fill_fe_values square_fe c up J True ap fA qp fQ b =
     (map (\<lambda>p. \<lparr>mat_m = 2, mat_n = 2, mat_el = (\<lambda>i j. if i = j then c else 0)\<rparr>) up,
      if fA then [[0, 0], [1 / c, 0], [1 / c, 1 / c], [0, 1 / c]] else ap,
      if fQ then map (map (\<lambda>x. x / c)) up else qp)"
  by (simp_all add: square_fe_def)

lemma demo_cell_simps:
  "n_quadrature_points demo_cell = 1" "total_dofs demo_cell = 4"
  "update_flags demo_cell = demo_flags" "FEValues_sized 2 demo_cell"
  "weights demo_cell = [1]" "unit_quadrature_points demo_cell = [[1 / 2, 1 / 2]]"
  by (simp_all add: demo_cell_def FEValues_ctor_scalars FEValues_ctor_sized FEValues_ctor_rule
      midpoint_rule_simps square_fe_simps numeral_2_eq_2)

lemma demo_jacobians:
  assumes "update_flags st = demo_flags" and "unit_quadrature_points st = [p]"
  shows "jacobi_matrices (FEValues_fill c square_fe () st)
     = [\<lparr>mat_m = 2, mat_n = 2, mat_el = (\<lambda>i j. if i = j then c else 0)\<rparr>]"
  by (simp add: FEValues_fill_def assms demo_flags_simps square_fe_simps)

lemma demo_determinant:
  assumes "update_flags st = demo_flags" and "unit_quadrature_points st = [p]"
  shows "det2 (jacobi_matrices (FEValues_fill c square_fe () st) ! 0) = c * c"
  by (simp add: demo_jacobians [OF assms] det2_def)

lemma demo_reinit:
  assumes "update_flags st = demo_flags" and "unit_quadrature_points st = [p]"
    and "n_quadrature_points st = 1" and "c \<noteq> 0"
  shows "\<exists>st'. FEValues_reinit 2 det2 c square_fe () st = Inr st'"
  using FEValues_reinit_returns [of st det2 c square_fe "()" 2] assms(3,4)
  by (simp add: demo_determinant [OF assms(1,2)] assms(1) demo_flags_simps)

lemma demo_face_ctor:
  "FEFaceValues_ctor 2 square_fe (midpoint_rule 1) demo_flags = Inr demo_face"
  using FEFaceValues_ctor_2_returns [of square_fe "midpoint_rule 1" demo_flags]
  by (auto simp: demo_face_def)

lemma demo_face_simps:
  "f_n_quadrature_points demo_face = 1" "f_total_dofs demo_face = 4"
  "f_update_flags demo_face = demo_flags" "selected_face demo_face = 0"
  "f_weights demo_face = [1]" "f_unit_quadrature_points demo_face = [[1 / 2]]"
  "FEFaceValues_sized 2 demo_face"
  "length (global_unit_quadrature_points demo_face) = 4"
  "length (f_unit_shape_gradients demo_face) = 4"
  "length (f_ansatz_points demo_face) = 4"
  by (simp_all add: FEFaceValues_ctor_2_scalars [OF demo_face_ctor]
      FEFaceValues_ctor_2_sized [OF demo_face_ctor]
      midpoint_rule_simps square_fe_simps embedded_unit_points_nth)

lemma demo_face_points:
  "face < 4 \<Longrightarrow> global_unit_quadrature_points demo_face ! face = [face_point face 0]"
  by (intro nth_equalityI)
    (simp_all add: FEFaceValues_ctor_2_scalars [OF demo_face_ctor] midpoint_rule_simps
      embedded_unit_points_nth)

lemma square_fe_fills: "face_mapper_fills square_fe"
  by (simp add: face_mapper_fills_def square_fe_def)

lemma square_fe_face_simps:
  "fill_fe_face_values square_fe c face up gp J True ap False qp True fjd True nv False b =
     (map (\<lambda>p. \<lparr>mat_m = 2, mat_n = 2, mat_el = (\<lambda>i j. if i = j then c else 0)\<rparr>) gp,
      ap, map (map (\<lambda>x. x / c)) gp, map (\<lambda>p. 1 / c) up, nv)"
  by (simp add: square_fe_def)

lemma demo_face_reinit:
  assumes "f_update_flags st = demo_flags" and "f_unit_quadrature_points st = [p]"
    and "face_no < length (global_unit_quadrature_points st)"
    and "face_no < length (f_unit_shape_gradients st)"
    and "global_unit_quadrature_points st ! face_no = [g]"
  obtains st' where "FEFaceValues_reinit 2 c face_no square_fe () st = Inr st'"
    and "f_jacobi_matrices st' =
           [\<lparr>mat_m = 2, mat_n = 2, mat_el = (\<lambda>i j. if i = j then c else 0)\<rparr>]"
    and "face_jacobi_determinants st' = [1 / c]"
proof -
  from FEFaceValues_reinit_in_bounds(2) [OF assms(3,4), of 2 c square_fe "()"]
  obtain st' where r: "FEFaceValues_reinit 2 c face_no square_fe () st = Inr st'"
    by (auto simp: assms(1) demo_flags_simps)
  from FEFaceValues_reinit_mapper [OF r]
  have "f_jacobi_matrices st' =
           [\<lparr>mat_m = 2, mat_n = 2, mat_el = (\<lambda>i j. if i = j then c else 0)\<rparr>]"
    and "face_jacobi_determinants st' = [1 / c]"
    by (simp_all add: assms demo_flags_simps square_fe_face_simps)
  with r that show ?thesis by blast
qed

lemma sum_below_2: "(\<Sum>b<2. f b) = f 0 + (f (Suc 0) :: 'a::comm_monoid_add)"
  by (simp add: numeral_2_eq_2)

lemma demo_cell_unit_gradient:
  "unit_shape_gradients demo_cell ! Suc 0 ! 0 = [1 / 2, - (1 / 2)]"
  using FEValues_ctor_unit_gradients [of 1 square_fe 0 "midpoint_rule 2" 2 demo_flags]
  by (simp add: demo_cell_def square_fe_simps midpoint_rule_simps)
    (simp add: square_fe_def numeral_2_eq_2)

lemma demo_face_unit_gradient:
  "f_unit_shape_gradients demo_face ! Suc 0 ! Suc 0 ! 0 = [1, - 1]"
  using FEFaceValues_ctor_2_tables(6) [OF demo_face_ctor, of 1 1 0]
  by (simp add: square_fe_simps midpoint_rule_simps)
    (simp add: square_fe_def face_point_def)

lemma bare_face_ctor: "FEFaceValues_ctor 2 square_fe (midpoint_rule 1) {} = Inr bare_face"
  using FEFaceValues_ctor_2_returns [of square_fe "midpoint_rule 1" "{}"]
  by (auto simp: bare_face_def)

section \<open>The claims\<close>

text \<open>
  C1. With the gradients requested, a \<^verbatim>\<open>reinit\<close> of the cell evaluator that returns leaves,
  for every basis index \<open>i < total_dofs\<close>, quadrature index \<open>j < n_quadrature_points\<close> and
  component \<open>s < dim\<close>,
  \<open>shape_gradients[i][j](s) = \<Sum>b<dim. unit_shape_gradients[i][j](b) * jacobi_matrices[j](b,s)\<close>;
  a \<^verbatim>\<open>reinit\<close> of the face evaluator leaves the same sum, with the unit gradients read
  from the table of the face \<open>face_no\<close> that was passed to it. The finite element given to
  \<^verbatim>\<open>reinit\<close> has the number of shape functions of the construction.
\<close>

theorem physical_gradient_is_chain_rule_sum:
  fixes st :: "'a::{comm_monoid_add,times,inverse} FEValues"
    and fs :: "'a FEFaceValues"
  shows
    "(FEValues_sized dm st \<and> fe_total_dofs fe = total_dofs st \<and>
      update_gradients \<in> update_flags st \<and>
      FEValues_reinit dm determinant cell fe boundary st = Inr st' \<and>
      i < total_dofs st \<and> j < n_quadrature_points st \<and> s < dm \<longrightarrow>
        shape_gradients st' ! i ! j ! s =
          (\<Sum>b<dm. unit_shape_gradients st' ! i ! j ! b * mat_el (jacobi_matrices st' ! j) b s)) \<and>
     (FEFaceValues_sized dm fs \<and> fe_total_dofs fe = f_total_dofs fs \<and>
      update_gradients \<in> f_update_flags fs \<and>
      FEFaceValues_reinit dm cell face_no fe boundary fs = Inr fs' \<and>
      i < f_total_dofs fs \<and> j < f_n_quadrature_points fs \<and> s < dm \<longrightarrow>
        f_shape_gradients fs' ! i ! j ! s =
          (\<Sum>b<dm. f_unit_shape_gradients fs' ! face_no ! i ! j ! b *
                    mat_el (f_jacobi_matrices fs' ! j) b s))"
proof (intro conjI impI)
  assume a: "FEValues_sized dm st \<and> fe_total_dofs fe = total_dofs st \<and>
      update_gradients \<in> update_flags st \<and>
      FEValues_reinit dm determinant cell fe boundary st = Inr st' \<and>
      i < total_dofs st \<and> j < n_quadrature_points st \<and> s < dm"
  then have r: "FEValues_reinit dm determinant cell fe boundary st = Inr st'" by blast
  from a have "in_range3 (shape_gradients st) i j s"
    by (intro sized_in_range3 [where nd = "total_dofs st" and nq = "n_quadrature_points st"
          and dm = dm]) (simp_all add: FEValues_sized_def)
  with FEValues_reinit_gradients [OF r] a
  have "shape_gradients st' ! i ! j ! s =
      chain_rule_sum dm (unit_shape_gradients st) (jacobi_matrices st') i j s"
    by (simp add: fills3_def)
  then show "shape_gradients st' ! i ! j ! s =
      (\<Sum>b<dm. unit_shape_gradients st' ! i ! j ! b * mat_el (jacobi_matrices st' ! j) b s)"
    by (simp add: chain_rule_sum_eq_sum FEValues_reinit_keeps [OF r])
next
  assume a: "FEFaceValues_sized dm fs \<and> fe_total_dofs fe = f_total_dofs fs \<and>
      update_gradients \<in> f_update_flags fs \<and>
      FEFaceValues_reinit dm cell face_no fe boundary fs = Inr fs' \<and>
      i < f_total_dofs fs \<and> j < f_n_quadrature_points fs \<and> s < dm"
  then have r: "FEFaceValues_reinit dm cell face_no fe boundary fs = Inr fs'" by blast
  from a have "in_range3 (f_shape_gradients fs) i j s"
    by (intro sized_in_range3 [where nd = "f_total_dofs fs" and nq = "f_n_quadrature_points fs"
          and dm = dm]) (simp_all add: FEFaceValues_sized_def)
  with FEFaceValues_reinit_gradients [OF r] a
  have "f_shape_gradients fs' ! i ! j ! s =
      chain_rule_sum dm (f_unit_shape_gradients fs ! face_no) (f_jacobi_matrices fs') i j s"
    by (simp add: fills3_def)
  then show "f_shape_gradients fs' ! i ! j ! s =
      (\<Sum>b<dm. f_unit_shape_gradients fs' ! face_no ! i ! j ! b *
                mat_el (f_jacobi_matrices fs' ! j) b s)"
    by (simp add: chain_rule_sum_eq_sum FEFaceValues_reinit_keeps [OF r])
qed

theorem physical_gradient_is_chain_rule_sum_witness:
  "FEValues_sized 2 demo_cell \<and> fe_total_dofs square_fe = total_dofs demo_cell \<and>
   update_gradients \<in> update_flags demo_cell \<and>
   (\<exists>st'. FEValues_reinit 2 det2 (1 / 2) square_fe () demo_cell = Inr st' \<and>
      shape_gradients st' ! 1 ! 0 ! 0 = 1 / 4) \<and>
   FEFaceValues_sized 2 demo_face \<and> fe_total_dofs square_fe = f_total_dofs demo_face \<and>
   update_gradients \<in> f_update_flags demo_face \<and>
   (\<exists>fs'. FEFaceValues_reinit 2 (1 / 2) 1 square_fe () demo_face = Inr fs' \<and>
      f_shape_gradients fs' ! 1 ! 0 ! 0 = 1 / 2)"
proof -
  obtain st' where r: "FEValues_reinit 2 det2 (1 / 2) square_fe () demo_cell = Inr st'"
    using demo_reinit [OF demo_cell_simps(3,6,1), of "1 / 2"] by auto
  have J: "jacobi_matrices st' =
      [\<lparr>mat_m = 2, mat_n = 2, mat_el = (\<lambda>i j. if i = j then 1 / 2 else 0)\<rparr>]"
    by (simp add: FEValues_reinit_keeps(8) [OF r] demo_jacobians [OF demo_cell_simps(3,6)])
  obtain fs' where fr: "FEFaceValues_reinit 2 (1 / 2) 1 square_fe () demo_face = Inr fs'"
    and fJ: "f_jacobi_matrices fs' =
      [\<lparr>mat_m = 2, mat_n = 2, mat_el = (\<lambda>i j. if i = j then 1 / 2 else 0)\<rparr>]"
    by (rule demo_face_reinit [of demo_face "[1 / 2]" 1 "face_point 1 0" "1 / 2"])
      (simp_all add: demo_face_simps demo_face_points)
  note t = physical_gradient_is_chain_rule_sum [where dm = 2 and st = demo_cell
      and fe = square_fe and determinant = det2 and cell = "1 / 2" and boundary = "()"
      and st' = st' and i = 1 and j = 0 and s = 0 and fs = demo_face and face_no = 1
      and fs' = fs']
  have c: "shape_gradients st' ! 1 ! 0 ! 0 = 1 / 4"
    using t r
    by (simp add: demo_cell_simps demo_flags_simps square_fe_simps sum_below_2 J
        FEValues_reinit_keeps(4) [OF r] demo_cell_unit_gradient)
  have f: "f_shape_gradients fs' ! 1 ! 0 ! 0 = 1 / 2"
    using t fr
    by (simp add: demo_face_simps demo_flags_simps square_fe_simps sum_below_2 fJ
        FEFaceValues_reinit_keeps(4) [OF fr] demo_face_unit_gradient)
  from r c fr f show ?thesis
    by (auto simp: demo_cell_simps demo_face_simps demo_flags_simps square_fe_simps)
qed

text \<open>
  C2. Cell evaluator, \<^verbatim>\<open>JxW\<close> requested: after a \<^verbatim>\<open>reinit\<close> that returns, for every
  quadrature index \<open>j < n_quadrature_points\<close>,
  \<open>JxW_values[j] = weights[j] / det (jacobi_matrices[j])\<close>, a division by the determinant
  of the Jacobian at that point; the accessor \<^verbatim>\<open>JxW(j)\<close> returns that quotient, and when
  the determinant is \<open>1/4\<close> at every point it returns \<open>weights[j] * 4\<close>.
\<close>

theorem cell_JxW_is_weight_over_determinant:
  fixes st :: "'a::field FEValues"
  assumes "FEValues_sized dm st"
    and "update_JxW_values \<in> update_flags st"
    and "FEValues_reinit dm determinant cell fe boundary st = Inr st'"
    and "j < n_quadrature_points st"
  shows "JxW_values st' ! j = weights st' ! j / determinant (jacobi_matrices st' ! j) \<and>
         weights st' = weights st \<and>
         FEValues_JxW st' j = Inr (weights st ! j / determinant (jacobi_matrices st' ! j)) \<and>
         ((\<forall>k<n_quadrature_points st. determinant (jacobi_matrices st' ! k) = 1 / 4) \<longrightarrow>
            FEValues_JxW st' j = Inr (weights st ! j * 4))"
proof -
  note keeps = FEValues_reinit_keeps [OF assms(3)]
  from assms(1) have len: "length (JxW_values st) = n_quadrature_points st"
    by (simp add: FEValues_sized_def)
  note jxw = FEValues_reinit_JxW(1) [OF assms(3) assms(2) len assms(4)]
  have acc: "FEValues_JxW st' j = Inr (JxW_values st' ! j)"
    using assms(2,4) by (simp add: FEValues_JxW_def keeps)
  have quarter: "weights st ! j / determinant (jacobi_matrices st' ! j) = weights st ! j * 4"
    if "\<forall>k<n_quadrature_points st. determinant (jacobi_matrices st' ! k) = 1 / 4"
  proof -
    from that assms(4) have d: "determinant (jacobi_matrices st' ! j) = 1 / 4" by simp
    have "weights st ! j / (1 / 4) = weights st ! j * (4::'a)" by simp
    then show ?thesis unfolding d .
  qed
  show ?thesis
    by (intro conjI impI) (simp_all add: jxw keeps(5) acc quarter)
qed

theorem cell_JxW_is_weight_over_determinant_witness:
  "FEValues_sized 2 demo_cell \<and> update_JxW_values \<in> update_flags demo_cell \<and>
   0 < n_quadrature_points demo_cell \<and>
   (\<exists>st'. FEValues_reinit 2 det2 (1 / 2) square_fe () demo_cell = Inr st' \<and>
      det2 (jacobi_matrices st' ! 0) = 1 / 4 \<and>
      JxW_values st' ! 0 = 4 \<and> FEValues_JxW st' 0 = Inr 4)"
proof -
  obtain st' where r: "FEValues_reinit 2 det2 (1 / 2) square_fe () demo_cell = Inr st'"
    using demo_reinit [OF demo_cell_simps(3,6,1), of "1 / 2"] by auto
  have s: "FEValues_sized 2 demo_cell" and f: "update_JxW_values \<in> update_flags demo_cell"
    and j: "0 < n_quadrature_points demo_cell"
    by (simp_all add: demo_cell_simps demo_flags_simps)
  have d: "det2 (jacobi_matrices st' ! 0) = 1 / 4"
    by (simp add: FEValues_reinit_keeps(8) [OF r] demo_determinant [OF demo_cell_simps(3,6)])
  from cell_JxW_is_weight_over_determinant [OF s f r j] d
  have "JxW_values st' ! 0 = 4 \<and> FEValues_JxW st' 0 = Inr 4"
    by (simp add: demo_cell_simps)
  with r s f j d show ?thesis by blast
qed

text \<open>
  C3. Face evaluator, \<^verbatim>\<open>JxW\<close> requested: after a \<^verbatim>\<open>reinit\<close> that returns, for every
  quadrature index \<open>j < n_quadrature_points\<close>,
  \<open>JxW_values[j] = weights[j] * face_jacobi_determinants[j]\<close>, a product, where
  \<open>face_jacobi_determinants\<close> is the vector that the Geometry Mapper has returned for
  this face.
\<close>

theorem face_JxW_is_weight_times_face_determinant:
  assumes "FEFaceValues_sized dm st"
    and "update_JxW_values \<in> f_update_flags st"
    and "FEFaceValues_reinit dm cell face_no fe boundary st = Inr st'"
    and "j < f_n_quadrature_points st"
  shows "f_JxW_values st' ! j = f_weights st' ! j * face_jacobi_determinants st' ! j \<and>
         f_weights st' = f_weights st \<and>
         FEFaceValues_JxW st' j = Inr (f_weights st ! j * face_jacobi_determinants st' ! j) \<and>
         face_jacobi_determinants st' =
           fst (snd (snd (snd
             (fill_fe_face_values fe cell face_no (f_unit_quadrature_points st)
                (global_unit_quadrature_points st ! face_no)
                (f_jacobi_matrices st) (update_jacobians \<in> f_update_flags st)
                (f_ansatz_points st) (update_ansatz_points \<in> f_update_flags st)
                (f_quadrature_points st) (update_q_points \<in> f_update_flags st)
                (face_jacobi_determinants st) True
                (normal_vectors st) (update_normal_vectors \<in> f_update_flags st)
                boundary))))"
proof -
  note k = FEFaceValues_reinit_keeps [OF assms(3)]
  from assms(1) have len: "length (f_JxW_values st) = f_n_quadrature_points st"
    by (simp add: FEFaceValues_sized_def)
  have v: "f_JxW_values st' ! j = f_weights st ! j * face_jacobi_determinants st' ! j"
    using assms(2,4) by (simp add: FEFaceValues_reinit_JxW [OF assms(3)] list_fill_nth len)
  have acc: "FEFaceValues_JxW st' j = Inr (f_JxW_values st' ! j)"
    using assms(2,4) by (simp add: FEFaceValues_JxW_def k)
  have m: "face_jacobi_determinants st' =
           fst (snd (snd (snd
             (fill_fe_face_values fe cell face_no (f_unit_quadrature_points st)
                (global_unit_quadrature_points st ! face_no)
                (f_jacobi_matrices st) (update_jacobians \<in> f_update_flags st)
                (f_ansatz_points st) (update_ansatz_points \<in> f_update_flags st)
                (f_quadrature_points st) (update_q_points \<in> f_update_flags st)
                (face_jacobi_determinants st) True
                (normal_vectors st) (update_normal_vectors \<in> f_update_flags st)
                boundary))))"
    using FEFaceValues_reinit_mapper [OF assms(3)] assms(2)
    by (auto simp: prod_eq_iff)
  from v acc m show ?thesis by (simp add: k)
qed

theorem face_JxW_is_weight_times_face_determinant_witness:
  "FEFaceValues_sized 2 demo_face \<and> update_JxW_values \<in> f_update_flags demo_face \<and>
   0 < f_n_quadrature_points demo_face \<and>
   (\<exists>st'. FEFaceValues_reinit 2 (1 / 2) 1 square_fe () demo_face = Inr st' \<and>
      face_jacobi_determinants st' ! 0 = 2 \<and> f_JxW_values st' ! 0 = 2 \<and>
      FEFaceValues_JxW st' 0 = Inr 2)"
proof -
  obtain st' where r: "FEFaceValues_reinit 2 (1 / 2) 1 square_fe () demo_face = Inr st'"
    and d: "face_jacobi_determinants st' = [1 / (1 / 2)]"
    by (rule demo_face_reinit [of demo_face "[1 / 2]" 1 "face_point 1 0" "1 / 2"])
      (simp_all add: demo_face_simps demo_face_points)
  have s: "FEFaceValues_sized 2 demo_face" and f: "update_JxW_values \<in> f_update_flags demo_face"
    and j: "0 < f_n_quadrature_points demo_face"
    by (simp_all add: demo_face_simps demo_flags_simps)
  note t = face_JxW_is_weight_times_face_determinant [OF s f r j]
  from t have "f_JxW_values st' ! 0 = f_weights st' ! 0 * face_jacobi_determinants st' ! 0"
    and "f_weights st' = f_weights demo_face"
    and "FEFaceValues_JxW st' 0 = Inr (f_weights demo_face ! 0 * face_jacobi_determinants st' ! 0)"
    by blast+
  then have "face_jacobi_determinants st' ! 0 = 2 \<and> f_JxW_values st' ! 0 = 2 \<and>
      FEFaceValues_JxW st' 0 = Inr 2"
    by (simp add: demo_face_simps d)
  with r s f j show ?thesis by blast
qed

text \<open>
  C4. For \<open>i < total_dofs\<close> and \<open>j < n_quadrature_points\<close>, right after the construction of
  a cell evaluator \<^verbatim>\<open>shape_value(i,j)\<close> returns the value function of the finite element at
  the \<open>j\<close>-th point of the quadrature rule; after any sequence of \<^verbatim>\<open>reinit\<close> calls that
  return, the table of shape values is the one of the construction and the accessor
  returns the same value.
\<close>

theorem shape_value_fixed_by_construction:
  assumes "i < fe_total_dofs fe" and "j < q_n_quadrature_points quadrature"
  shows "FEValues_shape_value (FEValues_ctor dm fe quadrature flags) i j =
           Inr (fe_shape_value fe i (quad_point quadrature j)) \<and>
         (\<forall>calls st'.
            FEValues_reinits dm determinant calls (FEValues_ctor dm fe quadrature flags) = Inr st' \<longrightarrow>
              shape_values st' = shape_values (FEValues_ctor dm fe quadrature flags) \<and>
              FEValues_shape_value st' i j = Inr (fe_shape_value fe i (quad_point quadrature j)))"
proof -
  let ?st0 = "FEValues_ctor dm fe quadrature flags"
  have first: "FEValues_shape_value ?st0 i j = Inr (fe_shape_value fe i (quad_point quadrature j))"
    using assms by (simp add: FEValues_shape_value_def FEValues_ctor_shape_values)
  have keep: "FEValues_reinits dm determinant calls st = Inr st' \<Longrightarrow> shape_values st' = shape_values st"
    for calls st and st' :: "'a FEValues"
  proof (induction calls arbitrary: st)
    case Nil
    then show ?case by simp
  next
    case (Cons call calls)
    obtain cell fe' boundary where call: "call = (cell, fe', boundary)"
      by (cases call) 
    from Cons.prems obtain st1 where
      r: "FEValues_reinit dm determinant cell fe' boundary st = Inr st1" and
      rs: "FEValues_reinits dm determinant calls st1 = Inr st'"
      by (auto simp: call split: sum.splits)
    from Cons.IH [OF rs] FEValues_reinit_keeps(3) [OF r] show ?case by simp
  qed
  have "FEValues_shape_value st' i j = FEValues_shape_value ?st0 i j"
    if "shape_values st' = shape_values ?st0" for st' :: "'a FEValues"
    using that by (simp add: FEValues_shape_value_def)
  with first keep show ?thesis by metis
qed

theorem shape_value_fixed_by_construction_witness:
  "(0::nat) < fe_total_dofs square_fe \<and> (0::nat) < q_n_quadrature_points (midpoint_rule 2) \<and>
   FEValues_shape_value (FEValues_ctor 2 square_fe (midpoint_rule 2) demo_flags) 0 0 = Inr (1 / 4) \<and>
   (\<exists>st'. FEValues_reinits 2 det2 [(1 / 2, square_fe, ()), (1, square_fe, ())]
            (FEValues_ctor 2 square_fe (midpoint_rule 2) demo_flags) = Inr st' \<and>
          FEValues_shape_value st' 0 0 = Inr (1 / 4))"
proof -
  have i: "(0::nat) < fe_total_dofs square_fe"
    and j: "(0::nat) < q_n_quadrature_points (midpoint_rule 2)"
    by (simp_all add: square_fe_simps midpoint_rule_simps)
  have v: "fe_shape_value square_fe 0 (quad_point (midpoint_rule 2) 0) = 1 / 4"
    by (simp add: square_fe_def midpoint_rule_simps numeral_2_eq_2)
  obtain st1 where r1: "FEValues_reinit 2 det2 (1 / 2) square_fe () demo_cell = Inr st1"
    using demo_reinit [OF demo_cell_simps(3,6,1), of "1 / 2"] by auto
  note k1 = FEValues_reinit_keeps [OF r1]
  obtain st2 where r2: "FEValues_reinit 2 det2 1 square_fe () st1 = Inr st2"
    using demo_reinit [of st1 "[1 / 2, 1 / 2]" 1] by (auto simp: k1 demo_cell_simps)
  have rs: "FEValues_reinits 2 det2 [(1 / 2, square_fe, ()), (1, square_fe, ())]
            (FEValues_ctor 2 square_fe (midpoint_rule 2) demo_flags) = Inr st2"
    using r1 r2 by (simp add: demo_cell_def)
  note t = shape_value_fixed_by_construction [OF i j, of 2 demo_flags det2, unfolded v]
  from t have a: "FEValues_shape_value (FEValues_ctor 2 square_fe (midpoint_rule 2) demo_flags) 0 0
      = Inr (1 / 4)"
    by blast
  from t rs have b: "FEValues_shape_value st2 0 0 = Inr (1 / 4)"
    by blast
  from i j a rs b show ?thesis by blast
qed

text \<open>
  C5, as stated, fails: with the gradients requested and the Jacobians not, the
  construction of a face evaluator returns an evaluator, and the error of a cell
  evaluator built with these flags appears at its first \<^verbatim>\<open>reinit\<close>.
\<close>

theorem construction_accepts_unsatisfiable_flags:
  "\<not> isl (FEFaceValues_ctor 2 square_fe (midpoint_rule 1) {update_gradients}) \<and>
   FEValues_reinit 2 det2 1 square_fe ()
     (FEValues_ctor 2 square_fe (midpoint_rule 2) {update_gradients})
       = Inl ExcCannotInitializeField"
proof
  show "\<not> isl (FEFaceValues_ctor 2 square_fe (midpoint_rule 1) {update_gradients})"
    using FEFaceValues_ctor_2_returns [of square_fe "midpoint_rule 1" "{update_gradients}"]
    by auto
  show "FEValues_reinit 2 det2 1 square_fe ()
     (FEValues_ctor 2 square_fe (midpoint_rule 2) {update_gradients})
       = Inl ExcCannotInitializeField"
    by (rule FEValues_reinit_unsatisfiable) (simp_all add: FEValues_ctor_scalars)
qed

text \<open>
  C5, amended. The constructors do not examine the flags: with gradients or \<^verbatim>\<open>JxW\<close>
  requested and the Jacobians not, the construction returns an evaluator that holds these
  flags. The unsatisfiable configuration is detected by \<^verbatim>\<open>reinit\<close>: the first
  \<^verbatim>\<open>reinit\<close> of the cell evaluator, and of the face evaluator for each of its four faces,
  fails with \<open>ExcCannotInitializeField\<close>.
\<close>

theorem missing_jacobians_detected_by_reinit:
  assumes "update_gradients \<in> flags \<or> update_JxW_values \<in> flags"
    and "update_jacobians \<notin> flags"
  shows "update_flags (FEValues_ctor dm fe quadrature flags) = flags \<and>
         FEValues_reinit dm determinant cell fe' boundary (FEValues_ctor dm fe quadrature flags)
           = Inl ExcCannotInitializeField \<and>
         (\<exists>st. FEFaceValues_ctor 2 fe face_quadrature flags = Inr st \<and> f_update_flags st = flags \<and>
            (\<forall>face_no<4. FEFaceValues_reinit 2 cell face_no fe' boundary st
                            = Inl ExcCannotInitializeField))"
proof (intro conjI)
  show "update_flags (FEValues_ctor dm fe quadrature flags) = flags"
    by (simp add: FEValues_ctor_scalars)
  show "FEValues_reinit dm determinant cell fe' boundary (FEValues_ctor dm fe quadrature flags)
           = Inl ExcCannotInitializeField"
    using assms by (intro FEValues_reinit_unsatisfiable) (simp_all add: FEValues_ctor_scalars)
  obtain st where st: "FEFaceValues_ctor 2 fe face_quadrature flags = Inr st"
    using FEFaceValues_ctor_2_returns by blast
  note k = FEFaceValues_ctor_2_scalars [OF st]
  have "FEFaceValues_reinit 2 cell face_no fe' boundary st = Inl ExcCannotInitializeField"
    if "face_no < 4" for face_no
    using assms that
    by (intro FEFaceValues_reinit_unsatisfiable) (simp_all add: k embedded_unit_points_nth)
  with st k(3)
  show "\<exists>st. FEFaceValues_ctor 2 fe face_quadrature flags = Inr st \<and> f_update_flags st = flags \<and>
            (\<forall>face_no<4. FEFaceValues_reinit 2 cell face_no fe' boundary st
                            = Inl ExcCannotInitializeField)"
    by blast
qed

theorem missing_jacobians_detected_by_reinit_witness:
  "update_gradients \<in> {update_gradients} \<and> update_jacobians \<notin> {update_gradients} \<and>
   FEValues_reinit 2 det2 1 square_fe ()
     (FEValues_ctor 2 square_fe (midpoint_rule 2) {update_gradients})
       = Inl ExcCannotInitializeField \<and>
   (\<exists>st. FEFaceValues_ctor 2 square_fe (midpoint_rule 1) {update_gradients} = Inr st \<and>
      FEFaceValues_reinit 2 1 0 square_fe () st = Inl ExcCannotInitializeField)"
  using missing_jacobians_detected_by_reinit [of "{update_gradients}" 2 square_fe
      "midpoint_rule 2" det2 1 square_fe "()" "midpoint_rule 1"]
  by auto

text \<open>
  C6, as stated, fails for \<^verbatim>\<open>shape_value\<close>: on an evaluator built with no tag at all
  the accessor returns the value of the shape function.
\<close>

theorem shape_value_needs_no_tag:
  "FEValues_shape_value (FEValues_ctor 2 square_fe (midpoint_rule 2) {}) 0 0 = Inr (1 / 4)"
  by (simp add: FEValues_shape_value_def FEValues_ctor_shape_values square_fe_simps
      midpoint_rule_simps)
    (simp add: square_fe_def numeral_2_eq_2)

text \<open>
  C6, amended. On every call, \<^verbatim>\<open>shape_grad(i,j)\<close>, \<^verbatim>\<open>quadrature_point(j)\<close>,
  \<^verbatim>\<open>ansatz_point(i)\<close> and \<^verbatim>\<open>JxW(j)\<close> of both evaluators first compare their indices with
  \<open>total_dofs\<close> and \<open>n_quadrature_points\<close>, failing with \<open>ExcInvalidIndex\<close> of the index and
  its bound, then test that the tag of the field was requested, failing with
  \<open>ExcAccessToUninitializedField\<close>, and otherwise return the stored datum; the two errors
  differ. \<^verbatim>\<open>shape_value(i,j)\<close> validates its indices only: the shape values have no tag
  and are available from the construction on. The evaluators have the sizes of their
  construction, and the face evaluator has a selected face below \<open>2 * dim\<close>.
\<close>

theorem accessors_validate_index_and_tag:
  assumes "FEValues_sized dm st" and "length (ansatz_points st) = total_dofs st"
    and "FEFaceValues_sized dm fs" and "length (f_ansatz_points fs) = f_total_dofs fs"
    and "selected_face fs < 2 * dm"
  shows
    "FEValues_shape_value st i j =
       (if total_dofs st \<le> i then Inl (ExcInvalidIndex i (total_dofs st))
        else if n_quadrature_points st \<le> j then Inl (ExcInvalidIndex j (n_quadrature_points st))
        else Inr (mat_el (shape_values st) i j)) \<and>
     FEValues_shape_grad st i j =
       (if total_dofs st \<le> i then Inl (ExcInvalidIndex i (total_dofs st))
        else if n_quadrature_points st \<le> j then Inl (ExcInvalidIndex j (n_quadrature_points st))
        else if update_gradients \<notin> update_flags st then Inl ExcAccessToUninitializedField
        else Inr (shape_gradients st ! i ! j)) \<and>
     FEValues_quadrature_point st j =
       (if n_quadrature_points st \<le> j then Inl (ExcInvalidIndex j (n_quadrature_points st))
        else if update_q_points \<notin> update_flags st then Inl ExcAccessToUninitializedField
        else Inr (quadrature_points st ! j)) \<and>
     FEValues_ansatz_point st i =
       (if total_dofs st \<le> i then Inl (ExcInvalidIndex i (total_dofs st))
        else if update_ansatz_points \<notin> update_flags st then Inl ExcAccessToUninitializedField
        else Inr (ansatz_points st ! i)) \<and>
     FEValues_JxW st j =
       (if n_quadrature_points st \<le> j then Inl (ExcInvalidIndex j (n_quadrature_points st))
        else if update_JxW_values \<notin> update_flags st then Inl ExcAccessToUninitializedField
        else Inr (JxW_values st ! j)) \<and>
     FEFaceValues_shape_value fs i j =
       (if f_total_dofs fs \<le> i then Inl (ExcInvalidIndex i (f_total_dofs fs))
        else if f_n_quadrature_points fs \<le> j
        then Inl (ExcInvalidIndex j (f_n_quadrature_points fs))
        else Inr (mat_el (f_shape_values fs ! selected_face fs) i j)) \<and>
     FEFaceValues_shape_grad fs i j =
       (if f_total_dofs fs \<le> i then Inl (ExcInvalidIndex i (f_total_dofs fs))
        else if f_n_quadrature_points fs \<le> j
        then Inl (ExcInvalidIndex j (f_n_quadrature_points fs))
        else if update_gradients \<notin> f_update_flags fs then Inl ExcAccessToUninitializedField
        else Inr (f_shape_gradients fs ! i ! j)) \<and>
     FEFaceValues_quadrature_point fs j =
       (if f_n_quadrature_points fs \<le> j
        then Inl (ExcInvalidIndex j (f_n_quadrature_points fs))
        else if update_q_points \<notin> f_update_flags fs then Inl ExcAccessToUninitializedField
        else Inr (f_quadrature_points fs ! j)) \<and>
     FEFaceValues_ansatz_point fs i =
       (if f_total_dofs fs \<le> i then Inl (ExcInvalidIndex i (f_total_dofs fs))
        else if update_ansatz_points \<notin> f_update_flags fs then Inl ExcAccessToUninitializedField
        else Inr (f_ansatz_points fs ! i)) \<and>
     FEFaceValues_JxW fs j =
       (if f_n_quadrature_points fs \<le> j
        then Inl (ExcInvalidIndex j (f_n_quadrature_points fs))
        else if update_JxW_values \<notin> f_update_flags fs then Inl ExcAccessToUninitializedField
        else Inr (f_JxW_values fs ! j)) \<and>
     ExcInvalidIndex i j \<noteq> ExcAccessToUninitializedField"
proof -
  from assms(1) have c: "mat_m (shape_values st) = total_dofs st"
    "mat_n (shape_values st) = n_quadrature_points st"
    by (simp_all add: FEValues_sized_def)
  from assms(3,5) have f: "selected_face fs < length (f_shape_values fs)"
    "mat_m (f_shape_values fs ! selected_face fs) = f_total_dofs fs"
    "mat_n (f_shape_values fs ! selected_face fs) = f_n_quadrature_points fs"
    by (simp_all add: FEFaceValues_sized_def list_all_length)
  show ?thesis
    by (simp add: FEValues_shape_value_def FEValues_shape_grad_def FEValues_quadrature_point_def
        FEValues_ansatz_point_def FEValues_JxW_def FEFaceValues_shape_value_def
        FEFaceValues_shape_grad_def FEFaceValues_quadrature_point_def
        FEFaceValues_ansatz_point_def FEFaceValues_JxW_def array_at_def c f assms(2,4) not_less)
qed

theorem accessors_validate_index_and_tag_witness:
  "FEValues_sized 2 demo_cell \<and> length (ansatz_points demo_cell) = total_dofs demo_cell \<and>
   FEFaceValues_sized 2 demo_face \<and> length (f_ansatz_points demo_face) = f_total_dofs demo_face \<and>
   selected_face demo_face < 2 * 2 \<and>
   FEValues_shape_grad demo_cell 4 0 = Inl (ExcInvalidIndex 4 4) \<and>
   FEValues_JxW demo_cell 1 = Inl (ExcInvalidIndex 1 1) \<and>
   FEValues_ansatz_point demo_cell 0 = Inl ExcAccessToUninitializedField \<and>
   FEValues_quadrature_point demo_cell 0 = Inr (quadrature_points demo_cell ! 0) \<and>
   FEFaceValues_shape_value demo_face 0 1 = Inl (ExcInvalidIndex 1 1) \<and>
   FEFaceValues_ansatz_point demo_face 0 = Inl ExcAccessToUninitializedField \<and>
   FEFaceValues_JxW demo_face 0 = Inr (f_JxW_values demo_face ! 0)"
proof -
  have h: "FEValues_sized 2 demo_cell" "length (ansatz_points demo_cell) = total_dofs demo_cell"
    "FEFaceValues_sized 2 demo_face" "length (f_ansatz_points demo_face) = f_total_dofs demo_face"
    "selected_face demo_face < 2 * 2"
    by (simp_all add: demo_cell_simps demo_face_simps)
      (simp add: demo_cell_def FEValues_ctor_ansatz FEValues_ctor_scalars square_fe_simps)
  note a = accessors_validate_index_and_tag [OF h, of 4 0]
    and b = accessors_validate_index_and_tag [OF h, of 0 1]
    and c = accessors_validate_index_and_tag [OF h, of 0 0]
  from a have "FEValues_shape_grad demo_cell 4 0 = Inl (ExcInvalidIndex 4 4)"
    by (simp add: demo_cell_simps)
  moreover from b have "FEValues_JxW demo_cell 1 = Inl (ExcInvalidIndex 1 1)"
    "FEFaceValues_shape_value demo_face 0 1 = Inl (ExcInvalidIndex 1 1)"
    by (simp_all add: demo_cell_simps demo_face_simps)
  moreover from c have "FEValues_ansatz_point demo_cell 0 = Inl ExcAccessToUninitializedField"
    "FEValues_quadrature_point demo_cell 0 = Inr (quadrature_points demo_cell ! 0)"
    "FEFaceValues_ansatz_point demo_face 0 = Inl ExcAccessToUninitializedField"
    "FEFaceValues_JxW demo_face 0 = Inr (f_JxW_values demo_face ! 0)"
    by (simp_all add: demo_cell_simps demo_face_simps demo_flags_simps)
  ultimately show ?thesis using h by simp
qed

text \<open>
  C7. The constructor of the face evaluator embeds the points of the face quadrature
  rule before it has copied them: the loop over the faces reads
  \<^verbatim>\<open>unit_quadrature_points[p](0)\<close> while that vector still holds the default points, and the
  copy from the quadrature rule comes after it. For the one-point rule at \<open>1/2\<close> the four
  faces get the points \<open>(0,0)\<close>, \<open>(1,0)\<close>, \<open>(0,1)\<close>, \<open>(0,0)\<close> where the embedding of the
  quadrature point gives \<open>(1/2,0)\<close>, \<open>(1,1/2)\<close>, \<open>(1/2,1)\<close>, \<open>(0,1/2)\<close>, and the first shape
  function has on face 0 the value \<open>1\<close> where its value at \<open>(1/2,0)\<close> is \<open>1/2\<close>.
\<close>

theorem face_embedding_reads_unset_points:
  "FEFaceValues_ctor 2 square_fe (midpoint_rule 1) demo_flags = Inr demo_face \<and>
   quad_point (midpoint_rule 1) 0 = [1 / 2] \<and>
   f_unit_quadrature_points demo_face = [[1 / 2]] \<and>
   global_unit_quadrature_points demo_face = [[[0, 0]], [[1, 0]], [[0, 1]], [[0, 0]]] \<and>
   FEFaceValues_shape_value demo_face 0 0 = Inr 1 \<and>
   fe_shape_value square_fe 0 [1 / 2, 0] = 1 / 2"
proof -
  have g: "global_unit_quadrature_points demo_face = [[[0, 0]], [[1, 0]], [[0, 1]], [[0, 0]]]"
  proof (rule nth_equalityI)
    show "length (global_unit_quadrature_points demo_face) = length [[[0, 0]], [[1, 0]], [[0, 1]], [[0::real, 0]]]"
      by (simp add: demo_face_simps)
    fix face assume "face < length (global_unit_quadrature_points demo_face)"
    then have "face < 4" by (simp add: demo_face_simps)
    then have "face = 0 \<or> face = 1 \<or> face = 2 \<or> face = 3" by arith
    then show "global_unit_quadrature_points demo_face ! face = [[[0, 0]], [[1, 0]], [[0, 1]], [[0, 0]]] ! face"
      by (auto simp: demo_face_points face_point_def)
  qed
  have v: "FEFaceValues_shape_value demo_face 0 0 = Inr 1"
    by (simp add: FEFaceValues_shape_value_def array_at_def demo_face_simps
        FEFaceValues_ctor_2_scalars [OF demo_face_ctor] FEFaceValues_ctor_2_tables [OF demo_face_ctor]
        square_fe_simps midpoint_rule_simps)
      (simp add: square_fe_def face_point_def)
  have w: "fe_shape_value square_fe 0 [1 / 2, 0] = 1 / 2"
    by (simp add: square_fe_def)
  from g v w demo_face_ctor show ?thesis
    by (simp add: demo_face_simps midpoint_rule_simps)
qed

text \<open>
  C8. For a fixed cell, boundary and finite element whose Geometry Mapper fills the
  vectors it is asked to fill and leaves the others: after \<^verbatim>\<open>reinit\<close> for face \<open>f1\<close>, a
  \<^verbatim>\<open>reinit\<close> for face \<open>f2\<close> followed by a \<^verbatim>\<open>reinit\<close> for face \<open>f1\<close> gives back the very
  state of the first, and so does a second \<^verbatim>\<open>reinit\<close> for \<open>f1\<close> right after the first;
  every accessor is a function of the state, so it returns what it returned before.
  \<^verbatim>\<open>reinit\<close> sets the selected face to the face it is given; no accessor changes the state.
\<close>

theorem face_reselection_reproduces:
  assumes "face_mapper_fills fe"
    and "FEFaceValues_reinit dm cell f1 fe boundary st = Inr st1"
  shows "selected_face st1 = f1 \<and>
     (\<forall>st2 st3. FEFaceValues_reinit dm cell f2 fe boundary st1 = Inr st2 \<longrightarrow>
        FEFaceValues_reinit dm cell f1 fe boundary st2 = Inr st3 \<longrightarrow> st3 = st1) \<and>
     (\<forall>st1'. FEFaceValues_reinit dm cell f1 fe boundary st1 = Inr st1' \<longrightarrow> st1' = st1)"
proof (intro conjI allI impI)
  show "selected_face st1 = f1"
    by (rule FEFaceValues_reinit_keeps(9) [OF assms(2)])
  note f1 = FEFaceValues_reinit_frame [OF assms]
  show "st3 = st1"
    if "FEFaceValues_reinit dm cell f2 fe boundary st1 = Inr st2"
      and "FEFaceValues_reinit dm cell f1 fe boundary st2 = Inr st3" for st2 st3
  proof -
    from reinit_frame_trans [OF f1 FEFaceValues_reinit_frame [OF assms(1) that(1)]]
    have "reinit_frame dm (fe_total_dofs fe) st st2" .
    from FEFaceValues_reinit_determined [OF assms(1) this assms(2) that(2)]
    show ?thesis .
  qed
  show "st1' = st1" if "FEFaceValues_reinit dm cell f1 fe boundary st1 = Inr st1'" for st1'
    by (rule FEFaceValues_reinit_determined [OF assms(1) f1 assms(2) that])
qed

theorem face_reselection_reproduces_witness:
  "face_mapper_fills square_fe \<and>
   (\<exists>st1 st2 st3.
      FEFaceValues_reinit 2 (1 / 2) 1 square_fe () demo_face = Inr st1 \<and>
      FEFaceValues_reinit 2 (1 / 2) 2 square_fe () st1 = Inr st2 \<and>
      FEFaceValues_reinit 2 (1 / 2) 1 square_fe () st2 = Inr st3 \<and>
      selected_face st1 = 1 \<and> selected_face st2 = 2 \<and> st3 = st1)"
proof -
  obtain st1 where r1: "FEFaceValues_reinit 2 (1 / 2) 1 square_fe () demo_face = Inr st1"
    by (rule demo_face_reinit [of demo_face "[1 / 2]" 1 "face_point 1 0" "1 / 2"])
      (simp_all add: demo_face_simps demo_face_points)
  note k1 = FEFaceValues_reinit_keeps [OF r1]
  obtain st2 where r2: "FEFaceValues_reinit 2 (1 / 2) 2 square_fe () st1 = Inr st2"
    by (rule demo_face_reinit [of st1 "[1 / 2]" 2 "face_point 2 0" "1 / 2"])
      (simp_all add: k1 demo_face_simps demo_face_points)
  note k2 = FEFaceValues_reinit_keeps [OF r2]
  obtain st3 where r3: "FEFaceValues_reinit 2 (1 / 2) 1 square_fe () st2 = Inr st3"
    by (rule demo_face_reinit [of st2 "[1 / 2]" 1 "face_point 1 0" "1 / 2"])
      (simp_all add: k2 k1 demo_face_simps demo_face_points)
  from face_reselection_reproduces [OF square_fe_fills r1, of 2] r2 r3
  have "selected_face st1 = 1" and "st3 = st1" by blast+
  with r1 r2 r3 k2(9) square_fe_fills show ?thesis by blast
qed

text \<open>
  C9. The \<^verbatim>\<open>JxW\<close> loop of the cell evaluator divides each weight by the determinant of the
  Jacobian with no test of the divisor: when \<^verbatim>\<open>JxW\<close> and the Jacobians are requested and a
  determinant is zero at some quadrature point, \<^verbatim>\<open>reinit\<close> reaches the division by zero.
  When the determinant of the Jacobian that the Geometry Mapper has filled is nonzero at
  every quadrature point, the division by zero is not reached, and \<^verbatim>\<open>reinit\<close> returns
  whenever the flags request the Jacobians along with the gradients or \<^verbatim>\<open>JxW\<close>.
\<close>

theorem cell_JxW_division_defined:
  "((\<forall>j<n_quadrature_points st.
       determinant (jacobi_matrices (FEValues_fill cell fe boundary st) ! j) \<noteq> 0) \<longrightarrow>
      FEValues_reinit dm determinant cell fe boundary st \<noteq> Inl DivisionByZero \<and>
      ((update_gradients \<in> update_flags st \<or> update_JxW_values \<in> update_flags st
          \<longrightarrow> update_jacobians \<in> update_flags st) \<longrightarrow>
       (\<exists>st'. FEValues_reinit dm determinant cell fe boundary st = Inr st'))) \<and>
   (update_JxW_values \<in> update_flags st \<and> update_jacobians \<in> update_flags st \<and>
    (\<exists>j<n_quadrature_points st.
       determinant (jacobi_matrices (FEValues_fill cell fe boundary st) ! j) = 0) \<longrightarrow>
      FEValues_reinit dm determinant cell fe boundary st = Inl DivisionByZero)"
proof (intro conjI impI)
  assume nz: "\<forall>j<n_quadrature_points st.
       determinant (jacobi_matrices (FEValues_fill cell fe boundary st) ! j) \<noteq> 0"
  then show "FEValues_reinit dm determinant cell fe boundary st \<noteq> Inl DivisionByZero"
    by (simp add: FEValues_reinit_division)
  show "\<exists>st'. FEValues_reinit dm determinant cell fe boundary st = Inr st'"
    if "update_gradients \<in> update_flags st \<or> update_JxW_values \<in> update_flags st
          \<longrightarrow> update_jacobians \<in> update_flags st"
    using that nz by (intro FEValues_reinit_returns) simp_all
next
  assume "update_JxW_values \<in> update_flags st \<and> update_jacobians \<in> update_flags st \<and>
    (\<exists>j<n_quadrature_points st.
       determinant (jacobi_matrices (FEValues_fill cell fe boundary st) ! j) = 0)"
  then show "FEValues_reinit dm determinant cell fe boundary st = Inl DivisionByZero"
    by (simp add: FEValues_reinit_division)
qed

theorem cell_JxW_division_defined_witness:
  "FEValues_reinit 2 det2 (1 / 2) square_fe () demo_cell \<noteq> Inl DivisionByZero \<and>
   (\<exists>st'. FEValues_reinit 2 det2 (1 / 2) square_fe () demo_cell = Inr st') \<and>
   FEValues_reinit 2 det2 0 square_fe () demo_cell = Inl DivisionByZero"
  using cell_JxW_division_defined [of demo_cell det2 "1 / 2" square_fe "()" 2]
    cell_JxW_division_defined [of demo_cell det2 0 square_fe "()" 2]
  by (simp add: demo_determinant [OF demo_cell_simps(3) demo_cell_simps(6)]
      demo_cell_simps demo_flags_simps)

text \<open>
  C10. The selected face of a face evaluator is \<open>0\<close> right after the construction, so the
  value accessor reads the table of face \<open>0\<close> before any \<^verbatim>\<open>reinit\<close>. \<^verbatim>\<open>reinit\<close> stores the
  face number it is given without comparing it with \<open>2 * dim\<close>: with no field requested it
  returns for any face number. When the face number is below \<open>2 * dim\<close>, no access of
  \<^verbatim>\<open>reinit\<close> to a per-face array is out of bounds and the evaluator keeps its sizes and
  a selected face below \<open>2 * dim\<close>; with a selected face below \<open>2 * dim\<close> no access of
  \<^verbatim>\<open>shape_value\<close> or \<^verbatim>\<open>shape_grad\<close> to a per-face array is out of bounds.
\<close>

theorem selected_face_stays_in_bounds:
  "(FEFaceValues_ctor dm fe quadrature flags = Inr st0 \<longrightarrow> selected_face st0 = 0) \<and>
   (FEFaceValues_ctor 2 fe quadrature flags = Inr st0 \<longrightarrow>
      FEFaceValues_sized 2 st0 \<and> selected_face st0 < 2 * 2 \<and>
      (i < fe_total_dofs fe \<and> j < q_n_quadrature_points quadrature \<longrightarrow>
         FEFaceValues_shape_value st0 i j = Inr (mat_el (f_shape_values st0 ! 0) i j))) \<and>
   (FEFaceValues_reinit dm cell face_no fe' boundary st = Inr st' \<longrightarrow>
      selected_face st' = face_no) \<and>
   (f_update_flags st = {} \<longrightarrow>
      FEFaceValues_reinit dm cell face_no fe' boundary st = Inr (st\<lparr>selected_face := face_no\<rparr>)) \<and>
   (FEFaceValues_sized dm st \<and> face_no < 2 * dm \<longrightarrow>
      FEFaceValues_reinit dm cell face_no fe' boundary st \<noteq> Inl ArrayOutOfBounds \<and>
      (FEFaceValues_reinit dm cell face_no fe' boundary st = Inr st' \<longrightarrow>
         FEFaceValues_sized dm st' \<and> selected_face st' < 2 * dm)) \<and>
   (FEFaceValues_sized dm st \<and> selected_face st < 2 * dm \<longrightarrow>
      FEFaceValues_shape_value st i j \<noteq> Inl ArrayOutOfBounds \<and>
      FEFaceValues_shape_grad st i j \<noteq> Inl ArrayOutOfBounds)"
proof (intro conjI impI)
  show "selected_face st0 = 0" if "FEFaceValues_ctor dm fe quadrature flags = Inr st0"
    using that by (rule FEFaceValues_ctor_selected_face)
next
  assume c: "FEFaceValues_ctor 2 fe quadrature flags = Inr st0"
  show "FEFaceValues_sized 2 st0" by (rule FEFaceValues_ctor_2_sized [OF c])
  show "selected_face st0 < 2 * 2" by (simp add: FEFaceValues_ctor_2_scalars [OF c])
  show "FEFaceValues_shape_value st0 i j = Inr (mat_el (f_shape_values st0 ! 0) i j)"
    if "i < fe_total_dofs fe \<and> j < q_n_quadrature_points quadrature"
    using that
    by (simp add: FEFaceValues_shape_value_def array_at_def FEFaceValues_ctor_2_scalars [OF c]
        FEFaceValues_ctor_2_tables [OF c])
next
  show "selected_face st' = face_no"
    if "FEFaceValues_reinit dm cell face_no fe' boundary st = Inr st'"
    by (rule FEFaceValues_reinit_keeps(9) [OF that])
next
  show "FEFaceValues_reinit dm cell face_no fe' boundary st = Inr (st\<lparr>selected_face := face_no\<rparr>)"
    if "f_update_flags st = {}"
    by (rule FEFaceValues_reinit_no_request [OF that])
next
  assume a: "FEFaceValues_sized dm st \<and> face_no < 2 * dm"
  then show "FEFaceValues_reinit dm cell face_no fe' boundary st \<noteq> Inl ArrayOutOfBounds"
    by (intro FEFaceValues_reinit_in_bounds(1)) (simp_all add: FEFaceValues_sized_def)
  assume r: "FEFaceValues_reinit dm cell face_no fe' boundary st = Inr st'"
  from a show "FEFaceValues_sized dm st'"
    by (intro FEFaceValues_reinit_sized [OF r]) simp
  from a show "selected_face st' < 2 * dm"
    by (simp add: FEFaceValues_reinit_keeps(9) [OF r])
next
  assume a: "FEFaceValues_sized dm st \<and> selected_face st < 2 * dm"
  then show "FEFaceValues_shape_value st i j \<noteq> Inl ArrayOutOfBounds"
    by (simp add: FEFaceValues_shape_value_def array_at_def FEFaceValues_sized_def)
  from a show "FEFaceValues_shape_grad st i j \<noteq> Inl ArrayOutOfBounds"
    by (simp add: FEFaceValues_shape_grad_def array_at_def FEFaceValues_sized_def)
qed

theorem selected_face_stays_in_bounds_witness:
  "FEFaceValues_ctor 2 square_fe (midpoint_rule 1) demo_flags = Inr demo_face \<and>
   selected_face demo_face = 0 \<and> FEFaceValues_sized 2 demo_face \<and>
   FEFaceValues_shape_value demo_face 0 0 = Inr (mat_el (f_shape_values demo_face ! 0) 0 0) \<and>
   FEFaceValues_reinit 2 (1 / 2) 3 square_fe () demo_face \<noteq> Inl ArrayOutOfBounds \<and>
   (\<exists>st'. FEFaceValues_reinit 2 (1 / 2) 3 square_fe () demo_face = Inr st' \<and>
      selected_face st' = 3 \<and> FEFaceValues_sized 2 st' \<and>
      FEFaceValues_shape_value st' 0 0 \<noteq> Inl ArrayOutOfBounds \<and>
      FEFaceValues_shape_grad st' 0 0 \<noteq> Inl ArrayOutOfBounds) \<and>
   f_update_flags bare_face = {} \<and>
   FEFaceValues_reinit 2 (1 / 2) 7 square_fe () bare_face = Inr (bare_face\<lparr>selected_face := 7\<rparr>) \<and>
   FEFaceValues_shape_value (bare_face\<lparr>selected_face := 7\<rparr>) 0 0 = Inl ArrayOutOfBounds"
proof -
  obtain st' where r: "FEFaceValues_reinit 2 (1 / 2) 3 square_fe () demo_face = Inr st'"
    by (rule demo_face_reinit [of demo_face "[1 / 2]" 3 "face_point 3 0" "1 / 2"])
      (simp_all add: demo_face_simps demo_face_points)
  note t = selected_face_stays_in_bounds [where dm = 2 and fe = square_fe
      and quadrature = "midpoint_rule 1" and flags = demo_flags and ?st0.0 = demo_face
      and i = 0 and j = 0 and cell = "1 / 2" and face_no = 3 and fe' = square_fe
      and boundary = "()" and st = demo_face and st' = st']
  from t demo_face_ctor
  have t1: "selected_face demo_face = 0" "FEFaceValues_sized 2 demo_face"
    "FEFaceValues_shape_value demo_face 0 0 = Inr (mat_el (f_shape_values demo_face ! 0) 0 0)"
    by (simp_all add: square_fe_simps midpoint_rule_simps)
  from t t1(2) r have t2: "FEFaceValues_reinit 2 (1 / 2) 3 square_fe () demo_face \<noteq> Inl ArrayOutOfBounds"
    "selected_face st' = 3" "FEFaceValues_sized 2 st'"
    by simp_all
  from t2(2,3) have t3: "FEFaceValues_shape_value st' 0 0 \<noteq> Inl ArrayOutOfBounds"
    "FEFaceValues_shape_grad st' 0 0 \<noteq> Inl ArrayOutOfBounds"
    by (simp_all add: FEFaceValues_shape_value_def FEFaceValues_shape_grad_def array_at_def
        FEFaceValues_sized_def)
  have b: "f_update_flags bare_face = {}"
    by (simp add: FEFaceValues_ctor_2_scalars [OF bare_face_ctor])
  from b have t4: "FEFaceValues_reinit 2 (1 / 2) 7 square_fe () bare_face
      = Inr (bare_face\<lparr>selected_face := 7\<rparr>)"
    by (rule FEFaceValues_reinit_no_request)
  have t5: "FEFaceValues_shape_value (bare_face\<lparr>selected_face := 7\<rparr>) 0 0 = Inl ArrayOutOfBounds"
    by (simp add: FEFaceValues_shape_value_def array_at_def
        FEFaceValues_ctor_2_scalars [OF bare_face_ctor])
  from t2 t3 r have "\<exists>st'. FEFaceValues_reinit 2 (1 / 2) 3 square_fe () demo_face = Inr st' \<and>
      selected_face st' = 3 \<and> FEFaceValues_sized 2 st' \<and>
      FEFaceValues_shape_value st' 0 0 \<noteq> Inl ArrayOutOfBounds \<and>
      FEFaceValues_shape_grad st' 0 0 \<noteq> Inl ArrayOutOfBounds"
    by blast
  with demo_face_ctor t1 t2(1) b t4 t5 show ?thesis by simp
qed

end
